theory Spec2Isabelle
  imports Main
begin

section \<open>Errors and results\<close>

text \<open>
  The error kinds of the client (section 7 of the specification).  A Go \<^verbatim>\<open>error\<close>
  return is a value of type \<open>error option\<close> (\<open>None\<close> is \<^verbatim>\<open>nil\<close>); a Go pair
  \<^verbatim>\<open>(*T, error)\<close> is a pair \<open>'t option \<times> error option\<close>.
\<close>

datatype error =
    DecodeError
  | SerializationError
  | APIError int string
  | TransportError string
  | Cancelled

section \<open>The HTTP layer\<close>

text \<open>
  Modelled from the spec: the type \<^verbatim>\<open>ListOptions\<close>, whose declaration is missing from the
  sources: the "optional page-size/filter options" and the "caller-supplied page cap (if
  any)" of a listing call (section 4.4).
\<close>

record ListOptions =
  PageSize :: int
  Filter :: string
  PageCap :: "int option"

text \<open>
  A request as handed to the HTTP layer: the ambient context of \<^verbatim>\<open>c.R(ctx)\<close>, the verb and
  path of \<^verbatim>\<open>req.Get(e)\<close>, \<^verbatim>\<open>req.Post(e)\<close>, \<^verbatim>\<open>req.Put(e)\<close>, the body of
  \<^verbatim>\<open>SetBody\<close> and, for a listing, the options and the page asked for.
\<close>

record 'ctx Request =
  Context :: 'ctx
  Method :: string
  URL :: string
  Body :: "string option"
  Options :: "ListOptions option"
  PageParam :: int

definition R :: "'ctx \<Rightarrow> 'ctx Request" where
  "R c = \<lparr>Context = c, Method = [], URL = [], Body = None, Options = None, PageParam = 0\<rparr>"

text \<open>
  The HTTP layer together with the error classifier (\<^verbatim>\<open>coupleAPIErrors(req.Get(e))\<close> and
  its siblings) is an external collaborator (section 6): a function from the request to an
  error or the typed result that \<^verbatim>\<open>SetResult\<close> asked for, a parameter of every operation.
  Every request issued is appended to a log, so that the number and order of network calls
  can be stated.
\<close>

type_synonym ('ctx, 'a) http = "'ctx Request \<Rightarrow> error + 'a"

definition send :: "('ctx, 'a) http \<Rightarrow> string \<Rightarrow> 'ctx Request \<Rightarrow> string \<Rightarrow> 'ctx Request list
    \<Rightarrow> (error + 'a) \<times> 'ctx Request list" where
  "send http verb r e log =
     (let q = r\<lparr>Method := verb, URL := e\<rparr> in (http q, log @ [q]))"

section \<open>Pagination\<close>

text \<open>
  Modelled from the spec: the type \<^verbatim>\<open>PageOptions\<close>, whose declaration is missing from the
  sources: the counts of a page envelope (section 3), "current page number, total page
  count, total result count".  The code reads its fields \<^verbatim>\<open>Pages\<close> and \<^verbatim>\<open>Results\<close>.  A
  paged response embeds it as a pointer, \<open>None\<close> when nil.
\<close>

record PageOptions =
  Page :: int
  Pages :: int
  Results :: int

text \<open>
  \<^verbatim>\<open>EventsPagedResponse\<close> and \<^verbatim>\<open>InstancesPagedResponse\<close>: the embedded page options and
  the records of the page.  A slice is the list of its elements here; \<^verbatim>\<open>append\<close> of no
  element to a nil slice leaves it nil, so the accumulated slice is nil exactly when the
  list is empty.
\<close>

record 'r PagedResponse =
  PageOptions :: "PageOptions option"
  Data :: "'r list"

definition PagedResponse_zero :: "'r PagedResponse" where
  "PagedResponse_zero = \<lparr>PageOptions = None, Data = []\<rparr>"

text \<open>
  The result of \<^verbatim>\<open>castResult\<close>: the Go triple \<^verbatim>\<open>(int, int, error)\<close>, with the receiver and
  the request log as they are after the call.  \<open>None\<close> is the panic of reading
  \<^verbatim>\<open>castedRes.Pages\<close> through a nil \<^verbatim>\<open>*PageOptions\<close>.
\<close>

type_synonym ('ctx, 'r) cast_state = "'r PagedResponse \<times> 'ctx Request list"
type_synonym ('ctx, 'r) cast_result = "((int \<times> int \<times> error option) \<times> ('ctx, 'r) cast_state) option"

definition castResult :: "('ctx, 'r PagedResponse) http \<Rightarrow> 'ctx Request \<Rightarrow> string
    \<Rightarrow> ('ctx, 'r) cast_state \<Rightarrow> ('ctx, 'r) cast_result" where
  "castResult http r e st =
     (case st of (resp, log) \<Rightarrow>
        (case send http ''GET'' r e log of (res, log') \<Rightarrow>
           (case res of
              Inl err \<Rightarrow> Some ((0, 0, Some err), (resp, log'))
            | Inr castedRes \<Rightarrow>
                (let resp' = resp\<lparr>Data := Data resp @ Data castedRes\<rparr> in
                 case PageOptions castedRes of
                   None \<Rightarrow> None
                 | Some po \<Rightarrow> Some ((Pages po, Results po, None), (resp', log'))))))"


section \<open>JSON values and structural decoding\<close>

text \<open>
  A parsed JSON text.  A number literal without fraction and exponent is \<open>JInt\<close>; any other
  number literal is \<open>JFrac m e\<close>, of value \<open>m * 10 ^ e\<close>.  An object keeps its members in
  the order of the text, repeated keys included.
\<close>

datatype json =
    JNull
  | JBool bool
  | JInt int
  | JFrac int int
  | JString string
  | JArray "json list"
  | JObject "(string \<times> json) list"

text \<open>
  The decoder \<^verbatim>\<open>json.Unmarshal\<close> of the standard library, for the Go types the records
  use.  Every decoder takes the JSON value and the value the destination holds, and
  returns the new value or fails; a type mismatch and an error of a custom unmarshaler both
  make \<^verbatim>\<open>json.Unmarshal\<close> return a non-nil error, here \<open>DecodeError\<close> (which of several
  errors the library reports is not modelled).  A JSON null leaves a string, number,
  boolean or struct destination as it is and sets a pointer or slice to nil.  A Go \<^verbatim>\<open>int\<close>
  has 64 bits.
\<close>

definition int_fits :: "int \<Rightarrow> bool" where
  "int_fits n = (- (2 ^ 63) \<le> n \<and> n < 2 ^ 63)"

fun decode_int :: "json \<Rightarrow> int \<Rightarrow> error + int" where
  "decode_int JNull cur = Inr cur"
| "decode_int (JInt n) cur = (if int_fits n then Inr n else Inl DecodeError)"
| "decode_int _ cur = Inl DecodeError"

fun decode_string :: "json \<Rightarrow> string \<Rightarrow> error + string" where
  "decode_string JNull cur = Inr cur"
| "decode_string (JString s) cur = Inr s"
| "decode_string _ cur = Inl DecodeError"

fun decode_bool :: "json \<Rightarrow> bool \<Rightarrow> error + bool" where
  "decode_bool JNull cur = Inr cur"
| "decode_bool (JBool b) cur = Inr b"
| "decode_bool _ cur = Inl DecodeError"

definition bind_res :: "error + 'a \<Rightarrow> ('a \<Rightarrow> error + 'b) \<Rightarrow> error + 'b" where
  "bind_res r f = (case r of Inl e \<Rightarrow> Inl e | Inr x \<Rightarrow> f x)"

definition map_res :: "('a \<Rightarrow> 'b) \<Rightarrow> error + 'a \<Rightarrow> error + 'b" where
  "map_res f r = (case r of Inl e \<Rightarrow> Inl e | Inr x \<Rightarrow> Inr (f x))"

text \<open>
  A pointer destination: null makes it nil; any other value is decoded into the value
  pointed to, a fresh zero value when the pointer is nil.
\<close>

definition decode_ptr :: "(json \<Rightarrow> 'a \<Rightarrow> error + 'a) \<Rightarrow> 'a \<Rightarrow> json \<Rightarrow> 'a option
    \<Rightarrow> error + 'a option" where
  "decode_ptr dec zero v cur =
     (if v = JNull then Inr None
      else map_res Some (dec v (case cur of None \<Rightarrow> zero | Some x \<Rightarrow> x)))"

text \<open>
  A slice destination (\<open>None\<close> is the nil slice): null makes it nil; an array is decoded
  element by element, into the elements the slice already holds where it has them and
  into zero values past its length (the capacity of a slice is not modelled).
\<close>

fun decode_elems :: "(json \<Rightarrow> 'a \<Rightarrow> error + 'a) \<Rightarrow> 'a \<Rightarrow> json list \<Rightarrow> 'a list
    \<Rightarrow> error + 'a list" where
  "decode_elems dec zero [] cur = Inr []"
| "decode_elems dec zero (x # xs) cur =
     bind_res (dec x (case cur of [] \<Rightarrow> zero | c # _ \<Rightarrow> c))
       (\<lambda>y. map_res (\<lambda>ys. y # ys) (decode_elems dec zero xs (tl cur)))"

fun decode_slice :: "(json \<Rightarrow> 'a \<Rightarrow> error + 'a) \<Rightarrow> 'a \<Rightarrow> json \<Rightarrow> 'a list option
    \<Rightarrow> error + 'a list option" where
  "decode_slice dec zero JNull cur = Inr None"
| "decode_slice dec zero (JArray xs) cur =
     map_res Some (decode_elems dec zero xs (case cur of None \<Rightarrow> [] | Some c \<Rightarrow> c))"
| "decode_slice dec zero _ cur = Inl DecodeError"

text \<open>
  A struct destination.  The members of the object are taken in the order of the text;
  each is handed, with its key folded to lower case (field names match without regard to
  the case of ASCII letters; the folding of letters outside ASCII is not modelled), to the
  struct's field decoder, which ignores a key that names no field.  Null leaves the struct
  as it is, and any other value is a type mismatch.
\<close>

definition to_lower :: "char \<Rightarrow> char" where
  "to_lower c =
     (let n = (of_char c :: nat) in if 65 \<le> n \<and> n \<le> 90 then char_of (n + 32) else c)"

definition fold_key :: "string \<Rightarrow> string" where
  "fold_key k = map to_lower k"

fun decode_members :: "(string \<Rightarrow> json \<Rightarrow> 's \<Rightarrow> error + 's) \<Rightarrow> (string \<times> json) list \<Rightarrow> 's
    \<Rightarrow> error + 's" where
  "decode_members field [] s = Inr s"
| "decode_members field (kv # kvs) s =
     bind_res (field (fold_key (fst kv)) (snd kv) s) (decode_members field kvs)"

fun decode_struct :: "(string \<Rightarrow> json \<Rightarrow> 's \<Rightarrow> error + 's) \<Rightarrow> json \<Rightarrow> 's \<Rightarrow> error + 's" where
  "decode_struct field JNull s = Inr s"
| "decode_struct field (JObject kvs) s = decode_members field kvs s"
| "decode_struct field _ s = Inl DecodeError"

text \<open>
  A destination of type \<^verbatim>\<open>any\<close>: the dynamic value \<^verbatim>\<open>json.Unmarshal\<close> stores in an
  interface.  A number becomes a \<^verbatim>\<open>float64\<close>, kept here as the number it was read from
  (rounding is not modelled); a number too large for a \<^verbatim>\<open>float64\<close> is a decode error.
\<close>

datatype any =
    AnyNil
  | AnyBool bool
  | AnyFloat64 int int
  | AnyString string
  | AnySlice "any list"
  | AnyMap "(string \<times> any) list"

definition float64_overflows :: "int \<Rightarrow> int \<Rightarrow> bool" where
  "float64_overflows m e =
     (if 0 \<le> e then 2 ^ 1024 - 2 ^ 970 \<le> \<bar>m\<bar> * 10 ^ nat e
      else (2 ^ 1024 - 2 ^ 970) * 10 ^ nat (- e) \<le> \<bar>m\<bar>)"

fun decode_any :: "json \<Rightarrow> error + any"
  and decode_any_list :: "json list \<Rightarrow> error + any list"
  and decode_any_members :: "(string \<times> json) list \<Rightarrow> error + (string \<times> any) list" where
  "decode_any JNull = Inr AnyNil"
| "decode_any (JBool b) = Inr (AnyBool b)"
| "decode_any (JInt n) = (if float64_overflows n 0 then Inl DecodeError else Inr (AnyFloat64 n 0))"
| "decode_any (JFrac m e) = (if float64_overflows m e then Inl DecodeError else Inr (AnyFloat64 m e))"
| "decode_any (JString s) = Inr (AnyString s)"
| "decode_any (JArray xs) = map_res AnySlice (decode_any_list xs)"
| "decode_any (JObject kvs) = map_res AnyMap (decode_any_members kvs)"
| "decode_any_list [] = Inr []"
| "decode_any_list (x # xs) =
     bind_res (decode_any x) (\<lambda>y. map_res (\<lambda>ys. y # ys) (decode_any_list xs))"
| "decode_any_members [] = Inr []"
| "decode_any_members ((k, v) # kvs) =
     bind_res (decode_any v) (\<lambda>y. map_res (\<lambda>ys. (k, y) # ys) (decode_any_members kvs))"


section \<open>Tolerant decoders\<close>

definition is_digit :: "char \<Rightarrow> bool" where
  "is_digit c = (let n = (of_char c :: nat) in 48 \<le> n \<and> n \<le> 57)"

definition digit_val :: "char \<Rightarrow> nat" where
  "digit_val c = of_char c - 48"

definition number :: "string \<Rightarrow> nat option" where
  "number s =
     (if s \<noteq> [] \<and> list_all is_digit s
      then Some (foldl (\<lambda>a c. 10 * a + digit_val c) 0 s) else None)"

text \<open>A point in time, held as its civil date and time of day in UTC.\<close>

record Time =
  Year :: nat
  Month :: nat
  Day :: nat
  Hour :: nat
  Minute :: nat
  Second :: nat

definition leap_year :: "nat \<Rightarrow> bool" where
  "leap_year y = (y mod 4 = 0 \<and> (y mod 100 \<noteq> 0 \<or> y mod 400 = 0))"

definition days_in_month :: "nat \<Rightarrow> nat \<Rightarrow> nat" where
  "days_in_month y m =
     (if m = 2 then (if leap_year y then 29 else 28)
      else if m = 4 \<or> m = 6 \<or> m = 9 \<or> m = 11 then 30 else 31)"

definition valid_time :: "Time \<Rightarrow> bool" where
  "valid_time t =
     (1 \<le> Month t \<and> Month t \<le> 12 \<and> 1 \<le> Day t \<and> Day t \<le> days_in_month (Year t) (Month t)
      \<and> Hour t < 24 \<and> Minute t < 60 \<and> Second t < 60)"

text \<open>
  Modelled from the spec: the recognized timestamp formats of
  \<^verbatim>\<open>parseabletime.ParseableTime\<close> (package \<^verbatim>\<open>internal/parseabletime\<close>, missing from the
  sources), section 4.1: the primary form \<^verbatim>\<open>YYYY-MM-DD HH:MM:SS\<close> with the separator
  \<open>sep\<close> a space, and the ISO-8601 form with \<open>sep\<close> the letter \<^verbatim>\<open>T\<close>; both are read as
  UTC.  A string of the right shape that names no date (month 13, 30 February) does not
  match.
\<close>

definition parse_layout :: "char \<Rightarrow> string \<Rightarrow> Time option" where
  "parse_layout sep s =
     (if length s = 19 \<and> s ! 4 = CHR ''-'' \<and> s ! 7 = CHR ''-'' \<and> s ! 10 = sep
         \<and> s ! 13 = CHR '':'' \<and> s ! 16 = CHR '':''
      then
        Option.bind (number (take 4 s)) (\<lambda>y.
        Option.bind (number (take 2 (drop 5 s))) (\<lambda>mo.
        Option.bind (number (take 2 (drop 8 s))) (\<lambda>d.
        Option.bind (number (take 2 (drop 11 s))) (\<lambda>h.
        Option.bind (number (take 2 (drop 14 s))) (\<lambda>mi.
        Option.bind (number (take 2 (drop 17 s))) (\<lambda>se.
          (let t = \<lparr>Year = y, Month = mo, Day = d, Hour = h, Minute = mi, Second = se\<rparr>
           in if valid_time t then Some t else None)))))))
      else None)"

text \<open>
  Modelled from the spec: the string of a \<^verbatim>\<open>parseabletime.ParseableTime\<close> (section 4.1), in
  the primary form or in the ISO-8601 form with an optional \<^verbatim>\<open>Z\<close>; \<open>None\<close> when it
  matches none of the recognized formats.
\<close>

definition parse_timestamp :: "string \<Rightarrow> Time option" where
  "parse_timestamp s =
     (case parse_layout CHR '' '' s of
        Some t \<Rightarrow> Some t
      | None \<Rightarrow>
          parse_layout CHR ''T'' (if s \<noteq> [] \<and> last s = CHR ''Z'' then butlast s else s))"

text \<open>
  Modelled from the spec: the decoder of a field of type \<^verbatim>\<open>*parseabletime.ParseableTime\<close>
  (section 4.1): null gives the nil pointer ("no timestamp"), a string in a recognized format
  its time, and anything else "fails with a DecodeError".  An absent member never reaches
  the decoder.
\<close>

fun ParseableTime_decode :: "json \<Rightarrow> error + Time option" where
  "ParseableTime_decode JNull = Inr None"
| "ParseableTime_decode (JString s) =
     (case parse_timestamp s of None \<Rightarrow> Inl DecodeError | Some t \<Rightarrow> Inr (Some t))"
| "ParseableTime_decode _ = Inl DecodeError"

text \<open>The pieces of a string between the occurrences of a separator.\<close>

fun split_on :: "char \<Rightarrow> string \<Rightarrow> string list" where
  "split_on sep [] = [[]]"
| "split_on sep (c # cs) =
     (if c = sep then [] # split_on sep cs
      else (case split_on sep cs of [] \<Rightarrow> [[c]] | w # ws \<Rightarrow> (c # w) # ws))"

text \<open>
  Modelled from the spec: the duration grammar of the field \<^verbatim>\<open>time_remaining\<close> (section
  4.2), \<^verbatim>\<open>H:MM:SS\<close>: hours, two digits of minutes and two of seconds, converted to
  seconds; \<open>None\<close> for a string that does not parse.
\<close>

definition parse_duration :: "string \<Rightarrow> int option" where
  "parse_duration s =
     (case split_on CHR '':'' s of
        [h, m, sec] \<Rightarrow>
          Option.bind (number h) (\<lambda>hh.
          Option.bind (number m) (\<lambda>mm.
          Option.bind (number sec) (\<lambda>ss.
            if length m = 2 \<and> length sec = 2 \<and> mm < 60 \<and> ss < 60
            then Some (int (hh * 3600 + mm * 60 + ss)) else None)))
      | _ \<Rightarrow> None)"

text \<open>
  Modelled from the spec: \<^verbatim>\<open>duration.UnmarshalTimeRemaining\<close> (package
  \<^verbatim>\<open>internal/duration\<close>, missing from the sources), the tolerant duration decoder of
  section 4.2.  Its argument is the \<^verbatim>\<open>json.RawMessage\<close> of the field, \<open>None\<close> when the
  field is absent.  "Null or absent: no value (not zero, not error).  Bare integer: that
  value directly.  Parseable duration string: its equivalent converted to seconds.
  Unparseable string: no value rather than raising."  The decoder has no error result.
  The specification names no other wire type; they are no value here.
\<close>

fun UnmarshalTimeRemaining :: "json option \<Rightarrow> int option" where
  "UnmarshalTimeRemaining None = None"
| "UnmarshalTimeRemaining (Some JNull) = None"
| "UnmarshalTimeRemaining (Some (JInt n)) = Some n"
| "UnmarshalTimeRemaining (Some (JString s)) = parse_duration s"
| "UnmarshalTimeRemaining (Some _) = None"


section \<open>Account events\<close>

text \<open>
  \<^verbatim>\<open>EventEntity\<close>.  The field \<^verbatim>\<open>ID\<close> is declared \<^verbatim>\<open>any\<close>; \<^verbatim>\<open>EntityType\<close> is a string
  type.
\<close>

record EventEntity =
  EventEntity_ID :: any
  EventEntity_Label :: string
  EventEntity_Type :: string
  EventEntity_Status :: string
  EventEntity_URL :: string

definition EventEntity_zero :: EventEntity where
  "EventEntity_zero =
     \<lparr>EventEntity_ID = AnyNil, EventEntity_Label = [], EventEntity_Type = [],
      EventEntity_Status = [], EventEntity_URL = []\<rparr>"

definition EventEntity_field :: "string \<Rightarrow> json \<Rightarrow> EventEntity \<Rightarrow> error + EventEntity" where
  "EventEntity_field k v s =
     (if k = ''id'' then map_res (\<lambda>x. s\<lparr>EventEntity_ID := x\<rparr>) (decode_any v)
      else if k = ''label'' then
        map_res (\<lambda>x. s\<lparr>EventEntity_Label := x\<rparr>) (decode_string v (EventEntity_Label s))
      else if k = ''type'' then
        map_res (\<lambda>x. s\<lparr>EventEntity_Type := x\<rparr>) (decode_string v (EventEntity_Type s))
      else if k = ''status'' then
        map_res (\<lambda>x. s\<lparr>EventEntity_Status := x\<rparr>) (decode_string v (EventEntity_Status s))
      else if k = ''url'' then
        map_res (\<lambda>x. s\<lparr>EventEntity_URL := x\<rparr>) (decode_string v (EventEntity_URL s))
      else Inr s)"

definition EventEntity_decode :: "json \<Rightarrow> EventEntity \<Rightarrow> error + EventEntity" where
  "EventEntity_decode = decode_struct EventEntity_field"

text \<open>
  \<^verbatim>\<open>Event\<close>.  \<^verbatim>\<open>EventStatus\<close> and \<^verbatim>\<open>EventAction\<close> are string types, decoded without
  validation.  \<^verbatim>\<open>TimeRemaining\<close> and \<^verbatim>\<open>Created\<close> carry the tag \<^verbatim>\<open>json:"-"\<close>: structural
  decoding never touches them.
\<close>

record Event =
  Event_ID :: int
  Event_Status :: string
  Event_Action :: string
  Event_PercentComplete :: int
  Event_Rate :: "string option"
  Event_Read :: bool
  Event_Seen :: bool
  Event_TimeRemaining :: "int option"
  Event_Username :: string
  Event_Entity :: "EventEntity option"
  Event_SecondaryEntity :: "EventEntity option"
  Event_Created :: "Time option"

definition Event_zero :: Event where
  "Event_zero =
     \<lparr>Event_ID = 0, Event_Status = [], Event_Action = [], Event_PercentComplete = 0,
      Event_Rate = None, Event_Read = False, Event_Seen = False, Event_TimeRemaining = None,
      Event_Username = [], Event_Entity = None, Event_SecondaryEntity = None,
      Event_Created = None\<rparr>"

text \<open>The fields of \<^verbatim>\<open>type Mask Event\<close> that structural decoding sees.\<close>

definition Event_Mask_field :: "string \<Rightarrow> json \<Rightarrow> Event \<Rightarrow> error + Event" where
  "Event_Mask_field k v m =
     (if k = ''id'' then map_res (\<lambda>x. m\<lparr>Event_ID := x\<rparr>) (decode_int v (Event_ID m))
      else if k = ''status'' then
        map_res (\<lambda>x. m\<lparr>Event_Status := x\<rparr>) (decode_string v (Event_Status m))
      else if k = ''action'' then
        map_res (\<lambda>x. m\<lparr>Event_Action := x\<rparr>) (decode_string v (Event_Action m))
      else if k = ''percent_complete'' then
        map_res (\<lambda>x. m\<lparr>Event_PercentComplete := x\<rparr>) (decode_int v (Event_PercentComplete m))
      else if k = ''rate'' then
        map_res (\<lambda>x. m\<lparr>Event_Rate := x\<rparr>) (decode_ptr decode_string [] v (Event_Rate m))
      else if k = ''read'' then
        map_res (\<lambda>x. m\<lparr>Event_Read := x\<rparr>) (decode_bool v (Event_Read m))
      else if k = ''seen'' then
        map_res (\<lambda>x. m\<lparr>Event_Seen := x\<rparr>) (decode_bool v (Event_Seen m))
      else if k = ''username'' then
        map_res (\<lambda>x. m\<lparr>Event_Username := x\<rparr>) (decode_string v (Event_Username m))
      else if k = ''entity'' then
        map_res (\<lambda>x. m\<lparr>Event_Entity := x\<rparr>)
          (decode_ptr EventEntity_decode EventEntity_zero v (Event_Entity m))
      else if k = ''secondary_entity'' then
        map_res (\<lambda>x. m\<lparr>Event_SecondaryEntity := x\<rparr>)
          (decode_ptr EventEntity_decode EventEntity_zero v (Event_SecondaryEntity m))
      else Inr m)"

text \<open>
  The local struct \<^verbatim>\<open>p\<close> of \<^verbatim>\<open>Event.UnmarshalJSON\<close>: the embedded \<^verbatim>\<open>*Mask\<close>, which is the
  receiver itself, and the two fields that shadow the masked ones.  \<^verbatim>\<open>json.RawMessage\<close>
  keeps the value of the member as it stands, null included; it is \<open>None\<close> while no member
  has set it.
\<close>

record Event_p =
  Event_p_Mask :: Event
  Event_p_Created :: "Time option"
  Event_p_TimeRemaining :: "json option"

definition Event_p_field :: "string \<Rightarrow> json \<Rightarrow> Event_p \<Rightarrow> error + Event_p" where
  "Event_p_field k v p =
     (if k = ''created'' then map_res (\<lambda>x. p\<lparr>Event_p_Created := x\<rparr>) (ParseableTime_decode v)
      else if k = ''time_remaining'' then Inr (p\<lparr>Event_p_TimeRemaining := Some v\<rparr>)
      else map_res (\<lambda>m. p\<lparr>Event_p_Mask := m\<rparr>) (Event_Mask_field k v (Event_p_Mask p)))"

text \<open>
  \<^verbatim>\<open>Event.UnmarshalJSON\<close>, on the receiver \<open>i\<close> and the parsed text \<open>b\<close>.  On an error the
  method returns it; the receiver, which the decoder may have written in part, is not part
  of the result then.
\<close>

definition Event_UnmarshalJSON :: "Event \<Rightarrow> json \<Rightarrow> error + Event" where
  "Event_UnmarshalJSON i b =
     (case decode_struct Event_p_field b
             \<lparr>Event_p_Mask = i, Event_p_Created = None, Event_p_TimeRemaining = None\<rparr> of
        Inl err \<Rightarrow> Inl err
      | Inr p \<Rightarrow>
          Inr ((Event_p_Mask p)
                 \<lparr>Event_Created := Event_p_Created p,
                  Event_TimeRemaining := UnmarshalTimeRemaining (Event_p_TimeRemaining p)\<rparr>))"


section \<open>Instances\<close>

record InstanceSpec =
  InstanceSpec_Disk :: int
  InstanceSpec_Memory :: int
  InstanceSpec_VCPUs :: int
  InstanceSpec_Transfer :: int
  InstanceSpec_GPUs :: int

definition InstanceSpec_zero :: InstanceSpec where
  "InstanceSpec_zero =
     \<lparr>InstanceSpec_Disk = 0, InstanceSpec_Memory = 0, InstanceSpec_VCPUs = 0,
      InstanceSpec_Transfer = 0, InstanceSpec_GPUs = 0\<rparr>"

definition InstanceSpec_field :: "string \<Rightarrow> json \<Rightarrow> InstanceSpec \<Rightarrow> error + InstanceSpec" where
  "InstanceSpec_field k v s =
     (if k = ''disk'' then
        map_res (\<lambda>x. s\<lparr>InstanceSpec_Disk := x\<rparr>) (decode_int v (InstanceSpec_Disk s))
      else if k = ''memory'' then
        map_res (\<lambda>x. s\<lparr>InstanceSpec_Memory := x\<rparr>) (decode_int v (InstanceSpec_Memory s))
      else if k = ''vcpus'' then
        map_res (\<lambda>x. s\<lparr>InstanceSpec_VCPUs := x\<rparr>) (decode_int v (InstanceSpec_VCPUs s))
      else if k = ''transfer'' then
        map_res (\<lambda>x. s\<lparr>InstanceSpec_Transfer := x\<rparr>) (decode_int v (InstanceSpec_Transfer s))
      else if k = ''gpus'' then
        map_res (\<lambda>x. s\<lparr>InstanceSpec_GPUs := x\<rparr>) (decode_int v (InstanceSpec_GPUs s))
      else Inr s)"

record InstanceAlert =
  InstanceAlert_CPU :: int
  InstanceAlert_IO :: int
  InstanceAlert_NetworkIn :: int
  InstanceAlert_NetworkOut :: int
  InstanceAlert_TransferQuota :: int

definition InstanceAlert_zero :: InstanceAlert where
  "InstanceAlert_zero =
     \<lparr>InstanceAlert_CPU = 0, InstanceAlert_IO = 0, InstanceAlert_NetworkIn = 0,
      InstanceAlert_NetworkOut = 0, InstanceAlert_TransferQuota = 0\<rparr>"

definition InstanceAlert_field :: "string \<Rightarrow> json \<Rightarrow> InstanceAlert \<Rightarrow> error + InstanceAlert" where
  "InstanceAlert_field k v s =
     (if k = ''cpu'' then
        map_res (\<lambda>x. s\<lparr>InstanceAlert_CPU := x\<rparr>) (decode_int v (InstanceAlert_CPU s))
      else if k = ''io'' then
        map_res (\<lambda>x. s\<lparr>InstanceAlert_IO := x\<rparr>) (decode_int v (InstanceAlert_IO s))
      else if k = ''network_in'' then
        map_res (\<lambda>x. s\<lparr>InstanceAlert_NetworkIn := x\<rparr>) (decode_int v (InstanceAlert_NetworkIn s))
      else if k = ''network_out'' then
        map_res (\<lambda>x. s\<lparr>InstanceAlert_NetworkOut := x\<rparr>) (decode_int v (InstanceAlert_NetworkOut s))
      else if k = ''transfer_quota'' then
        map_res (\<lambda>x. s\<lparr>InstanceAlert_TransferQuota := x\<rparr>)
          (decode_int v (InstanceAlert_TransferQuota s))
      else Inr s)"

text \<open>The anonymous struct of \<^verbatim>\<open>InstanceBackup.Schedule\<close>.\<close>

record Schedule =
  Schedule_Day :: string
  Schedule_Window :: string

definition Schedule_zero :: Schedule where
  "Schedule_zero = \<lparr>Schedule_Day = [], Schedule_Window = []\<rparr>"

definition Schedule_field :: "string \<Rightarrow> json \<Rightarrow> Schedule \<Rightarrow> error + Schedule" where
  "Schedule_field k v s =
     (if k = ''day'' then
        map_res (\<lambda>x. s\<lparr>Schedule_Day := x\<rparr>) (decode_string v (Schedule_Day s))
      else if k = ''window'' then
        map_res (\<lambda>x. s\<lparr>Schedule_Window := x\<rparr>) (decode_string v (Schedule_Window s))
      else Inr s)"

record InstanceBackup =
  InstanceBackup_Available :: bool
  InstanceBackup_Enabled :: bool
  InstanceBackup_Schedule :: Schedule

definition InstanceBackup_zero :: InstanceBackup where
  "InstanceBackup_zero =
     \<lparr>InstanceBackup_Available = False, InstanceBackup_Enabled = False,
      InstanceBackup_Schedule = Schedule_zero\<rparr>"

definition InstanceBackup_field :: "string \<Rightarrow> json \<Rightarrow> InstanceBackup \<Rightarrow> error + InstanceBackup" where
  "InstanceBackup_field k v s =
     (if k = ''available'' then
        map_res (\<lambda>x. s\<lparr>InstanceBackup_Available := x\<rparr>) (decode_bool v (InstanceBackup_Available s))
      else if k = ''enabled'' then
        map_res (\<lambda>x. s\<lparr>InstanceBackup_Enabled := x\<rparr>) (decode_bool v (InstanceBackup_Enabled s))
      else if k = ''schedule'' then
        map_res (\<lambda>x. s\<lparr>InstanceBackup_Schedule := x\<rparr>)
          (decode_struct Schedule_field v (InstanceBackup_Schedule s))
      else Inr s)"

text \<open>\<^verbatim>\<open>InstancePlacementGroup\<close>; \<^verbatim>\<open>PlacementGroupAffinityType\<close> is a string type.\<close>

record InstancePlacementGroup =
  InstancePlacementGroup_ID :: int
  InstancePlacementGroup_Label :: string
  InstancePlacementGroup_AffinityType :: string
  InstancePlacementGroup_IsStrict :: bool

definition InstancePlacementGroup_zero :: InstancePlacementGroup where
  "InstancePlacementGroup_zero =
     \<lparr>InstancePlacementGroup_ID = 0, InstancePlacementGroup_Label = [],
      InstancePlacementGroup_AffinityType = [], InstancePlacementGroup_IsStrict = False\<rparr>"

definition InstancePlacementGroup_field ::
    "string \<Rightarrow> json \<Rightarrow> InstancePlacementGroup \<Rightarrow> error + InstancePlacementGroup" where
  "InstancePlacementGroup_field k v s =
     (if k = ''id'' then
        map_res (\<lambda>x. s\<lparr>InstancePlacementGroup_ID := x\<rparr>)
          (decode_int v (InstancePlacementGroup_ID s))
      else if k = ''label'' then
        map_res (\<lambda>x. s\<lparr>InstancePlacementGroup_Label := x\<rparr>)
          (decode_string v (InstancePlacementGroup_Label s))
      else if k = ''affinity_type'' then
        map_res (\<lambda>x. s\<lparr>InstancePlacementGroup_AffinityType := x\<rparr>)
          (decode_string v (InstancePlacementGroup_AffinityType s))
      else if k = ''is_strict'' then
        map_res (\<lambda>x. s\<lparr>InstancePlacementGroup_IsStrict := x\<rparr>)
          (decode_bool v (InstancePlacementGroup_IsStrict s))
      else Inr s)"

text \<open>
  An element of \<^verbatim>\<open>IPv4 []*net.IP\<close>.  The type \<^verbatim>\<open>net.IP\<close> is the standard library's; it
  reads itself from the text of a JSON string with its method \<^verbatim>\<open>UnmarshalText\<close>, which is
  the parameter \<open>ip_text\<close> here (\<open>None\<close> when the method returns an error).
\<close>

definition decode_IP :: "(string \<Rightarrow> 'ip option) \<Rightarrow> json \<Rightarrow> 'ip option \<Rightarrow> error + 'ip option" where
  "decode_IP ip_text v cur =
     (case v of
        JNull \<Rightarrow> Inr None
      | JString s \<Rightarrow> (case ip_text s of None \<Rightarrow> Inl DecodeError | Some a \<Rightarrow> Inr (Some a))
      | _ \<Rightarrow> Inl DecodeError)"

text \<open>\<^verbatim>\<open>Instance\<close>.  \<^verbatim>\<open>InstanceStatus\<close> is a string type.\<close>

record 'ip Instance =
  Instance_ID :: int
  Instance_Created :: "Time option"
  Instance_Updated :: "Time option"
  Instance_Region :: string
  Instance_Alerts :: "InstanceAlert option"
  Instance_Backups :: "InstanceBackup option"
  Instance_Image :: string
  Instance_Group :: string
  Instance_IPv4 :: "'ip option list option"
  Instance_IPv6 :: string
  Instance_Label :: string
  Instance_Type :: string
  Instance_Status :: string
  Instance_HasUserData :: bool
  Instance_Hypervisor :: string
  Instance_HostUUID :: string
  Instance_Specs :: "InstanceSpec option"
  Instance_WatchdogEnabled :: bool
  Instance_Tags :: "string list option"
  Instance_PlacementGroup :: "InstancePlacementGroup option"

definition Instance_zero :: "'ip Instance" where
  "Instance_zero =
     \<lparr>Instance_ID = 0, Instance_Created = None, Instance_Updated = None, Instance_Region = [],
      Instance_Alerts = None, Instance_Backups = None, Instance_Image = [], Instance_Group = [],
      Instance_IPv4 = None, Instance_IPv6 = [], Instance_Label = [], Instance_Type = [],
      Instance_Status = [], Instance_HasUserData = False, Instance_Hypervisor = [],
      Instance_HostUUID = [], Instance_Specs = None, Instance_WatchdogEnabled = False,
      Instance_Tags = None, Instance_PlacementGroup = None\<rparr>"

text \<open>The fields of \<^verbatim>\<open>type Mask Instance\<close> that structural decoding sees.\<close>

definition Instance_Mask_field ::
    "(string \<Rightarrow> 'ip option) \<Rightarrow> string \<Rightarrow> json \<Rightarrow> 'ip Instance \<Rightarrow> error + 'ip Instance" where
  "Instance_Mask_field ip_text k v m =
     (if k = ''id'' then map_res (\<lambda>x. m\<lparr>Instance_ID := x\<rparr>) (decode_int v (Instance_ID m))
      else if k = ''region'' then
        map_res (\<lambda>x. m\<lparr>Instance_Region := x\<rparr>) (decode_string v (Instance_Region m))
      else if k = ''alerts'' then
        map_res (\<lambda>x. m\<lparr>Instance_Alerts := x\<rparr>)
          (decode_ptr (decode_struct InstanceAlert_field) InstanceAlert_zero v (Instance_Alerts m))
      else if k = ''backups'' then
        map_res (\<lambda>x. m\<lparr>Instance_Backups := x\<rparr>)
          (decode_ptr (decode_struct InstanceBackup_field) InstanceBackup_zero v
             (Instance_Backups m))
      else if k = ''image'' then
        map_res (\<lambda>x. m\<lparr>Instance_Image := x\<rparr>) (decode_string v (Instance_Image m))
      else if k = ''group'' then
        map_res (\<lambda>x. m\<lparr>Instance_Group := x\<rparr>) (decode_string v (Instance_Group m))
      else if k = ''ipv4'' then
        map_res (\<lambda>x. m\<lparr>Instance_IPv4 := x\<rparr>)
          (decode_slice (decode_IP ip_text) None v (Instance_IPv4 m))
      else if k = ''ipv6'' then
        map_res (\<lambda>x. m\<lparr>Instance_IPv6 := x\<rparr>) (decode_string v (Instance_IPv6 m))
      else if k = ''label'' then
        map_res (\<lambda>x. m\<lparr>Instance_Label := x\<rparr>) (decode_string v (Instance_Label m))
      else if k = ''type'' then
        map_res (\<lambda>x. m\<lparr>Instance_Type := x\<rparr>) (decode_string v (Instance_Type m))
      else if k = ''status'' then
        map_res (\<lambda>x. m\<lparr>Instance_Status := x\<rparr>) (decode_string v (Instance_Status m))
      else if k = ''has_user_data'' then
        map_res (\<lambda>x. m\<lparr>Instance_HasUserData := x\<rparr>) (decode_bool v (Instance_HasUserData m))
      else if k = ''hypervisor'' then
        map_res (\<lambda>x. m\<lparr>Instance_Hypervisor := x\<rparr>) (decode_string v (Instance_Hypervisor m))
      else if k = ''host_uuid'' then
        map_res (\<lambda>x. m\<lparr>Instance_HostUUID := x\<rparr>) (decode_string v (Instance_HostUUID m))
      else if k = ''specs'' then
        map_res (\<lambda>x. m\<lparr>Instance_Specs := x\<rparr>)
          (decode_ptr (decode_struct InstanceSpec_field) InstanceSpec_zero v (Instance_Specs m))
      else if k = ''watchdog_enabled'' then
        map_res (\<lambda>x. m\<lparr>Instance_WatchdogEnabled := x\<rparr>)
          (decode_bool v (Instance_WatchdogEnabled m))
      else if k = ''tags'' then
        map_res (\<lambda>x. m\<lparr>Instance_Tags := x\<rparr>) (decode_slice decode_string [] v (Instance_Tags m))
      else if k = ''placement_group'' then
        map_res (\<lambda>x. m\<lparr>Instance_PlacementGroup := x\<rparr>)
          (decode_ptr (decode_struct InstancePlacementGroup_field) InstancePlacementGroup_zero v
             (Instance_PlacementGroup m))
      else Inr m)"

text \<open>The local struct \<^verbatim>\<open>p\<close> of \<^verbatim>\<open>Instance.UnmarshalJSON\<close>.\<close>

record 'ip Instance_p =
  Instance_p_Mask :: "'ip Instance"
  Instance_p_Created :: "Time option"
  Instance_p_Updated :: "Time option"

definition Instance_p_field ::
    "(string \<Rightarrow> 'ip option) \<Rightarrow> string \<Rightarrow> json \<Rightarrow> 'ip Instance_p \<Rightarrow> error + 'ip Instance_p" where
  "Instance_p_field ip_text k v p =
     (if k = ''created'' then
        map_res (\<lambda>x. p\<lparr>Instance_p_Created := x\<rparr>) (ParseableTime_decode v)
      else if k = ''updated'' then
        map_res (\<lambda>x. p\<lparr>Instance_p_Updated := x\<rparr>) (ParseableTime_decode v)
      else map_res (\<lambda>m. p\<lparr>Instance_p_Mask := m\<rparr>)
             (Instance_Mask_field ip_text k v (Instance_p_Mask p)))"

definition Instance_UnmarshalJSON ::
    "(string \<Rightarrow> 'ip option) \<Rightarrow> 'ip Instance \<Rightarrow> json \<Rightarrow> error + 'ip Instance" where
  "Instance_UnmarshalJSON ip_text i b =
     (case decode_struct (Instance_p_field ip_text) b
             \<lparr>Instance_p_Mask = i, Instance_p_Created = None, Instance_p_Updated = None\<rparr> of
        Inl err \<Rightarrow> Inl err
      | Inr p \<Rightarrow>
          Inr ((Instance_p_Mask p)
                 \<lparr>Instance_Created := Instance_p_Created p,
                  Instance_Updated := Instance_p_Updated p\<rparr>))"


section \<open>Serialization of options records\<close>

text \<open>
  \<^verbatim>\<open>json.Marshal\<close> of the standard library walks the fields of a struct in their order
  and writes each under the key of its tag; a field tagged \<^verbatim>\<open>omitempty\<close> is left out when
  its value is empty, which is: false, 0, a nil pointer, and an empty (or nil) slice, map
  or string.  A struct value is never empty.  A field is described by its key, whether it
  is left out, and its JSON value.
\<close>

datatype tag = Plain | OmitEmpty

type_synonym jfield = "string \<times> bool \<times> json"

definition struct_field :: "string \<Rightarrow> tag \<Rightarrow> bool \<Rightarrow> json \<Rightarrow> jfield" where
  "struct_field k t is_empty v = (k, t = OmitEmpty \<and> is_empty, v)"

definition f_string :: "string \<Rightarrow> tag \<Rightarrow> string \<Rightarrow> jfield" where
  "f_string k t s = struct_field k t (s = []) (JString s)"

definition f_int :: "string \<Rightarrow> tag \<Rightarrow> int \<Rightarrow> jfield" where
  "f_int k t n = struct_field k t (n = 0) (JInt n)"

definition f_bool :: "string \<Rightarrow> tag \<Rightarrow> bool \<Rightarrow> jfield" where
  "f_bool k t b = struct_field k t (b = False) (JBool b)"

definition f_ptr :: "string \<Rightarrow> tag \<Rightarrow> ('a \<Rightarrow> json) \<Rightarrow> 'a option \<Rightarrow> jfield" where
  "f_ptr k t enc p = struct_field k t (p = None) (case p of None \<Rightarrow> JNull | Some x \<Rightarrow> enc x)"

definition enc_slice :: "('a \<Rightarrow> json) \<Rightarrow> 'a list option \<Rightarrow> json" where
  "enc_slice enc xs = (case xs of None \<Rightarrow> JNull | Some l \<Rightarrow> JArray (map enc l))"

definition f_slice :: "string \<Rightarrow> tag \<Rightarrow> ('a \<Rightarrow> json) \<Rightarrow> 'a list option \<Rightarrow> jfield" where
  "f_slice k t enc xs = struct_field k t (xs = None \<or> xs = Some []) (enc_slice enc xs)"

text \<open>
  A \<^verbatim>\<open>map[string]string\<close> is the list of its entries in the order of their keys, the
  order in which \<^verbatim>\<open>json.Marshal\<close> writes them; \<open>None\<close> is the nil map.
\<close>

definition f_map :: "string \<Rightarrow> tag \<Rightarrow> (string \<times> string) list option \<Rightarrow> jfield" where
  "f_map k t m =
     struct_field k t (m = None \<or> m = Some [])
       (case m of None \<Rightarrow> JNull | Some l \<Rightarrow> JObject (map (\<lambda>kv. (fst kv, JString (snd kv))) l))"

definition f_struct :: "string \<Rightarrow> tag \<Rightarrow> json \<Rightarrow> jfield" where
  "f_struct k t v = struct_field k t False v"

definition marshal_struct :: "jfield list \<Rightarrow> json" where
  "marshal_struct fs =
     JObject (map (\<lambda>f. (fst f, snd (snd f))) (filter (\<lambda>f. \<not> fst (snd f)) fs))"

text \<open>The member of a JSON object under a key, if the object has one.\<close>

fun object_member :: "json \<Rightarrow> string \<Rightarrow> json option" where
  "object_member (JObject kvs) k = map_of kvs k"
| "object_member _ k = None"

definition InstanceAlert_json :: "InstanceAlert \<Rightarrow> json" where
  "InstanceAlert_json a =
     marshal_struct
       [f_int ''cpu'' Plain (InstanceAlert_CPU a),
        f_int ''io'' Plain (InstanceAlert_IO a),
        f_int ''network_in'' Plain (InstanceAlert_NetworkIn a),
        f_int ''network_out'' Plain (InstanceAlert_NetworkOut a),
        f_int ''transfer_quota'' Plain (InstanceAlert_TransferQuota a)]"

definition Schedule_json :: "Schedule \<Rightarrow> json" where
  "Schedule_json s =
     marshal_struct
       [f_string ''day'' OmitEmpty (Schedule_Day s),
        f_string ''window'' OmitEmpty (Schedule_Window s)]"

definition InstanceBackup_json :: "InstanceBackup \<Rightarrow> json" where
  "InstanceBackup_json b =
     marshal_struct
       [f_bool ''available'' OmitEmpty (InstanceBackup_Available b),
        f_bool ''enabled'' OmitEmpty (InstanceBackup_Enabled b),
        f_struct ''schedule'' OmitEmpty (Schedule_json (InstanceBackup_Schedule b))]"

record InstanceMetadataOptions =
  InstanceMetadataOptions_UserData :: string

definition InstanceMetadataOptions_json :: "InstanceMetadataOptions \<Rightarrow> json" where
  "InstanceMetadataOptions_json m =
     marshal_struct [f_string ''user_data'' OmitEmpty (InstanceMetadataOptions_UserData m)]"

record InstanceCreatePlacementGroupOptions =
  InstanceCreatePlacementGroupOptions_ID :: int
  InstanceCreatePlacementGroupOptions_CompliantOnly :: "bool option"

definition InstanceCreatePlacementGroupOptions_json ::
    "InstanceCreatePlacementGroupOptions \<Rightarrow> json" where
  "InstanceCreatePlacementGroupOptions_json g =
     marshal_struct
       [f_int ''id'' Plain (InstanceCreatePlacementGroupOptions_ID g),
        f_ptr ''compliant_only'' OmitEmpty JBool
          (InstanceCreatePlacementGroupOptions_CompliantOnly g)]"

text \<open>
  \<^verbatim>\<open>InstanceCreateOptions\<close>.  The declaration of the element type of \<^verbatim>\<open>Interfaces\<close>,
  \<^verbatim>\<open>InstanceConfigInterfaceCreateOptions\<close>, is missing from the sources: it is the type
  parameter \<open>'iface\<close>, and its encoding a parameter of the serialization.
\<close>

record 'iface InstanceCreateOptions =
  InstanceCreateOptions_Region :: string
  InstanceCreateOptions_Type :: string
  InstanceCreateOptions_Label :: string
  InstanceCreateOptions_RootPass :: string
  InstanceCreateOptions_AuthorizedKeys :: "string list option"
  InstanceCreateOptions_AuthorizedUsers :: "string list option"
  InstanceCreateOptions_StackScriptID :: int
  InstanceCreateOptions_StackScriptData :: "(string \<times> string) list option"
  InstanceCreateOptions_BackupID :: int
  InstanceCreateOptions_Image :: string
  InstanceCreateOptions_Interfaces :: "'iface list option"
  InstanceCreateOptions_BackupsEnabled :: bool
  InstanceCreateOptions_PrivateIP :: bool
  InstanceCreateOptions_Tags :: "string list option"
  InstanceCreateOptions_Metadata :: "InstanceMetadataOptions option"
  InstanceCreateOptions_FirewallID :: int
  InstanceCreateOptions_PlacementGroup :: "InstanceCreatePlacementGroupOptions option"
  InstanceCreateOptions_SwapSize :: "int option"
  InstanceCreateOptions_Booted :: "bool option"
  InstanceCreateOptions_Group :: string

definition InstanceCreateOptions_zero :: "'iface InstanceCreateOptions" where
  "InstanceCreateOptions_zero =
     \<lparr>InstanceCreateOptions_Region = [], InstanceCreateOptions_Type = [],
      InstanceCreateOptions_Label = [], InstanceCreateOptions_RootPass = [],
      InstanceCreateOptions_AuthorizedKeys = None, InstanceCreateOptions_AuthorizedUsers = None,
      InstanceCreateOptions_StackScriptID = 0, InstanceCreateOptions_StackScriptData = None,
      InstanceCreateOptions_BackupID = 0, InstanceCreateOptions_Image = [],
      InstanceCreateOptions_Interfaces = None, InstanceCreateOptions_BackupsEnabled = False,
      InstanceCreateOptions_PrivateIP = False, InstanceCreateOptions_Tags = None,
      InstanceCreateOptions_Metadata = None, InstanceCreateOptions_FirewallID = 0,
      InstanceCreateOptions_PlacementGroup = None, InstanceCreateOptions_SwapSize = None,
      InstanceCreateOptions_Booted = None, InstanceCreateOptions_Group = []\<rparr>"

definition InstanceCreateOptions_json ::
    "('iface \<Rightarrow> json) \<Rightarrow> 'iface InstanceCreateOptions \<Rightarrow> json" where
  "InstanceCreateOptions_json enc_iface opts =
     marshal_struct
       [f_string ''region'' Plain (InstanceCreateOptions_Region opts),
        f_string ''type'' Plain (InstanceCreateOptions_Type opts),
        f_string ''label'' OmitEmpty (InstanceCreateOptions_Label opts),
        f_string ''root_pass'' OmitEmpty (InstanceCreateOptions_RootPass opts),
        f_slice ''authorized_keys'' OmitEmpty JString (InstanceCreateOptions_AuthorizedKeys opts),
        f_slice ''authorized_users'' OmitEmpty JString (InstanceCreateOptions_AuthorizedUsers opts),
        f_int ''stackscript_id'' OmitEmpty (InstanceCreateOptions_StackScriptID opts),
        f_map ''stackscript_data'' OmitEmpty (InstanceCreateOptions_StackScriptData opts),
        f_int ''backup_id'' OmitEmpty (InstanceCreateOptions_BackupID opts),
        f_string ''image'' OmitEmpty (InstanceCreateOptions_Image opts),
        f_slice ''interfaces'' OmitEmpty enc_iface (InstanceCreateOptions_Interfaces opts),
        f_bool ''backups_enabled'' OmitEmpty (InstanceCreateOptions_BackupsEnabled opts),
        f_bool ''private_ip'' OmitEmpty (InstanceCreateOptions_PrivateIP opts),
        f_slice ''tags'' OmitEmpty JString (InstanceCreateOptions_Tags opts),
        f_ptr ''metadata'' OmitEmpty InstanceMetadataOptions_json
          (InstanceCreateOptions_Metadata opts),
        f_int ''firewall_id'' OmitEmpty (InstanceCreateOptions_FirewallID opts),
        f_ptr ''placement_group'' OmitEmpty InstanceCreatePlacementGroupOptions_json
          (InstanceCreateOptions_PlacementGroup opts),
        f_ptr ''swap_size'' OmitEmpty JInt (InstanceCreateOptions_SwapSize opts),
        f_ptr ''booted'' OmitEmpty JBool (InstanceCreateOptions_Booted opts),
        f_string ''group'' OmitEmpty (InstanceCreateOptions_Group opts)]"

text \<open>\<^verbatim>\<open>InstanceUpdateOptions\<close>; \<^verbatim>\<open>Tags\<close> is a pointer to a slice.\<close>

record InstanceUpdateOptions =
  InstanceUpdateOptions_Label :: string
  InstanceUpdateOptions_Backups :: "InstanceBackup option"
  InstanceUpdateOptions_Alerts :: "InstanceAlert option"
  InstanceUpdateOptions_WatchdogEnabled :: "bool option"
  InstanceUpdateOptions_Tags :: "string list option option"
  InstanceUpdateOptions_Group :: "string option"

definition InstanceUpdateOptions_zero :: InstanceUpdateOptions where
  "InstanceUpdateOptions_zero =
     \<lparr>InstanceUpdateOptions_Label = [], InstanceUpdateOptions_Backups = None,
      InstanceUpdateOptions_Alerts = None, InstanceUpdateOptions_WatchdogEnabled = None,
      InstanceUpdateOptions_Tags = None, InstanceUpdateOptions_Group = None\<rparr>"

definition InstanceUpdateOptions_json :: "InstanceUpdateOptions \<Rightarrow> json" where
  "InstanceUpdateOptions_json opts =
     marshal_struct
       [f_string ''label'' OmitEmpty (InstanceUpdateOptions_Label opts),
        f_ptr ''backups'' OmitEmpty InstanceBackup_json (InstanceUpdateOptions_Backups opts),
        f_ptr ''alerts'' OmitEmpty InstanceAlert_json (InstanceUpdateOptions_Alerts opts),
        f_ptr ''watchdog_enabled'' OmitEmpty JBool (InstanceUpdateOptions_WatchdogEnabled opts),
        f_ptr ''tags'' OmitEmpty (enc_slice JString) (InstanceUpdateOptions_Tags opts),
        f_ptr ''group'' OmitEmpty JString (InstanceUpdateOptions_Group opts)]"

text \<open>\<^verbatim>\<open>Instance.GetUpdateOptions\<close>; \<^verbatim>\<open>&i.Group\<close> is \<open>Some (Instance_Group i)\<close>.\<close>

definition GetUpdateOptions :: "'ip Instance \<Rightarrow> InstanceUpdateOptions" where
  "GetUpdateOptions i =
     \<lparr>InstanceUpdateOptions_Label = Instance_Label i,
      InstanceUpdateOptions_Backups = Instance_Backups i,
      InstanceUpdateOptions_Alerts = Instance_Alerts i,
      InstanceUpdateOptions_WatchdogEnabled = Some (Instance_WatchdogEnabled i),
      InstanceUpdateOptions_Tags = Some (Instance_Tags i),
      InstanceUpdateOptions_Group = Some (Instance_Group i)\<rparr>"

record InstanceCloneOptions =
  InstanceCloneOptions_Region :: string
  InstanceCloneOptions_Type :: string
  InstanceCloneOptions_LinodeID :: int
  InstanceCloneOptions_Label :: string
  InstanceCloneOptions_BackupsEnabled :: bool
  InstanceCloneOptions_Disks :: "int list option"
  InstanceCloneOptions_Configs :: "int list option"
  InstanceCloneOptions_PrivateIP :: bool
  InstanceCloneOptions_Metadata :: "InstanceMetadataOptions option"
  InstanceCloneOptions_PlacementGroup :: "InstanceCreatePlacementGroupOptions option"
  InstanceCloneOptions_Group :: string

definition InstanceCloneOptions_zero :: InstanceCloneOptions where
  "InstanceCloneOptions_zero =
     \<lparr>InstanceCloneOptions_Region = [], InstanceCloneOptions_Type = [],
      InstanceCloneOptions_LinodeID = 0, InstanceCloneOptions_Label = [],
      InstanceCloneOptions_BackupsEnabled = False, InstanceCloneOptions_Disks = None,
      InstanceCloneOptions_Configs = None, InstanceCloneOptions_PrivateIP = False,
      InstanceCloneOptions_Metadata = None, InstanceCloneOptions_PlacementGroup = None,
      InstanceCloneOptions_Group = []\<rparr>"

definition InstanceCloneOptions_json :: "InstanceCloneOptions \<Rightarrow> json" where
  "InstanceCloneOptions_json opts =
     marshal_struct
       [f_string ''region'' OmitEmpty (InstanceCloneOptions_Region opts),
        f_string ''type'' OmitEmpty (InstanceCloneOptions_Type opts),
        f_int ''linode_id'' OmitEmpty (InstanceCloneOptions_LinodeID opts),
        f_string ''label'' OmitEmpty (InstanceCloneOptions_Label opts),
        f_bool ''backups_enabled'' Plain (InstanceCloneOptions_BackupsEnabled opts),
        f_slice ''disks'' OmitEmpty JInt (InstanceCloneOptions_Disks opts),
        f_slice ''configs'' OmitEmpty JInt (InstanceCloneOptions_Configs opts),
        f_bool ''private_ip'' OmitEmpty (InstanceCloneOptions_PrivateIP opts),
        f_ptr ''metadata'' OmitEmpty InstanceMetadataOptions_json
          (InstanceCloneOptions_Metadata opts),
        f_ptr ''placement_group'' OmitEmpty InstanceCreatePlacementGroupOptions_json
          (InstanceCloneOptions_PlacementGroup opts),
        f_string ''group'' OmitEmpty (InstanceCloneOptions_Group opts)]"

text \<open>\<^verbatim>\<open>InstanceResizeOptions\<close>; \<^verbatim>\<open>InstanceMigrationType\<close> is a string type.\<close>

record InstanceResizeOptions =
  InstanceResizeOptions_Type :: string
  InstanceResizeOptions_MigrationType :: string
  InstanceResizeOptions_AllowAutoDiskResize :: "bool option"

definition InstanceResizeOptions_zero :: InstanceResizeOptions where
  "InstanceResizeOptions_zero =
     \<lparr>InstanceResizeOptions_Type = [], InstanceResizeOptions_MigrationType = [],
      InstanceResizeOptions_AllowAutoDiskResize = None\<rparr>"

definition InstanceResizeOptions_json :: "InstanceResizeOptions \<Rightarrow> json" where
  "InstanceResizeOptions_json opts =
     marshal_struct
       [f_string ''type'' Plain (InstanceResizeOptions_Type opts),
        f_string ''migration_type'' OmitEmpty (InstanceResizeOptions_MigrationType opts),
        f_ptr ''allow_auto_disk_resize'' OmitEmpty JBool
          (InstanceResizeOptions_AllowAutoDiskResize opts)]"

record InstanceMigrateOptions =
  InstanceMigrateOptions_Type :: string
  InstanceMigrateOptions_Region :: string
  InstanceMigrateOptions_PlacementGroup :: "InstanceCreatePlacementGroupOptions option"

definition InstanceMigrateOptions_zero :: InstanceMigrateOptions where
  "InstanceMigrateOptions_zero =
     \<lparr>InstanceMigrateOptions_Type = [], InstanceMigrateOptions_Region = [],
      InstanceMigrateOptions_PlacementGroup = None\<rparr>"

definition InstanceMigrateOptions_json :: "InstanceMigrateOptions \<Rightarrow> json" where
  "InstanceMigrateOptions_json opts =
     marshal_struct
       [f_string ''type'' OmitEmpty (InstanceMigrateOptions_Type opts),
        f_string ''region'' OmitEmpty (InstanceMigrateOptions_Region opts),
        f_ptr ''placement_group'' OmitEmpty InstanceCreatePlacementGroupOptions_json
          (InstanceMigrateOptions_PlacementGroup opts)]"

record InstanceRebuildOptions =
  InstanceRebuildOptions_Image :: string
  InstanceRebuildOptions_RootPass :: string
  InstanceRebuildOptions_AuthorizedKeys :: "string list option"
  InstanceRebuildOptions_AuthorizedUsers :: "string list option"
  InstanceRebuildOptions_StackScriptID :: int
  InstanceRebuildOptions_StackScriptData :: "(string \<times> string) list option"
  InstanceRebuildOptions_Booted :: "bool option"
  InstanceRebuildOptions_Metadata :: "InstanceMetadataOptions option"
  InstanceRebuildOptions_Type :: string

definition InstanceRebuildOptions_zero :: InstanceRebuildOptions where
  "InstanceRebuildOptions_zero =
     \<lparr>InstanceRebuildOptions_Image = [], InstanceRebuildOptions_RootPass = [],
      InstanceRebuildOptions_AuthorizedKeys = None, InstanceRebuildOptions_AuthorizedUsers = None,
      InstanceRebuildOptions_StackScriptID = 0, InstanceRebuildOptions_StackScriptData = None,
      InstanceRebuildOptions_Booted = None, InstanceRebuildOptions_Metadata = None,
      InstanceRebuildOptions_Type = []\<rparr>"

definition InstanceRebuildOptions_json :: "InstanceRebuildOptions \<Rightarrow> json" where
  "InstanceRebuildOptions_json opts =
     marshal_struct
       [f_string ''image'' OmitEmpty (InstanceRebuildOptions_Image opts),
        f_string ''root_pass'' OmitEmpty (InstanceRebuildOptions_RootPass opts),
        f_slice ''authorized_keys'' OmitEmpty JString (InstanceRebuildOptions_AuthorizedKeys opts),
        f_slice ''authorized_users'' OmitEmpty JString
          (InstanceRebuildOptions_AuthorizedUsers opts),
        f_int ''stackscript_id'' OmitEmpty (InstanceRebuildOptions_StackScriptID opts),
        f_map ''stackscript_data'' OmitEmpty (InstanceRebuildOptions_StackScriptData opts),
        f_ptr ''booted'' OmitEmpty JBool (InstanceRebuildOptions_Booted opts),
        f_ptr ''metadata'' OmitEmpty InstanceMetadataOptions_json
          (InstanceRebuildOptions_Metadata opts),
        f_string ''type'' OmitEmpty (InstanceRebuildOptions_Type opts)]"

text \<open>
  \<^verbatim>\<open>InstanceRescueOptions\<close>.  The declaration of the type of \<^verbatim>\<open>Devices\<close>,
  \<^verbatim>\<open>InstanceConfigDeviceMap\<close>, is missing from the sources: it is the type parameter
  \<open>'devices\<close>, with its encoding a parameter.
\<close>

record 'devices InstanceRescueOptions =
  InstanceRescueOptions_Devices :: 'devices

definition InstanceRescueOptions_json ::
    "('devices \<Rightarrow> json) \<Rightarrow> 'devices InstanceRescueOptions \<Rightarrow> json" where
  "InstanceRescueOptions_json enc_devices opts =
     marshal_struct [f_struct ''devices'' Plain (enc_devices (InstanceRescueOptions_Devices opts))]"

section \<open>Placement groups\<close>

record PlacementGroupMember =
  PlacementGroupMember_LinodeID :: int
  PlacementGroupMember_IsCompliant :: bool

record PlacementGroup =
  PlacementGroup_ID :: int
  PlacementGroup_Label :: string
  PlacementGroup_Region :: string
  PlacementGroup_AffinityType :: string
  PlacementGroup_IsCompliant :: bool
  PlacementGroup_IsStrict :: bool
  PlacementGroup_Members :: "PlacementGroupMember list option"

record PlacementGroupCreateOptions =
  PlacementGroupCreateOptions_Label :: string
  PlacementGroupCreateOptions_Region :: string
  PlacementGroupCreateOptions_AffinityType :: string
  PlacementGroupCreateOptions_IsStrict :: bool

definition PlacementGroupCreateOptions_json :: "PlacementGroupCreateOptions \<Rightarrow> json" where
  "PlacementGroupCreateOptions_json opts =
     marshal_struct
       [f_string ''label'' Plain (PlacementGroupCreateOptions_Label opts),
        f_string ''region'' Plain (PlacementGroupCreateOptions_Region opts),
        f_string ''affinity_type'' Plain (PlacementGroupCreateOptions_AffinityType opts),
        f_bool ''is_strict'' Plain (PlacementGroupCreateOptions_IsStrict opts)]"

record PlacementGroupUpdateOptions =
  PlacementGroupUpdateOptions_Label :: string

definition PlacementGroupUpdateOptions_json :: "PlacementGroupUpdateOptions \<Rightarrow> json" where
  "PlacementGroupUpdateOptions_json opts =
     marshal_struct [f_string ''label'' OmitEmpty (PlacementGroupUpdateOptions_Label opts)]"

record PlacementGroupAssignOptions =
  PlacementGroupAssignOptions_Linodes :: "int list option"
  PlacementGroupAssignOptions_CompliantOnly :: "bool option"

definition PlacementGroupAssignOptions_json :: "PlacementGroupAssignOptions \<Rightarrow> json" where
  "PlacementGroupAssignOptions_json opts =
     marshal_struct
       [f_slice ''linodes'' Plain JInt (PlacementGroupAssignOptions_Linodes opts),
        f_ptr ''compliant_only'' OmitEmpty JBool
          (PlacementGroupAssignOptions_CompliantOnly opts)]"

record PlacementGroupUnAssignOptions =
  PlacementGroupUnAssignOptions_Linodes :: "int list option"

definition PlacementGroupUnAssignOptions_json :: "PlacementGroupUnAssignOptions \<Rightarrow> json" where
  "PlacementGroupUnAssignOptions_json opts =
     marshal_struct [f_slice ''linodes'' Plain JInt (PlacementGroupUnAssignOptions_Linodes opts)]"


section \<open>The paginator\<close>

text \<open>
  The methods \<^verbatim>\<open>EventsPagedResponse.castResult\<close> and \<^verbatim>\<open>InstancesPagedResponse.castResult\<close>
  have the body of \<open>castResult\<close>, each at its own record type, and the methods
  \<^verbatim>\<open>endpoint\<close> return a constant.
\<close>

definition EventsPagedResponse_endpoint :: string where
  "EventsPagedResponse_endpoint = ''account/events''"

definition EventsPagedResponse_castResult :: "('ctx, Event PagedResponse) http \<Rightarrow> 'ctx Request
    \<Rightarrow> string \<Rightarrow> ('ctx, Event) cast_state \<Rightarrow> ('ctx, Event) cast_result" where
  "EventsPagedResponse_castResult = castResult"

definition InstancesPagedResponse_endpoint :: string where
  "InstancesPagedResponse_endpoint = ''linode/instances''"

definition InstancesPagedResponse_castResult :: "('ctx, 'ip Instance PagedResponse) http
    \<Rightarrow> 'ctx Request \<Rightarrow> string \<Rightarrow> ('ctx, 'ip Instance) cast_state
    \<Rightarrow> ('ctx, 'ip Instance) cast_result" where
  "InstancesPagedResponse_castResult = castResult"

text \<open>
  Modelled from the spec: the last page a listing fetches (section 4.4), "until all pages
  have been retrieved or the caller-supplied page cap (if any) is reached".
\<close>

definition last_page :: "ListOptions option \<Rightarrow> int \<Rightarrow> int" where
  "last_page opts pages =
     (case opts of
        None \<Rightarrow> pages
      | Some l \<Rightarrow> (case PageCap l of None \<Rightarrow> pages | Some c \<Rightarrow> min pages c))"

text \<open>
  Modelled from the spec: the loop of \<^verbatim>\<open>Client.listHelper\<close> over the pages after the
  first (section 4.4): "if more pages remain, fetch sequentially"; "a failure on any page
  aborts the whole listing operation and surfaces that page's error to the caller".
\<close>

function listHelper_from ::
    "('ctx Request \<Rightarrow> string \<Rightarrow> 'st \<Rightarrow> ((int \<times> int \<times> error option) \<times> 'st) option)
     \<Rightarrow> string \<Rightarrow> 'ctx Request \<Rightarrow> int \<Rightarrow> int \<Rightarrow> 'st \<Rightarrow> (error option \<times> 'st) option" where
  "listHelper_from cast e r final page st =
     (if page \<le> final then
        (case cast (r\<lparr>PageParam := page\<rparr>) e st of
           None \<Rightarrow> None
         | Some (res, st') \<Rightarrow>
             (case snd (snd res) of
                Some err \<Rightarrow> Some (Some err, st')
              | None \<Rightarrow> listHelper_from cast e r final (page + 1) st'))
      else Some (None, st))"
  by pat_completeness auto
termination
  by (relation "measure (\<lambda>(cast, e, r, final, page, st). nat (final + 1 - page))") auto

declare listHelper_from.simps [simp del]

text \<open>
  Modelled from the spec: the method \<^verbatim>\<open>Client.listHelper\<close>, missing from the sources, the
  paginator of section 4.4: "fetch page 1; read total-page-count and total-result-count
  from the envelope; if more pages remain, fetch sequentially until all pages have been
  retrieved or the caller-supplied page cap (if any) is reached".  The pager is given by
  its method \<open>cast\<close> (\<^verbatim>\<open>castResult\<close>) and its endpoint \<open>e\<close>; \<open>st\<close> is the pager with the
  request log.
\<close>

definition listHelper ::
    "('ctx Request \<Rightarrow> string \<Rightarrow> 'st \<Rightarrow> ((int \<times> int \<times> error option) \<times> 'st) option)
     \<Rightarrow> string \<Rightarrow> 'ctx \<Rightarrow> ListOptions option \<Rightarrow> 'st \<Rightarrow> (error option \<times> 'st) option" where
  "listHelper cast e c opts st =
     (let r = (R c)\<lparr>Options := opts\<rparr> in
      case cast (r\<lparr>PageParam := 1\<rparr>) e st of
        None \<Rightarrow> None
      | Some (res, st') \<Rightarrow>
          (case snd (snd res) of
             Some err \<Rightarrow> Some (Some err, st')
           | None \<Rightarrow> listHelper_from cast e r (last_page opts (fst res)) 2 st'))"

text \<open>
  \<^verbatim>\<open>Client.ListEvents\<close> and \<^verbatim>\<open>Client.ListInstances\<close>.  The client is its HTTP layer.  The
  result is the Go pair of the slice and the error, with the request log; the nil slice
  is \<open>[]\<close>.
\<close>

definition ListEvents :: "('ctx, Event PagedResponse) http \<Rightarrow> 'ctx \<Rightarrow> ListOptions option
    \<Rightarrow> 'ctx Request list \<Rightarrow> ((Event list \<times> error option) \<times> 'ctx Request list) option" where
  "ListEvents http c opts log =
     (case listHelper (EventsPagedResponse_castResult http) EventsPagedResponse_endpoint c opts
             (PagedResponse_zero, log) of
        None \<Rightarrow> None
      | Some (err, (response, log')) \<Rightarrow>
          (case err of
             Some e \<Rightarrow> Some (([], Some e), log')
           | None \<Rightarrow> Some ((Data response, None), log')))"

definition ListInstances :: "('ctx, 'ip Instance PagedResponse) http \<Rightarrow> 'ctx
    \<Rightarrow> ListOptions option \<Rightarrow> 'ctx Request list
    \<Rightarrow> (('ip Instance list \<times> error option) \<times> 'ctx Request list) option" where
  "ListInstances http c opts log =
     (case listHelper (InstancesPagedResponse_castResult http) InstancesPagedResponse_endpoint
             c opts (PagedResponse_zero, log) of
        None \<Rightarrow> None
      | Some (err, (response, log')) \<Rightarrow>
          (case err of
             Some e \<Rightarrow> Some (([], Some e), log')
           | None \<Rightarrow> Some ((Data response, None), log')))"

text \<open>
  Modelled from the spec: the page envelope of section 3, "the page's records, current page
  number, total page count, total result count", as the generic helper
  \<^verbatim>\<open>getPaginatedResults\<close> receives it.
\<close>

record 'r PageEnvelope =
  Records :: "'r list"
  PageNumber :: int
  TotalPages :: int
  TotalResults :: int

text \<open>
  Modelled from the spec: one page fetch of \<^verbatim>\<open>getPaginatedResults\<close>: the envelope is
  "created per HTTP response, merged into an accumulator, then discarded" (section 3).
\<close>

definition merge_page :: "('ctx, 'r PageEnvelope) http \<Rightarrow> 'ctx Request \<Rightarrow> string
    \<Rightarrow> 'r list \<times> 'ctx Request list
    \<Rightarrow> ((int \<times> int \<times> error option) \<times> ('r list \<times> 'ctx Request list)) option" where
  "merge_page http r e st =
     (case st of (acc, log) \<Rightarrow>
        (case send http ''GET'' r e log of (res, log') \<Rightarrow>
           (case res of
              Inl err \<Rightarrow> Some ((0, 0, Some err), (acc, log'))
            | Inr env \<Rightarrow>
                Some ((TotalPages env, TotalResults env, None), (acc @ Records env, log')))))"

text \<open>
  Modelled from the spec: the generic helper \<^verbatim>\<open>getPaginatedResults\<close>, missing from the
  sources, the operation \<^verbatim>\<open>list(options)\<close> of sections 4.4 and 6: the pages are
  accumulated in page order, and on a failure "partial results already accumulated are
  discarded".
\<close>

definition getPaginatedResults :: "('ctx, 'r PageEnvelope) http \<Rightarrow> 'ctx \<Rightarrow> string
    \<Rightarrow> ListOptions option \<Rightarrow> 'ctx Request list
    \<Rightarrow> (('r list \<times> error option) \<times> 'ctx Request list) option" where
  "getPaginatedResults http c e opts log =
     (case listHelper (merge_page http) e c opts ([], log) of
        None \<Rightarrow> None
      | Some (err, (acc, log')) \<Rightarrow>
          (case err of
             Some x \<Rightarrow> Some (([], Some x), log')
           | None \<Rightarrow> Some ((acc, None), log')))"

text \<open>\<^verbatim>\<open>Client.ListPlacementGroups\<close>.\<close>

definition ListPlacementGroups :: "('ctx, PlacementGroup PageEnvelope) http \<Rightarrow> 'ctx
    \<Rightarrow> ListOptions option \<Rightarrow> 'ctx Request list
    \<Rightarrow> ((PlacementGroup list \<times> error option) \<times> 'ctx Request list) option" where
  "ListPlacementGroups http c options log =
     getPaginatedResults http c ''placement/groups'' options log"

section \<open>Operations with a request body\<close>

text \<open>\<^verbatim>\<open>fmt.Sprintf\<close> with the verb \<^verbatim>\<open>%d\<close>: the decimal digits of an integer.\<close>

fun nat_digits :: "nat \<Rightarrow> string" where
  "nat_digits n =
     (if n < 10 then [char_of (48 + n)] else nat_digits (n div 10) @ [char_of (48 + n mod 10)])"

declare nat_digits.simps [simp del]

definition Sprintf_d :: "int \<Rightarrow> string" where
  "Sprintf_d n = (if n < 0 then CHR ''-'' # nat_digits (nat (- n)) else nat_digits (nat n))"

text \<open>
  \<^verbatim>\<open>json.Marshal(opts)\<close> builds the JSON value that the struct tags of \<^verbatim>\<open>opts\<close> describe
  and writes it out.  Writing is the standard library's and may return an error; it is the
  parameter \<open>write_json\<close> of every operation that sends a body.
\<close>

type_synonym writer = "json \<Rightarrow> error + string"

text \<open>The Go pair \<^verbatim>\<open>(*T, error)\<close> of a response, and the error alone.\<close>

definition result_pair :: "error + 'a \<Rightarrow> 'a option \<times> error option" where
  "result_pair res = (case res of Inl err \<Rightarrow> (None, Some err) | Inr x \<Rightarrow> (Some x, None))"

definition result_err :: "error + 'a \<Rightarrow> error option" where
  "result_err res = (case res of Inl err \<Rightarrow> Some err | Inr x \<Rightarrow> None)"

definition CreateInstance :: "writer \<Rightarrow> ('iface \<Rightarrow> json) \<Rightarrow> ('ctx, 'ip Instance) http \<Rightarrow> 'ctx
    \<Rightarrow> 'iface InstanceCreateOptions \<Rightarrow> 'ctx Request list
    \<Rightarrow> ('ip Instance option \<times> error option) \<times> 'ctx Request list" where
  "CreateInstance write_json enc_iface http c opts log =
     (case write_json (InstanceCreateOptions_json enc_iface opts) of
        Inl err \<Rightarrow> ((None, Some err), log)
      | Inr body \<Rightarrow>
          (let e = ''linode/instances'';
               req = (R c)\<lparr>Body := Some body\<rparr>
           in case send http ''POST'' req e log of (res, log') \<Rightarrow> (result_pair res, log')))"

definition UpdateInstance :: "writer \<Rightarrow> ('ctx, 'ip Instance) http \<Rightarrow> 'ctx \<Rightarrow> int
    \<Rightarrow> InstanceUpdateOptions \<Rightarrow> 'ctx Request list
    \<Rightarrow> ('ip Instance option \<times> error option) \<times> 'ctx Request list" where
  "UpdateInstance write_json http c linodeID opts log =
     (case write_json (InstanceUpdateOptions_json opts) of
        Inl err \<Rightarrow> ((None, Some err), log)
      | Inr body \<Rightarrow>
          (let e = ''linode/instances/'' @ Sprintf_d linodeID;
               req = (R c)\<lparr>Body := Some body\<rparr>
           in case send http ''PUT'' req e log of (res, log') \<Rightarrow> (result_pair res, log')))"

definition RenameInstance :: "writer \<Rightarrow> ('ctx, 'ip Instance) http \<Rightarrow> 'ctx \<Rightarrow> int \<Rightarrow> string
    \<Rightarrow> 'ctx Request list \<Rightarrow> ('ip Instance option \<times> error option) \<times> 'ctx Request list" where
  "RenameInstance write_json http c linodeID label log =
     UpdateInstance write_json http c linodeID
       (InstanceUpdateOptions_zero\<lparr>InstanceUpdateOptions_Label := label\<rparr>) log"

definition CloneInstance :: "writer \<Rightarrow> ('ctx, 'ip Instance) http \<Rightarrow> 'ctx \<Rightarrow> int
    \<Rightarrow> InstanceCloneOptions \<Rightarrow> 'ctx Request list
    \<Rightarrow> ('ip Instance option \<times> error option) \<times> 'ctx Request list" where
  "CloneInstance write_json http c linodeID opts log =
     (case write_json (InstanceCloneOptions_json opts) of
        Inl err \<Rightarrow> ((None, Some err), log)
      | Inr body \<Rightarrow>
          (let req = (R c)\<lparr>Body := Some body\<rparr>;
               e = ''linode/instances/'' @ Sprintf_d linodeID @ ''/clone''
           in case send http ''POST'' req e log of (res, log') \<Rightarrow> (result_pair res, log')))"

definition RebuildInstance :: "writer \<Rightarrow> ('ctx, 'ip Instance) http \<Rightarrow> 'ctx \<Rightarrow> int
    \<Rightarrow> InstanceRebuildOptions \<Rightarrow> 'ctx Request list
    \<Rightarrow> ('ip Instance option \<times> error option) \<times> 'ctx Request list" where
  "RebuildInstance write_json http c linodeID opts log =
     (case write_json (InstanceRebuildOptions_json opts) of
        Inl err \<Rightarrow> ((None, Some err), log)
      | Inr body \<Rightarrow>
          (let e = ''linode/instances/'' @ Sprintf_d linodeID @ ''/rebuild'';
               req = (R c)\<lparr>Body := Some body\<rparr>
           in case send http ''POST'' req e log of (res, log') \<Rightarrow> (result_pair res, log')))"

definition RescueInstance :: "writer \<Rightarrow> ('devices \<Rightarrow> json) \<Rightarrow> ('ctx, 'resp) http \<Rightarrow> 'ctx \<Rightarrow> int
    \<Rightarrow> 'devices InstanceRescueOptions \<Rightarrow> 'ctx Request list
    \<Rightarrow> error option \<times> 'ctx Request list" where
  "RescueInstance write_json enc_devices http c linodeID opts log =
     (case write_json (InstanceRescueOptions_json enc_devices opts) of
        Inl err \<Rightarrow> (Some err, log)
      | Inr body \<Rightarrow>
          (let e = ''linode/instances/'' @ Sprintf_d linodeID @ ''/rescue''
           in case send http ''POST'' ((R c)\<lparr>Body := Some body\<rparr>) e log of
                (res, log') \<Rightarrow> (result_err res, log')))"

definition ResizeInstance :: "writer \<Rightarrow> ('ctx, 'resp) http \<Rightarrow> 'ctx \<Rightarrow> int
    \<Rightarrow> InstanceResizeOptions \<Rightarrow> 'ctx Request list \<Rightarrow> error option \<times> 'ctx Request list" where
  "ResizeInstance write_json http c linodeID opts log =
     (case write_json (InstanceResizeOptions_json opts) of
        Inl err \<Rightarrow> (Some err, log)
      | Inr body \<Rightarrow>
          (let e = ''linode/instances/'' @ Sprintf_d linodeID @ ''/resize''
           in case send http ''POST'' ((R c)\<lparr>Body := Some body\<rparr>) e log of
                (res, log') \<Rightarrow> (result_err res, log')))"

definition MigrateInstance :: "writer \<Rightarrow> ('ctx, 'resp) http \<Rightarrow> 'ctx \<Rightarrow> int
    \<Rightarrow> InstanceMigrateOptions \<Rightarrow> 'ctx Request list \<Rightarrow> error option \<times> 'ctx Request list" where
  "MigrateInstance write_json http c linodeID opts log =
     (case write_json (InstanceMigrateOptions_json opts) of
        Inl err \<Rightarrow> (Some err, log)
      | Inr body \<Rightarrow>
          (let e = ''linode/instances/'' @ Sprintf_d linodeID @ ''/migrate''
           in case send http ''POST'' ((R c)\<lparr>Body := Some body\<rparr>) e log of
                (res, log') \<Rightarrow> (result_err res, log')))"

text \<open>
  \<^verbatim>\<open>BootInstance\<close> and \<^verbatim>\<open>RebootInstance\<close> send the map \<^verbatim>\<open>{"config_id": configID}\<close> when
  \<^verbatim>\<open>configID\<close> is not 0, and the empty string, respectively \<^verbatim>\<open>{}\<close>, otherwise.
\<close>

definition BootInstance :: "writer \<Rightarrow> ('ctx, 'resp) http \<Rightarrow> 'ctx \<Rightarrow> int \<Rightarrow> int
    \<Rightarrow> 'ctx Request list \<Rightarrow> error option \<times> 'ctx Request list" where
  "BootInstance write_json http c linodeID configID log =
     (case (if configID \<noteq> 0 then write_json (JObject [(''config_id'', JInt configID)])
            else Inr []) of
        Inl err \<Rightarrow> (Some err, log)
      | Inr body \<Rightarrow>
          (let e = ''linode/instances/'' @ Sprintf_d linodeID @ ''/boot''
           in case send http ''POST'' ((R c)\<lparr>Body := Some body\<rparr>) e log of
                (res, log') \<Rightarrow> (result_err res, log')))"

definition RebootInstance :: "writer \<Rightarrow> ('ctx, 'resp) http \<Rightarrow> 'ctx \<Rightarrow> int \<Rightarrow> int
    \<Rightarrow> 'ctx Request list \<Rightarrow> error option \<times> 'ctx Request list" where
  "RebootInstance write_json http c linodeID configID log =
     (case (if configID \<noteq> 0 then write_json (JObject [(''config_id'', JInt configID)])
            else Inr ''{}'') of
        Inl err \<Rightarrow> (Some err, log)
      | Inr body \<Rightarrow>
          (let e = ''linode/instances/'' @ Sprintf_d linodeID @ ''/reboot''
           in case send http ''POST'' ((R c)\<lparr>Body := Some body\<rparr>) e log of
                (res, log') \<Rightarrow> (result_err res, log')))"


section \<open>Vocabulary of the statements\<close>

text \<open>
  The request a listing issues for page \<open>n\<close> of the endpoint \<open>e\<close>.
\<close>

definition page_request :: "'ctx \<Rightarrow> ListOptions option \<Rightarrow> string \<Rightarrow> int \<Rightarrow> 'ctx Request" where
  "page_request c opts e n =
     \<lparr>Context = c, Method = ''GET'', URL = e, Body = None, Options = opts, PageParam = n\<rparr>"

text \<open>
  The total page count an envelope reports, when it can be read: for a paged response
  through its page options, for a page envelope directly.
\<close>

definition paged_total :: "'r PagedResponse \<Rightarrow> int option" where
  "paged_total env = map_option Pages (PageOptions env)"

definition envelope_total :: "'r PageEnvelope \<Rightarrow> int option" where
  "envelope_total env = Some (TotalPages env)"

text \<open>
  A page is fetched when the HTTP layer answers its request with an envelope whose page
  count can be read.
\<close>

definition fetched :: "('a \<Rightarrow> int option) \<Rightarrow> ('ctx, 'a) http \<Rightarrow> 'ctx Request \<Rightarrow> bool" where
  "fetched tot http q =
     (case http q of Inl err \<Rightarrow> False | Inr env \<Rightarrow> tot env \<noteq> None)"

text \<open>
  The number of the last page a listing asks for: page 1 always, and the pages up to the
  count that page 1 reports, or up to the caller's cap if that is smaller.
\<close>

definition listing_pages :: "('a \<Rightarrow> int option) \<Rightarrow> ('ctx, 'a) http \<Rightarrow> 'ctx
    \<Rightarrow> ListOptions option \<Rightarrow> string \<Rightarrow> int" where
  "listing_pages tot http c opts e =
     (case http (page_request c opts e 1) of
        Inl err \<Rightarrow> 1
      | Inr env \<Rightarrow> (case tot env of None \<Rightarrow> 1 | Some n \<Rightarrow> max 1 (last_page opts n)))"

text \<open>The records of the envelope that answers a request; none when the request fails.\<close>

definition records_of :: "('a \<Rightarrow> 'r list) \<Rightarrow> ('ctx, 'a) http \<Rightarrow> 'ctx Request \<Rightarrow> 'r list" where
  "records_of recs http q = (case http q of Inl err \<Rightarrow> [] | Inr env \<Rightarrow> recs env)"

text \<open>
  The value an object gives a field: the values of the members whose key names the field,
  in the order of the text, and the last of them.
\<close>

definition field_values :: "string \<Rightarrow> (string \<times> json) list \<Rightarrow> json list" where
  "field_values k kvs = map snd (filter (\<lambda>kv. fold_key (fst kv) = k) kvs)"

definition field_value :: "string \<Rightarrow> (string \<times> json) list \<Rightarrow> json option" where
  "field_value k kvs = (case field_values k kvs of [] \<Rightarrow> None | v # vs \<Rightarrow> Some (last (v # vs)))"

text \<open>
  Decoding a sequence of values into one destination, each into what the one before left.
\<close>

fun decode_seq :: "(json \<Rightarrow> 'a \<Rightarrow> error + 'a) \<Rightarrow> json list \<Rightarrow> 'a \<Rightarrow> error + 'a" where
  "decode_seq dec [] cur = Inr cur"
| "decode_seq dec (v # vs) cur = bind_res (dec v cur) (decode_seq dec vs)"



text \<open>
  The common shape of \<open>castResult\<close> and \<open>merge_page\<close>: one request; on an error nothing is
  merged; on an envelope its records are merged and its counts returned.
\<close>

definition fetch_step :: "('ctx, 'a) http \<Rightarrow> ('a \<Rightarrow> int option) \<Rightarrow> ('a \<Rightarrow> int) \<Rightarrow> ('s \<Rightarrow> 'a \<Rightarrow> 's)
    \<Rightarrow> 'ctx Request \<Rightarrow> string \<Rightarrow> 's \<times> 'ctx Request list
    \<Rightarrow> ((int \<times> int \<times> error option) \<times> ('s \<times> 'ctx Request list)) option" where
  "fetch_step http tot results merge r e st =
     (case st of (acc, log) \<Rightarrow>
        (let q = r\<lparr>Method := ''GET'', URL := e\<rparr> in
         case http q of
           Inl err \<Rightarrow> Some ((0, 0, Some err), (acc, log @ [q]))
         | Inr env \<Rightarrow>
             (case tot env of
                None \<Rightarrow> None
              | Some n \<Rightarrow> Some ((n, results env, None), (merge acc env, log @ [q])))))"

definition paged_results :: "'r PagedResponse \<Rightarrow> int" where
  "paged_results env = (case PageOptions env of None \<Rightarrow> 0 | Some po \<Rightarrow> Results po)"

definition paged_merge :: "'r PagedResponse \<Rightarrow> 'r PagedResponse \<Rightarrow> 'r PagedResponse" where
  "paged_merge resp env = resp\<lparr>Data := Data resp @ Data env\<rparr>"

definition envelope_merge :: "'r list \<Rightarrow> 'r PageEnvelope \<Rightarrow> 'r list" where
  "envelope_merge acc env = acc @ Records env"

text \<open>The accumulator after merging the answers to a list of requests, failures skipped.\<close>

definition merged :: "('s \<Rightarrow> 'a \<Rightarrow> 's) \<Rightarrow> ('ctx, 'a) http \<Rightarrow> 's \<Rightarrow> 'ctx Request list \<Rightarrow> 's" where
  "merged merge http acc qs =
     foldl (\<lambda>a q. case http q of Inl err \<Rightarrow> a | Inr env \<Rightarrow> merge a env) acc qs"

text \<open>
  Mock listing endpoints: pages of the given sizes, numbered from 1, whose records are
  numbered through in page order by \<open>mk\<close>; a page outside the range is a 404.  The
  second mock answers one page with an error.
\<close>

definition mock_records :: "nat list \<Rightarrow> (int \<Rightarrow> 'r) \<Rightarrow> int \<Rightarrow> 'r list" where
  "mock_records sizes mk n =
     (let before = int (sum_list (take (nat (n - 1)) sizes))
      in map mk [before + 1..before + int (sizes ! nat (n - 1))])"

definition mock_paged :: "nat list \<Rightarrow> (int \<Rightarrow> 'r) \<Rightarrow> ('ctx, 'r PagedResponse) http" where
  "mock_paged sizes mk q =
     (let n = PageParam q in
      if 1 \<le> n \<and> n \<le> int (length sizes)
      then Inr \<lparr>PageOptions =
                  Some \<lparr>Page = n, Pages = int (length sizes), Results = int (sum_list sizes)\<rparr>,
                Data = mock_records sizes mk n\<rparr>
      else Inl (APIError 404 ''Not found''))"

definition mock_envelopes :: "nat list \<Rightarrow> (int \<Rightarrow> 'r) \<Rightarrow> ('ctx, 'r PageEnvelope) http" where
  "mock_envelopes sizes mk q =
     (let n = PageParam q in
      if 1 \<le> n \<and> n \<le> int (length sizes)
      then Inr \<lparr>Records = mock_records sizes mk n, PageNumber = n,
                TotalPages = int (length sizes), TotalResults = int (sum_list sizes)\<rparr>
      else Inl (APIError 404 ''Not found''))"

definition failing_at :: "int \<Rightarrow> error \<Rightarrow> ('ctx, 'a) http \<Rightarrow> ('ctx, 'a) http" where
  "failing_at bad err http q = (if PageParam q = bad then Inl err else http q)"

definition mock_event :: "int \<Rightarrow> Event" where
  "mock_event n = Event_zero\<lparr>Event_ID := n\<rparr>"

definition mock_instance :: "int \<Rightarrow> unit Instance" where
  "mock_instance n = Instance_zero\<lparr>Instance_ID := n\<rparr>"

definition mock_group :: "int \<Rightarrow> PlacementGroup" where
  "mock_group n =
     \<lparr>PlacementGroup_ID = n, PlacementGroup_Label = [], PlacementGroup_Region = [],
      PlacementGroup_AffinityType = [], PlacementGroup_IsCompliant = False,
      PlacementGroup_IsStrict = False, PlacementGroup_Members = None\<rparr>"


text \<open>The members of an object whose key does not name the field \<open>k\<close>.\<close>

definition without_field :: "string \<Rightarrow> (string \<times> json) list \<Rightarrow> (string \<times> json) list" where
  "without_field k kvs = filter (\<lambda>kv. fold_key (fst kv) \<noteq> k) kvs"

text \<open>
  The members of an object that \<^verbatim>\<open>Event.UnmarshalJSON\<close>, respectively
  \<^verbatim>\<open>Instance.UnmarshalJSON\<close>, leaves to the standard decoding of the masked struct: those
  whose key names none of the fields the method's local struct shadows.
\<close>

definition Event_standard_members :: "(string \<times> json) list \<Rightarrow> (string \<times> json) list" where
  "Event_standard_members kvs = without_field ''created'' (without_field ''time_remaining'' kvs)"

definition Instance_standard_members :: "(string \<times> json) list \<Rightarrow> (string \<times> json) list" where
  "Instance_standard_members kvs = without_field ''created'' (without_field ''updated'' kvs)"
section \<open>Serialization: which members an options record sends\<close>

lemma object_member_Nil: "object_member (marshal_struct []) k = None"
  by (simp add: marshal_struct_def)

lemma object_member_Cons:
  "object_member (marshal_struct ((k', om, v) # fs)) k =
     (if k' = k \<and> \<not> om then Some v else object_member (marshal_struct fs) k)"
  by (simp add: marshal_struct_def)

lemma object_member_marshal_struct:
  "distinct (map fst fs) \<Longrightarrow> (k, om, v) \<in> set fs \<Longrightarrow>
   object_member (marshal_struct fs) k = (if om then None else Some v)"
proof (induction fs)
  case Nil
  then show ?case by simp
next
  case (Cons f fs)
  obtain k' om' v' where f: "f = (k', om', v')" by (cases f)
  show ?case
  proof (cases "k' = k")
    case True
    from Cons.prems f True have notin: "\<And>a b. (k, a, b) \<notin> set fs" by force
    with Cons.prems f have same: "(k, om, v) = f" by auto
    from notin have "object_member (marshal_struct fs) k = None"
      by (force simp: marshal_struct_def map_of_eq_None_iff image_iff)
    with same f True show ?thesis by (simp add: object_member_Cons)
  next
    case False
    with Cons f show ?thesis by (auto simp: object_member_Cons)
  qed
qed

lemmas field_defs = struct_field_def f_string_def f_int_def f_bool_def f_ptr_def f_slice_def
  f_map_def f_struct_def

lemmas member_simps = object_member_Nil object_member_Cons field_defs

lemma create_region:
  "object_member (InstanceCreateOptions_json enc opts) ''region'' =
     Some (JString (InstanceCreateOptions_Region opts))"
  by (simp add: InstanceCreateOptions_json_def member_simps)

lemma create_type:
  "object_member (InstanceCreateOptions_json enc opts) ''type'' =
     Some (JString (InstanceCreateOptions_Type opts))"
  by (simp add: InstanceCreateOptions_json_def member_simps)

lemma create_swap_size:
  "object_member (InstanceCreateOptions_json enc opts) ''swap_size'' =
     map_option JInt (InstanceCreateOptions_SwapSize opts)"
  by (simp add: InstanceCreateOptions_json_def member_simps split: option.splits)

lemma create_booted:
  "object_member (InstanceCreateOptions_json enc opts) ''booted'' =
     map_option JBool (InstanceCreateOptions_Booted opts)"
  by (simp add: InstanceCreateOptions_json_def member_simps split: option.splits)

lemma update_label:
  "object_member (InstanceUpdateOptions_json opts) ''label'' =
     (if InstanceUpdateOptions_Label opts = [] then None
      else Some (JString (InstanceUpdateOptions_Label opts)))"
  by (simp add: InstanceUpdateOptions_json_def member_simps)

lemma update_watchdog:
  "object_member (InstanceUpdateOptions_json opts) ''watchdog_enabled'' =
     map_option JBool (InstanceUpdateOptions_WatchdogEnabled opts)"
  by (simp add: InstanceUpdateOptions_json_def member_simps split: option.splits)

lemma update_tags:
  "object_member (InstanceUpdateOptions_json opts) ''tags'' =
     map_option (enc_slice JString) (InstanceUpdateOptions_Tags opts)"
  by (simp add: InstanceUpdateOptions_json_def member_simps split: option.splits)

lemma update_group:
  "object_member (InstanceUpdateOptions_json opts) ''group'' =
     map_option JString (InstanceUpdateOptions_Group opts)"
  by (simp add: InstanceUpdateOptions_json_def member_simps split: option.splits)

lemma pg_update_label:
  "object_member (PlacementGroupUpdateOptions_json opts) ''label'' =
     (if PlacementGroupUpdateOptions_Label opts = [] then None
      else Some (JString (PlacementGroupUpdateOptions_Label opts)))"
  by (simp add: PlacementGroupUpdateOptions_json_def member_simps)

lemma pg_assign_compliant:
  "object_member (PlacementGroupAssignOptions_json opts) ''compliant_only'' =
     map_option JBool (PlacementGroupAssignOptions_CompliantOnly opts)"
  by (simp add: PlacementGroupAssignOptions_json_def member_simps split: option.splits)

lemma create_pg_compliant:
  "object_member (InstanceCreatePlacementGroupOptions_json opts) ''compliant_only'' =
     map_option JBool (InstanceCreatePlacementGroupOptions_CompliantOnly opts)"
  by (simp add: InstanceCreatePlacementGroupOptions_json_def member_simps split: option.splits)

lemma rebuild_booted:
  "object_member (InstanceRebuildOptions_json opts) ''booted'' =
     map_option JBool (InstanceRebuildOptions_Booted opts)"
  by (simp add: InstanceRebuildOptions_json_def member_simps split: option.splits)

text \<open>
  With distinct keys, the member under a key is decided by the first field alone: the
  serialized object has the value of the field whose key it is, unless that field is
  omitted.
\<close>

lemma object_member_distinct_Cons:
  "k' \<notin> fst ` set fs \<Longrightarrow>
   object_member (marshal_struct ((k', om, v) # fs)) k =
     (if k = k' then (if om then None else Some v) else object_member (marshal_struct fs) k)"
  by (force simp: marshal_struct_def map_of_eq_None_iff image_iff)

lemma ptr_member:
  "(if p = None then None else Some (case p of None \<Rightarrow> JNull | Some x \<Rightarrow> enc x)) =
     map_option enc p"
  by (cases p) simp_all

lemmas members_simps = object_member_Nil object_member_distinct_Cons field_defs ptr_member

text \<open>The members of each serialized record, key by key.\<close>

lemma InstanceCreateOptions_members:
  "object_member (InstanceCreateOptions_json enc copts) key =
    (if key = ''region'' then Some (JString (InstanceCreateOptions_Region copts))
     else if key = ''type'' then Some (JString (InstanceCreateOptions_Type copts))
     else if key = ''label'' then
        (if InstanceCreateOptions_Label copts = [] then None
         else Some (JString (InstanceCreateOptions_Label copts)))
     else if key = ''root_pass'' then
        (if InstanceCreateOptions_RootPass copts = [] then None
         else Some (JString (InstanceCreateOptions_RootPass copts)))
     else if key = ''authorized_keys'' then
        (if InstanceCreateOptions_AuthorizedKeys copts = None
            \<or> InstanceCreateOptions_AuthorizedKeys copts = Some [] then None
         else Some (enc_slice JString (InstanceCreateOptions_AuthorizedKeys copts)))
     else if key = ''authorized_users'' then
        (if InstanceCreateOptions_AuthorizedUsers copts = None
            \<or> InstanceCreateOptions_AuthorizedUsers copts = Some [] then None
         else Some (enc_slice JString (InstanceCreateOptions_AuthorizedUsers copts)))
     else if key = ''stackscript_id'' then
        (if InstanceCreateOptions_StackScriptID copts = 0 then None
         else Some (JInt (InstanceCreateOptions_StackScriptID copts)))
     else if key = ''stackscript_data'' then
        (if InstanceCreateOptions_StackScriptData copts = None
            \<or> InstanceCreateOptions_StackScriptData copts = Some [] then None
         else Some
           (case InstanceCreateOptions_StackScriptData copts of None \<Rightarrow> JNull
            | Some l \<Rightarrow> JObject (map (\<lambda>kv. (fst kv, JString (snd kv))) l)))
     else if key = ''backup_id'' then
        (if InstanceCreateOptions_BackupID copts = 0 then None
         else Some (JInt (InstanceCreateOptions_BackupID copts)))
     else if key = ''image'' then
        (if InstanceCreateOptions_Image copts = [] then None
         else Some (JString (InstanceCreateOptions_Image copts)))
     else if key = ''interfaces'' then
        (if InstanceCreateOptions_Interfaces copts = None
            \<or> InstanceCreateOptions_Interfaces copts = Some [] then None
         else Some (enc_slice enc (InstanceCreateOptions_Interfaces copts)))
     else if key = ''backups_enabled'' then
        (if InstanceCreateOptions_BackupsEnabled copts = False then None
         else Some (JBool (InstanceCreateOptions_BackupsEnabled copts)))
     else if key = ''private_ip'' then
        (if InstanceCreateOptions_PrivateIP copts = False then None
         else Some (JBool (InstanceCreateOptions_PrivateIP copts)))
     else if key = ''tags'' then
        (if InstanceCreateOptions_Tags copts = None
            \<or> InstanceCreateOptions_Tags copts = Some [] then None
         else Some (enc_slice JString (InstanceCreateOptions_Tags copts)))
     else if key = ''metadata'' then
        map_option InstanceMetadataOptions_json (InstanceCreateOptions_Metadata copts)
     else if key = ''firewall_id'' then
        (if InstanceCreateOptions_FirewallID copts = 0 then None
         else Some (JInt (InstanceCreateOptions_FirewallID copts)))
     else if key = ''placement_group'' then
        map_option InstanceCreatePlacementGroupOptions_json
          (InstanceCreateOptions_PlacementGroup copts)
     else if key = ''swap_size'' then map_option JInt (InstanceCreateOptions_SwapSize copts)
     else if key = ''booted'' then map_option JBool (InstanceCreateOptions_Booted copts)
     else if key = ''group'' then
        (if InstanceCreateOptions_Group copts = [] then None
         else Some (JString (InstanceCreateOptions_Group copts)))
     else None)"
  by (simp add: InstanceCreateOptions_json_def members_simps cong: if_cong)

lemma InstanceUpdateOptions_members:
  "object_member (InstanceUpdateOptions_json uopts) key =
    (if key = ''label'' then
        (if InstanceUpdateOptions_Label uopts = [] then None
         else Some (JString (InstanceUpdateOptions_Label uopts)))
     else if key = ''backups'' then
        map_option InstanceBackup_json (InstanceUpdateOptions_Backups uopts)
     else if key = ''alerts'' then
        map_option InstanceAlert_json (InstanceUpdateOptions_Alerts uopts)
     else if key = ''watchdog_enabled'' then
        map_option JBool (InstanceUpdateOptions_WatchdogEnabled uopts)
     else if key = ''tags'' then map_option (enc_slice JString) (InstanceUpdateOptions_Tags uopts)
     else if key = ''group'' then map_option JString (InstanceUpdateOptions_Group uopts)
     else None)"
  by (simp add: InstanceUpdateOptions_json_def members_simps cong: if_cong)

lemma InstanceCloneOptions_members:
  "object_member (InstanceCloneOptions_json clopts) key =
    (if key = ''region'' then
        (if InstanceCloneOptions_Region clopts = [] then None
         else Some (JString (InstanceCloneOptions_Region clopts)))
     else if key = ''type'' then
        (if InstanceCloneOptions_Type clopts = [] then None
         else Some (JString (InstanceCloneOptions_Type clopts)))
     else if key = ''linode_id'' then
        (if InstanceCloneOptions_LinodeID clopts = 0 then None
         else Some (JInt (InstanceCloneOptions_LinodeID clopts)))
     else if key = ''label'' then
        (if InstanceCloneOptions_Label clopts = [] then None
         else Some (JString (InstanceCloneOptions_Label clopts)))
     else if key = ''backups_enabled'' then
        Some (JBool (InstanceCloneOptions_BackupsEnabled clopts))
     else if key = ''disks'' then
        (if InstanceCloneOptions_Disks clopts = None
            \<or> InstanceCloneOptions_Disks clopts = Some [] then None
         else Some (enc_slice JInt (InstanceCloneOptions_Disks clopts)))
     else if key = ''configs'' then
        (if InstanceCloneOptions_Configs clopts = None
            \<or> InstanceCloneOptions_Configs clopts = Some [] then None
         else Some (enc_slice JInt (InstanceCloneOptions_Configs clopts)))
     else if key = ''private_ip'' then
        (if InstanceCloneOptions_PrivateIP clopts = False then None
         else Some (JBool (InstanceCloneOptions_PrivateIP clopts)))
     else if key = ''metadata'' then
        map_option InstanceMetadataOptions_json (InstanceCloneOptions_Metadata clopts)
     else if key = ''placement_group'' then
        map_option InstanceCreatePlacementGroupOptions_json
          (InstanceCloneOptions_PlacementGroup clopts)
     else if key = ''group'' then
        (if InstanceCloneOptions_Group clopts = [] then None
         else Some (JString (InstanceCloneOptions_Group clopts)))
     else None)"
  by (simp add: InstanceCloneOptions_json_def members_simps cong: if_cong)

lemma InstanceResizeOptions_members:
  "object_member (InstanceResizeOptions_json rzopts) key =
    (if key = ''type'' then Some (JString (InstanceResizeOptions_Type rzopts))
     else if key = ''migration_type'' then
        (if InstanceResizeOptions_MigrationType rzopts = [] then None
         else Some (JString (InstanceResizeOptions_MigrationType rzopts)))
     else if key = ''allow_auto_disk_resize'' then
        map_option JBool (InstanceResizeOptions_AllowAutoDiskResize rzopts)
     else None)"
  by (simp add: InstanceResizeOptions_json_def members_simps cong: if_cong)

lemma InstanceMigrateOptions_members:
  "object_member (InstanceMigrateOptions_json mopts) key =
    (if key = ''type'' then
        (if InstanceMigrateOptions_Type mopts = [] then None
         else Some (JString (InstanceMigrateOptions_Type mopts)))
     else if key = ''region'' then
        (if InstanceMigrateOptions_Region mopts = [] then None
         else Some (JString (InstanceMigrateOptions_Region mopts)))
     else if key = ''placement_group'' then
        map_option InstanceCreatePlacementGroupOptions_json
          (InstanceMigrateOptions_PlacementGroup mopts)
     else None)"
  by (simp add: InstanceMigrateOptions_json_def members_simps cong: if_cong)

lemma InstanceRebuildOptions_members:
  "object_member (InstanceRebuildOptions_json ropts) key =
    (if key = ''image'' then
        (if InstanceRebuildOptions_Image ropts = [] then None
         else Some (JString (InstanceRebuildOptions_Image ropts)))
     else if key = ''root_pass'' then
        (if InstanceRebuildOptions_RootPass ropts = [] then None
         else Some (JString (InstanceRebuildOptions_RootPass ropts)))
     else if key = ''authorized_keys'' then
        (if InstanceRebuildOptions_AuthorizedKeys ropts = None
            \<or> InstanceRebuildOptions_AuthorizedKeys ropts = Some [] then None
         else Some (enc_slice JString (InstanceRebuildOptions_AuthorizedKeys ropts)))
     else if key = ''authorized_users'' then
        (if InstanceRebuildOptions_AuthorizedUsers ropts = None
            \<or> InstanceRebuildOptions_AuthorizedUsers ropts = Some [] then None
         else Some (enc_slice JString (InstanceRebuildOptions_AuthorizedUsers ropts)))
     else if key = ''stackscript_id'' then
        (if InstanceRebuildOptions_StackScriptID ropts = 0 then None
         else Some (JInt (InstanceRebuildOptions_StackScriptID ropts)))
     else if key = ''stackscript_data'' then
        (if InstanceRebuildOptions_StackScriptData ropts = None
            \<or> InstanceRebuildOptions_StackScriptData ropts = Some [] then None
         else Some
           (case InstanceRebuildOptions_StackScriptData ropts of None \<Rightarrow> JNull
            | Some l \<Rightarrow> JObject (map (\<lambda>kv. (fst kv, JString (snd kv))) l)))
     else if key = ''booted'' then map_option JBool (InstanceRebuildOptions_Booted ropts)
     else if key = ''metadata'' then
        map_option InstanceMetadataOptions_json (InstanceRebuildOptions_Metadata ropts)
     else if key = ''type'' then
        (if InstanceRebuildOptions_Type ropts = [] then None
         else Some (JString (InstanceRebuildOptions_Type ropts)))
     else None)"
  by (simp add: InstanceRebuildOptions_json_def members_simps cong: if_cong)

lemma InstanceRescueOptions_members:
  "object_member (InstanceRescueOptions_json encd rsopts) key =
    (if key = ''devices'' then Some (encd (InstanceRescueOptions_Devices rsopts))
     else None)"
  by (simp add: InstanceRescueOptions_json_def members_simps cong: if_cong)

lemma InstanceMetadataOptions_members:
  "object_member (InstanceMetadataOptions_json mdopts) key =
    (if key = ''user_data'' then
        (if InstanceMetadataOptions_UserData mdopts = [] then None
         else Some (JString (InstanceMetadataOptions_UserData mdopts)))
     else None)"
  by (simp add: InstanceMetadataOptions_json_def members_simps cong: if_cong)

lemma InstanceCreatePlacementGroupOptions_members:
  "object_member (InstanceCreatePlacementGroupOptions_json gopts) key =
    (if key = ''id'' then Some (JInt (InstanceCreatePlacementGroupOptions_ID gopts))
     else if key = ''compliant_only'' then
        map_option JBool (InstanceCreatePlacementGroupOptions_CompliantOnly gopts)
     else None)"
  by (simp add: InstanceCreatePlacementGroupOptions_json_def members_simps cong: if_cong)

lemma PlacementGroupCreateOptions_members:
  "object_member (PlacementGroupCreateOptions_json pcopts) key =
    (if key = ''label'' then Some (JString (PlacementGroupCreateOptions_Label pcopts))
     else if key = ''region'' then Some (JString (PlacementGroupCreateOptions_Region pcopts))
     else if key = ''affinity_type'' then
        Some (JString (PlacementGroupCreateOptions_AffinityType pcopts))
     else if key = ''is_strict'' then Some (JBool (PlacementGroupCreateOptions_IsStrict pcopts))
     else None)"
  by (simp add: PlacementGroupCreateOptions_json_def members_simps cong: if_cong)

lemma PlacementGroupUpdateOptions_members:
  "object_member (PlacementGroupUpdateOptions_json popts) key =
    (if key = ''label'' then
        (if PlacementGroupUpdateOptions_Label popts = [] then None
         else Some (JString (PlacementGroupUpdateOptions_Label popts)))
     else None)"
  by (simp add: PlacementGroupUpdateOptions_json_def members_simps cong: if_cong)

lemma PlacementGroupAssignOptions_members:
  "object_member (PlacementGroupAssignOptions_json aopts) key =
    (if key = ''linodes'' then Some (enc_slice JInt (PlacementGroupAssignOptions_Linodes aopts))
     else if key = ''compliant_only'' then
        map_option JBool (PlacementGroupAssignOptions_CompliantOnly aopts)
     else None)"
  by (simp add: PlacementGroupAssignOptions_json_def members_simps cong: if_cong)

lemma PlacementGroupUnAssignOptions_members:
  "object_member (PlacementGroupUnAssignOptions_json unopts) key =
    (if key = ''linodes'' then
        Some (enc_slice JInt (PlacementGroupUnAssignOptions_Linodes unopts))
     else None)"
  by (simp add: PlacementGroupUnAssignOptions_json_def members_simps cong: if_cong)

lemma InstanceBackup_members:
  "object_member (InstanceBackup_json backup) key =
    (if key = ''available'' then
        (if InstanceBackup_Available backup = False then None
         else Some (JBool (InstanceBackup_Available backup)))
     else if key = ''enabled'' then
        (if InstanceBackup_Enabled backup = False then None
         else Some (JBool (InstanceBackup_Enabled backup)))
     else if key = ''schedule'' then Some (Schedule_json (InstanceBackup_Schedule backup))
     else None)"
  by (simp add: InstanceBackup_json_def members_simps cong: if_cong)

lemma Schedule_members:
  "object_member (Schedule_json sched) key =
    (if key = ''day'' then
        (if Schedule_Day sched = [] then None
         else Some (JString (Schedule_Day sched)))
     else if key = ''window'' then
        (if Schedule_Window sched = [] then None
         else Some (JString (Schedule_Window sched)))
     else None)"
  by (simp add: Schedule_json_def members_simps cong: if_cong)

lemma InstanceAlert_members:
  "object_member (InstanceAlert_json alert) key =
    (if key = ''cpu'' then Some (JInt (InstanceAlert_CPU alert))
     else if key = ''io'' then Some (JInt (InstanceAlert_IO alert))
     else if key = ''network_in'' then Some (JInt (InstanceAlert_NetworkIn alert))
     else if key = ''network_out'' then Some (JInt (InstanceAlert_NetworkOut alert))
     else if key = ''transfer_quota'' then Some (JInt (InstanceAlert_TransferQuota alert))
     else None)"
  by (simp add: InstanceAlert_json_def members_simps cong: if_cong)

text \<open>
  Claim C7.  In a struct with distinct keys, a field is a member of the serialized object
  unless it is tagged \<^verbatim>\<open>omitempty\<close> and its value is empty.  So the optional label of
  \<^verbatim>\<open>InstanceUpdateOptions\<close> and of \<^verbatim>\<open>PlacementGroupUpdateOptions\<close> is sent exactly when
  it is not the empty string; the required \<^verbatim>\<open>region\<close> and \<^verbatim>\<open>type\<close> of
  \<^verbatim>\<open>InstanceCreateOptions\<close> are always sent, empty or not; and the pointer fields
  \<^verbatim>\<open>SwapSize\<close>, \<^verbatim>\<open>Booted\<close>, \<^verbatim>\<open>WatchdogEnabled\<close> and \<^verbatim>\<open>CompliantOnly\<close> are sent exactly
  when the caller set them, with the value set, an explicit 0 or false included.

  And so for every options record, and the records nested in them: under every key, the
  serialized object has exactly the member stated here.  A required field (\<^verbatim>\<open>region\<close> and
  \<^verbatim>\<open>type\<close> of the create options, \<^verbatim>\<open>type\<close> of the resize options, \<^verbatim>\<open>backups_enabled\<close> of
  the clone options, \<^verbatim>\<open>devices\<close> of the rescue options, the four fields of
  \<^verbatim>\<open>PlacementGroupCreateOptions\<close>, \<^verbatim>\<open>linodes\<close> of the assign and unassign options) is
  always a member, with its value; an optional field is a member exactly when it is not
  empty (a string not \<^verbatim>\<open>""\<close>, a number not 0, a boolean not false, a slice or map with an
  entry, a pointer that is set); and under any other key there is no member.
\<close>

theorem options_serialization:
  "(distinct (map fst fs) \<and> struct_field k t is_empty v \<in> set fs \<longrightarrow>
      object_member (marshal_struct fs) k = (if t = OmitEmpty \<and> is_empty then None else Some v))
   \<and> object_member (InstanceUpdateOptions_json uopts) ''label'' =
       (if InstanceUpdateOptions_Label uopts = [] then None
        else Some (JString (InstanceUpdateOptions_Label uopts)))
   \<and> object_member (PlacementGroupUpdateOptions_json popts) ''label'' =
       (if PlacementGroupUpdateOptions_Label popts = [] then None
        else Some (JString (PlacementGroupUpdateOptions_Label popts)))
   \<and> object_member (InstanceCreateOptions_json enc copts) ''region'' =
       Some (JString (InstanceCreateOptions_Region copts))
   \<and> object_member (InstanceCreateOptions_json enc copts) ''type'' =
       Some (JString (InstanceCreateOptions_Type copts))
   \<and> object_member (InstanceCreateOptions_json enc copts) ''swap_size'' =
       map_option JInt (InstanceCreateOptions_SwapSize copts)
   \<and> object_member (InstanceCreateOptions_json enc copts) ''booted'' =
       map_option JBool (InstanceCreateOptions_Booted copts)
   \<and> object_member (InstanceRebuildOptions_json ropts) ''booted'' =
       map_option JBool (InstanceRebuildOptions_Booted ropts)
   \<and> object_member (InstanceUpdateOptions_json uopts) ''watchdog_enabled'' =
       map_option JBool (InstanceUpdateOptions_WatchdogEnabled uopts)
   \<and> object_member (InstanceCreatePlacementGroupOptions_json gopts) ''compliant_only'' =
       map_option JBool (InstanceCreatePlacementGroupOptions_CompliantOnly gopts)
   \<and> object_member (PlacementGroupAssignOptions_json aopts) ''compliant_only'' =
       map_option JBool (PlacementGroupAssignOptions_CompliantOnly aopts)
   \<and> object_member (InstanceCreateOptions_json enc copts) key =
        (if key = ''region'' then Some (JString (InstanceCreateOptions_Region copts))
         else if key = ''type'' then Some (JString (InstanceCreateOptions_Type copts))
         else if key = ''label'' then
            (if InstanceCreateOptions_Label copts = [] then None
             else Some (JString (InstanceCreateOptions_Label copts)))
         else if key = ''root_pass'' then
            (if InstanceCreateOptions_RootPass copts = [] then None
             else Some (JString (InstanceCreateOptions_RootPass copts)))
         else if key = ''authorized_keys'' then
            (if InstanceCreateOptions_AuthorizedKeys copts = None
                \<or> InstanceCreateOptions_AuthorizedKeys copts = Some [] then None
             else Some (enc_slice JString (InstanceCreateOptions_AuthorizedKeys copts)))
         else if key = ''authorized_users'' then
            (if InstanceCreateOptions_AuthorizedUsers copts = None
                \<or> InstanceCreateOptions_AuthorizedUsers copts = Some [] then None
             else Some (enc_slice JString (InstanceCreateOptions_AuthorizedUsers copts)))
         else if key = ''stackscript_id'' then
            (if InstanceCreateOptions_StackScriptID copts = 0 then None
             else Some (JInt (InstanceCreateOptions_StackScriptID copts)))
         else if key = ''stackscript_data'' then
            (if InstanceCreateOptions_StackScriptData copts = None
                \<or> InstanceCreateOptions_StackScriptData copts = Some [] then None
             else Some
               (case InstanceCreateOptions_StackScriptData copts of None \<Rightarrow> JNull
                | Some l \<Rightarrow> JObject (map (\<lambda>kv. (fst kv, JString (snd kv))) l)))
         else if key = ''backup_id'' then
            (if InstanceCreateOptions_BackupID copts = 0 then None
             else Some (JInt (InstanceCreateOptions_BackupID copts)))
         else if key = ''image'' then
            (if InstanceCreateOptions_Image copts = [] then None
             else Some (JString (InstanceCreateOptions_Image copts)))
         else if key = ''interfaces'' then
            (if InstanceCreateOptions_Interfaces copts = None
                \<or> InstanceCreateOptions_Interfaces copts = Some [] then None
             else Some (enc_slice enc (InstanceCreateOptions_Interfaces copts)))
         else if key = ''backups_enabled'' then
            (if InstanceCreateOptions_BackupsEnabled copts = False then None
             else Some (JBool (InstanceCreateOptions_BackupsEnabled copts)))
         else if key = ''private_ip'' then
            (if InstanceCreateOptions_PrivateIP copts = False then None
             else Some (JBool (InstanceCreateOptions_PrivateIP copts)))
         else if key = ''tags'' then
            (if InstanceCreateOptions_Tags copts = None
                \<or> InstanceCreateOptions_Tags copts = Some [] then None
             else Some (enc_slice JString (InstanceCreateOptions_Tags copts)))
         else if key = ''metadata'' then
            map_option InstanceMetadataOptions_json (InstanceCreateOptions_Metadata copts)
         else if key = ''firewall_id'' then
            (if InstanceCreateOptions_FirewallID copts = 0 then None
             else Some (JInt (InstanceCreateOptions_FirewallID copts)))
         else if key = ''placement_group'' then
            map_option InstanceCreatePlacementGroupOptions_json
              (InstanceCreateOptions_PlacementGroup copts)
         else if key = ''swap_size'' then map_option JInt (InstanceCreateOptions_SwapSize copts)
         else if key = ''booted'' then map_option JBool (InstanceCreateOptions_Booted copts)
         else if key = ''group'' then
            (if InstanceCreateOptions_Group copts = [] then None
             else Some (JString (InstanceCreateOptions_Group copts)))
         else None)
   \<and> object_member (InstanceUpdateOptions_json uopts) key =
        (if key = ''label'' then
            (if InstanceUpdateOptions_Label uopts = [] then None
             else Some (JString (InstanceUpdateOptions_Label uopts)))
         else if key = ''backups'' then
            map_option InstanceBackup_json (InstanceUpdateOptions_Backups uopts)
         else if key = ''alerts'' then
            map_option InstanceAlert_json (InstanceUpdateOptions_Alerts uopts)
         else if key = ''watchdog_enabled'' then
            map_option JBool (InstanceUpdateOptions_WatchdogEnabled uopts)
         else if key = ''tags'' then
            map_option (enc_slice JString) (InstanceUpdateOptions_Tags uopts)
         else if key = ''group'' then map_option JString (InstanceUpdateOptions_Group uopts)
         else None)
   \<and> object_member (InstanceCloneOptions_json clopts) key =
        (if key = ''region'' then
            (if InstanceCloneOptions_Region clopts = [] then None
             else Some (JString (InstanceCloneOptions_Region clopts)))
         else if key = ''type'' then
            (if InstanceCloneOptions_Type clopts = [] then None
             else Some (JString (InstanceCloneOptions_Type clopts)))
         else if key = ''linode_id'' then
            (if InstanceCloneOptions_LinodeID clopts = 0 then None
             else Some (JInt (InstanceCloneOptions_LinodeID clopts)))
         else if key = ''label'' then
            (if InstanceCloneOptions_Label clopts = [] then None
             else Some (JString (InstanceCloneOptions_Label clopts)))
         else if key = ''backups_enabled'' then
            Some (JBool (InstanceCloneOptions_BackupsEnabled clopts))
         else if key = ''disks'' then
            (if InstanceCloneOptions_Disks clopts = None
                \<or> InstanceCloneOptions_Disks clopts = Some [] then None
             else Some (enc_slice JInt (InstanceCloneOptions_Disks clopts)))
         else if key = ''configs'' then
            (if InstanceCloneOptions_Configs clopts = None
                \<or> InstanceCloneOptions_Configs clopts = Some [] then None
             else Some (enc_slice JInt (InstanceCloneOptions_Configs clopts)))
         else if key = ''private_ip'' then
            (if InstanceCloneOptions_PrivateIP clopts = False then None
             else Some (JBool (InstanceCloneOptions_PrivateIP clopts)))
         else if key = ''metadata'' then
            map_option InstanceMetadataOptions_json (InstanceCloneOptions_Metadata clopts)
         else if key = ''placement_group'' then
            map_option InstanceCreatePlacementGroupOptions_json
              (InstanceCloneOptions_PlacementGroup clopts)
         else if key = ''group'' then
            (if InstanceCloneOptions_Group clopts = [] then None
             else Some (JString (InstanceCloneOptions_Group clopts)))
         else None)
   \<and> object_member (InstanceResizeOptions_json rzopts) key =
        (if key = ''type'' then Some (JString (InstanceResizeOptions_Type rzopts))
         else if key = ''migration_type'' then
            (if InstanceResizeOptions_MigrationType rzopts = [] then None
             else Some (JString (InstanceResizeOptions_MigrationType rzopts)))
         else if key = ''allow_auto_disk_resize'' then
            map_option JBool (InstanceResizeOptions_AllowAutoDiskResize rzopts)
         else None)
   \<and> object_member (InstanceMigrateOptions_json mopts) key =
        (if key = ''type'' then
            (if InstanceMigrateOptions_Type mopts = [] then None
             else Some (JString (InstanceMigrateOptions_Type mopts)))
         else if key = ''region'' then
            (if InstanceMigrateOptions_Region mopts = [] then None
             else Some (JString (InstanceMigrateOptions_Region mopts)))
         else if key = ''placement_group'' then
            map_option InstanceCreatePlacementGroupOptions_json
              (InstanceMigrateOptions_PlacementGroup mopts)
         else None)
   \<and> object_member (InstanceRebuildOptions_json ropts) key =
        (if key = ''image'' then
            (if InstanceRebuildOptions_Image ropts = [] then None
             else Some (JString (InstanceRebuildOptions_Image ropts)))
         else if key = ''root_pass'' then
            (if InstanceRebuildOptions_RootPass ropts = [] then None
             else Some (JString (InstanceRebuildOptions_RootPass ropts)))
         else if key = ''authorized_keys'' then
            (if InstanceRebuildOptions_AuthorizedKeys ropts = None
                \<or> InstanceRebuildOptions_AuthorizedKeys ropts = Some [] then None
             else Some (enc_slice JString (InstanceRebuildOptions_AuthorizedKeys ropts)))
         else if key = ''authorized_users'' then
            (if InstanceRebuildOptions_AuthorizedUsers ropts = None
                \<or> InstanceRebuildOptions_AuthorizedUsers ropts = Some [] then None
             else Some (enc_slice JString (InstanceRebuildOptions_AuthorizedUsers ropts)))
         else if key = ''stackscript_id'' then
            (if InstanceRebuildOptions_StackScriptID ropts = 0 then None
             else Some (JInt (InstanceRebuildOptions_StackScriptID ropts)))
         else if key = ''stackscript_data'' then
            (if InstanceRebuildOptions_StackScriptData ropts = None
                \<or> InstanceRebuildOptions_StackScriptData ropts = Some [] then None
             else Some
               (case InstanceRebuildOptions_StackScriptData ropts of None \<Rightarrow> JNull
                | Some l \<Rightarrow> JObject (map (\<lambda>kv. (fst kv, JString (snd kv))) l)))
         else if key = ''booted'' then map_option JBool (InstanceRebuildOptions_Booted ropts)
         else if key = ''metadata'' then
            map_option InstanceMetadataOptions_json (InstanceRebuildOptions_Metadata ropts)
         else if key = ''type'' then
            (if InstanceRebuildOptions_Type ropts = [] then None
             else Some (JString (InstanceRebuildOptions_Type ropts)))
         else None)
   \<and> object_member (InstanceRescueOptions_json encd rsopts) key =
        (if key = ''devices'' then Some (encd (InstanceRescueOptions_Devices rsopts))
         else None)
   \<and> object_member (InstanceMetadataOptions_json mdopts) key =
        (if key = ''user_data'' then
            (if InstanceMetadataOptions_UserData mdopts = [] then None
             else Some (JString (InstanceMetadataOptions_UserData mdopts)))
         else None)
   \<and> object_member (InstanceCreatePlacementGroupOptions_json gopts) key =
        (if key = ''id'' then Some (JInt (InstanceCreatePlacementGroupOptions_ID gopts))
         else if key = ''compliant_only'' then
            map_option JBool (InstanceCreatePlacementGroupOptions_CompliantOnly gopts)
         else None)
   \<and> object_member (PlacementGroupCreateOptions_json pcopts) key =
        (if key = ''label'' then Some (JString (PlacementGroupCreateOptions_Label pcopts))
         else if key = ''region'' then Some (JString (PlacementGroupCreateOptions_Region pcopts))
         else if key = ''affinity_type'' then
            Some (JString (PlacementGroupCreateOptions_AffinityType pcopts))
         else if key = ''is_strict'' then
            Some (JBool (PlacementGroupCreateOptions_IsStrict pcopts))
         else None)
   \<and> object_member (PlacementGroupUpdateOptions_json popts) key =
        (if key = ''label'' then
            (if PlacementGroupUpdateOptions_Label popts = [] then None
             else Some (JString (PlacementGroupUpdateOptions_Label popts)))
         else None)
   \<and> object_member (PlacementGroupAssignOptions_json aopts) key =
        (if key = ''linodes'' then
            Some (enc_slice JInt (PlacementGroupAssignOptions_Linodes aopts))
         else if key = ''compliant_only'' then
            map_option JBool (PlacementGroupAssignOptions_CompliantOnly aopts)
         else None)
   \<and> object_member (PlacementGroupUnAssignOptions_json unopts) key =
        (if key = ''linodes'' then
            Some (enc_slice JInt (PlacementGroupUnAssignOptions_Linodes unopts))
         else None)
   \<and> object_member (InstanceBackup_json backup) key =
        (if key = ''available'' then
            (if InstanceBackup_Available backup = False then None
             else Some (JBool (InstanceBackup_Available backup)))
         else if key = ''enabled'' then
            (if InstanceBackup_Enabled backup = False then None
             else Some (JBool (InstanceBackup_Enabled backup)))
         else if key = ''schedule'' then Some (Schedule_json (InstanceBackup_Schedule backup))
         else None)
   \<and> object_member (Schedule_json sched) key =
        (if key = ''day'' then
            (if Schedule_Day sched = [] then None
             else Some (JString (Schedule_Day sched)))
         else if key = ''window'' then
            (if Schedule_Window sched = [] then None
             else Some (JString (Schedule_Window sched)))
         else None)
   \<and> object_member (InstanceAlert_json alert) key =
        (if key = ''cpu'' then Some (JInt (InstanceAlert_CPU alert))
         else if key = ''io'' then Some (JInt (InstanceAlert_IO alert))
         else if key = ''network_in'' then Some (JInt (InstanceAlert_NetworkIn alert))
         else if key = ''network_out'' then Some (JInt (InstanceAlert_NetworkOut alert))
         else if key = ''transfer_quota'' then Some (JInt (InstanceAlert_TransferQuota alert))
         else None)"
proof -
  have generic: "distinct (map fst fs) \<and> struct_field k t is_empty v \<in> set fs \<longrightarrow>
      object_member (marshal_struct fs) k = (if t = OmitEmpty \<and> is_empty then None else Some v)"
    using object_member_marshal_struct [of fs k "t = OmitEmpty \<and> is_empty" v]
    by (simp add: struct_field_def)
  note members = update_label pg_update_label create_region create_type create_swap_size
      create_booted rebuild_booted update_watchdog create_pg_compliant pg_assign_compliant
      InstanceCreateOptions_members InstanceUpdateOptions_members InstanceCloneOptions_members
      InstanceResizeOptions_members InstanceMigrateOptions_members InstanceRebuildOptions_members
      InstanceRescueOptions_members InstanceMetadataOptions_members
      InstanceCreatePlacementGroupOptions_members PlacementGroupCreateOptions_members
      PlacementGroupUpdateOptions_members PlacementGroupAssignOptions_members
      PlacementGroupUnAssignOptions_members InstanceBackup_members Schedule_members
      InstanceAlert_members
  show ?thesis
    by (intro conjI) (rule generic members)+
qed

text \<open>
  Create options with \<^verbatim>\<open>SwapSize\<close> set to 0 and \<^verbatim>\<open>Booted\<close> set to false send both, and
  the empty region; the zero options send no swap size, and zero update options no label.
  Placement-group create options with empty values send all four fields and nothing else;
  unassign and assign options send their \<^verbatim>\<open>linodes\<close>, an empty list included; zero clone
  options send \<^verbatim>\<open>backups_enabled\<close> and no region; zero resize options send the empty
  \<^verbatim>\<open>type\<close> and no migration type; zero migrate options send no \<^verbatim>\<open>type\<close>; rescue options
  send their devices; rebuild and update options with \<^verbatim>\<open>Booted\<close> and \<^verbatim>\<open>WatchdogEnabled\<close>
  set to false send false.
\<close>

theorem options_serialization_witness:
  "object_member
     (InstanceCreateOptions_json (\<lambda>u :: unit. JNull)
        (InstanceCreateOptions_zero
           \<lparr>InstanceCreateOptions_SwapSize := Some 0, InstanceCreateOptions_Booted := Some False\<rparr>))
     ''swap_size'' = Some (JInt 0)
   \<and> object_member
     (InstanceCreateOptions_json (\<lambda>u :: unit. JNull)
        (InstanceCreateOptions_zero
           \<lparr>InstanceCreateOptions_SwapSize := Some 0, InstanceCreateOptions_Booted := Some False\<rparr>))
     ''booted'' = Some (JBool False)
   \<and> object_member
     (InstanceCreateOptions_json (\<lambda>u :: unit. JNull)
        (InstanceCreateOptions_zero
           \<lparr>InstanceCreateOptions_SwapSize := Some 0, InstanceCreateOptions_Booted := Some False\<rparr>))
     ''region'' = Some (JString [])
   \<and> object_member (InstanceCreateOptions_json (\<lambda>u :: unit. JNull) InstanceCreateOptions_zero)
     ''swap_size'' = None
   \<and> object_member (InstanceUpdateOptions_json InstanceUpdateOptions_zero) ''label'' = None
   \<and> object_member
       (marshal_struct [f_string ''label'' OmitEmpty [], f_string ''region'' Plain []]) ''label''
       = None
   \<and> object_member
       (PlacementGroupCreateOptions_json
          \<lparr>PlacementGroupCreateOptions_Label = [], PlacementGroupCreateOptions_Region = [],
           PlacementGroupCreateOptions_AffinityType = [],
           PlacementGroupCreateOptions_IsStrict = False\<rparr>) ''label'' = Some (JString [])
   \<and> object_member
       (PlacementGroupCreateOptions_json
          \<lparr>PlacementGroupCreateOptions_Label = [], PlacementGroupCreateOptions_Region = [],
           PlacementGroupCreateOptions_AffinityType = [],
           PlacementGroupCreateOptions_IsStrict = False\<rparr>) ''region'' = Some (JString [])
   \<and> object_member
       (PlacementGroupCreateOptions_json
          \<lparr>PlacementGroupCreateOptions_Label = [], PlacementGroupCreateOptions_Region = [],
           PlacementGroupCreateOptions_AffinityType = [],
           PlacementGroupCreateOptions_IsStrict = False\<rparr>) ''affinity_type'' = Some (JString [])
   \<and> object_member
       (PlacementGroupCreateOptions_json
          \<lparr>PlacementGroupCreateOptions_Label = [], PlacementGroupCreateOptions_Region = [],
           PlacementGroupCreateOptions_AffinityType = [],
           PlacementGroupCreateOptions_IsStrict = False\<rparr>) ''is_strict'' = Some (JBool False)
   \<and> object_member
       (PlacementGroupCreateOptions_json
          \<lparr>PlacementGroupCreateOptions_Label = [], PlacementGroupCreateOptions_Region = [],
           PlacementGroupCreateOptions_AffinityType = [],
           PlacementGroupCreateOptions_IsStrict = False\<rparr>) ''tags'' = None
   \<and> object_member
       (PlacementGroupUnAssignOptions_json \<lparr>PlacementGroupUnAssignOptions_Linodes = Some [7, 9]\<rparr>)
       ''linodes'' = Some (JArray [JInt 7, JInt 9])
   \<and> object_member
       (PlacementGroupAssignOptions_json
          \<lparr>PlacementGroupAssignOptions_Linodes = Some [],
           PlacementGroupAssignOptions_CompliantOnly = Some False\<rparr>)
       ''linodes'' = Some (JArray [])
   \<and> object_member
       (PlacementGroupAssignOptions_json
          \<lparr>PlacementGroupAssignOptions_Linodes = Some [],
           PlacementGroupAssignOptions_CompliantOnly = Some False\<rparr>)
       ''compliant_only'' = Some (JBool False)
   \<and> object_member (InstanceCloneOptions_json InstanceCloneOptions_zero) ''backups_enabled''
       = Some (JBool False)
   \<and> object_member (InstanceCloneOptions_json InstanceCloneOptions_zero) ''region'' = None
   \<and> object_member (InstanceResizeOptions_json InstanceResizeOptions_zero) ''type''
       = Some (JString [])
   \<and> object_member (InstanceResizeOptions_json InstanceResizeOptions_zero) ''migration_type''
       = None
   \<and> object_member (InstanceMigrateOptions_json InstanceMigrateOptions_zero) ''type'' = None
   \<and> object_member
       (InstanceRescueOptions_json (\<lambda>d :: unit. JNull) \<lparr>InstanceRescueOptions_Devices = ()\<rparr>)
       ''devices'' = Some JNull
   \<and> object_member
       (InstanceRebuildOptions_json
          (InstanceRebuildOptions_zero\<lparr>InstanceRebuildOptions_Booted := Some False\<rparr>))
       ''booted'' = Some (JBool False)
   \<and> object_member
       (InstanceUpdateOptions_json
          (InstanceUpdateOptions_zero\<lparr>InstanceUpdateOptions_WatchdogEnabled := Some False\<rparr>))
       ''watchdog_enabled'' = Some (JBool False)"
proof -
  have generic:
    "object_member
       (marshal_struct [f_string ''label'' OmitEmpty [], f_string ''region'' Plain []]) ''label''
       = None"
    using options_serialization [where fs = "[f_string ''label'' OmitEmpty [],
        f_string ''region'' Plain []]" and k = "''label''" and t = OmitEmpty and is_empty = True
        and v = "JString []", THEN conjunct1]
    by (simp add: f_string_def struct_field_def)
  note members =
    options_serialization [where key = "''label''"]
    options_serialization [where key = "''region''"]
    options_serialization [where key = "''affinity_type''"]
    options_serialization [where key = "''is_strict''"]
    options_serialization [where key = "''tags''"]
    options_serialization [where key = "''linodes''"]
    options_serialization [where key = "''compliant_only''"]
    options_serialization [where key = "''backups_enabled''"]
    options_serialization [where key = "''type''"]
    options_serialization [where key = "''migration_type''"]
    options_serialization [where key = "''devices''"]
    options_serialization [where key = "''booted''"]
    options_serialization [where key = "''watchdog_enabled''"]
    options_serialization [where key = "''swap_size''"]
  show ?thesis
    using generic
    by (simp add: members enc_slice_def InstanceCreateOptions_zero_def
        InstanceUpdateOptions_zero_def InstanceCloneOptions_zero_def
        InstanceResizeOptions_zero_def InstanceMigrateOptions_zero_def
        InstanceRebuildOptions_zero_def)
qed

section \<open>Operations with a request body: properties\<close>

text \<open>
  Claim C6.  When writing the options out as JSON fails, \<^verbatim>\<open>CreateInstance\<close>,
  \<^verbatim>\<open>UpdateInstance\<close>, \<^verbatim>\<open>CloneInstance\<close>, \<^verbatim>\<open>RebuildInstance\<close>, \<^verbatim>\<open>RescueInstance\<close>,
  \<^verbatim>\<open>ResizeInstance\<close> and \<^verbatim>\<open>MigrateInstance\<close> return that error and no result, and the
  request log is as it was: no request is issued.  The same holds for the body of
  \<^verbatim>\<open>BootInstance\<close> and \<^verbatim>\<open>RebootInstance\<close> when a configuration is named.
\<close>

theorem serialization_error_before_request:
  "(write_json (InstanceCreateOptions_json enc_iface copts) = Inl err \<longrightarrow>
      CreateInstance write_json enc_iface http c copts log = ((None, Some err), log))
   \<and> (write_json (InstanceUpdateOptions_json uopts) = Inl err \<longrightarrow>
      UpdateInstance write_json http c linodeID uopts log = ((None, Some err), log))
   \<and> (write_json (InstanceCloneOptions_json clopts) = Inl err \<longrightarrow>
      CloneInstance write_json http c linodeID clopts log = ((None, Some err), log))
   \<and> (write_json (InstanceRebuildOptions_json rbopts) = Inl err \<longrightarrow>
      RebuildInstance write_json http c linodeID rbopts log = ((None, Some err), log))
   \<and> (write_json (InstanceRescueOptions_json enc_devices rsopts) = Inl err \<longrightarrow>
      RescueInstance write_json enc_devices http' c linodeID rsopts log = (Some err, log))
   \<and> (write_json (InstanceResizeOptions_json rzopts) = Inl err \<longrightarrow>
      ResizeInstance write_json http' c linodeID rzopts log = (Some err, log))
   \<and> (write_json (InstanceMigrateOptions_json mopts) = Inl err \<longrightarrow>
      MigrateInstance write_json http' c linodeID mopts log = (Some err, log))
   \<and> (configID \<noteq> 0 \<and> write_json (JObject [(''config_id'', JInt configID)]) = Inl err \<longrightarrow>
      BootInstance write_json http' c linodeID configID log = (Some err, log)
      \<and> RebootInstance write_json http' c linodeID configID log = (Some err, log))"
  by (simp add: CreateInstance_def UpdateInstance_def CloneInstance_def RebuildInstance_def
      RescueInstance_def ResizeInstance_def MigrateInstance_def BootInstance_def
      RebootInstance_def)

text \<open>With a writer that fails, every operation returns its error on an empty log.\<close>

theorem serialization_error_before_request_witness:
  "CreateInstance (\<lambda>j. Inl SerializationError) (\<lambda>u :: unit. JNull)
      (\<lambda>q. Inr (Instance_zero :: unit Instance)) () InstanceCreateOptions_zero [] =
     ((None, Some SerializationError), [])
   \<and> UpdateInstance (\<lambda>j. Inl SerializationError) (\<lambda>q. Inr (Instance_zero :: unit Instance)) () 7
      InstanceUpdateOptions_zero [] = ((None, Some SerializationError), [])
   \<and> CloneInstance (\<lambda>j. Inl SerializationError) (\<lambda>q. Inr (Instance_zero :: unit Instance)) () 7
      InstanceCloneOptions_zero [] = ((None, Some SerializationError), [])
   \<and> RebuildInstance (\<lambda>j. Inl SerializationError) (\<lambda>q. Inr (Instance_zero :: unit Instance)) () 7
      InstanceRebuildOptions_zero [] = ((None, Some SerializationError), [])
   \<and> RescueInstance (\<lambda>j. Inl SerializationError) (\<lambda>u :: unit. JNull) (\<lambda>q. Inr ()) () 7
      \<lparr>InstanceRescueOptions_Devices = ()\<rparr> [] = (Some SerializationError, [])
   \<and> ResizeInstance (\<lambda>j. Inl SerializationError) (\<lambda>q. Inr ()) () 7
      InstanceResizeOptions_zero [] = (Some SerializationError, [])
   \<and> MigrateInstance (\<lambda>j. Inl SerializationError) (\<lambda>q. Inr ()) () 7
      InstanceMigrateOptions_zero [] = (Some SerializationError, [])
   \<and> BootInstance (\<lambda>j. Inl SerializationError) (\<lambda>q. Inr ()) () 7 3 [] =
      (Some SerializationError, [])
   \<and> RebootInstance (\<lambda>j. Inl SerializationError) (\<lambda>q. Inr ()) () 7 3 [] =
      (Some SerializationError, [])"
  using serialization_error_before_request [of "\<lambda>j. Inl SerializationError"
      "\<lambda>u :: unit. JNull" InstanceCreateOptions_zero SerializationError
      "\<lambda>q. Inr (Instance_zero :: unit Instance)" "()" "[]"
      InstanceUpdateOptions_zero 7 InstanceCloneOptions_zero InstanceRebuildOptions_zero
      "\<lambda>u :: unit. JNull" "\<lparr>InstanceRescueOptions_Devices = ()\<rparr>" "\<lambda>q. Inr ()"
      InstanceResizeOptions_zero InstanceMigrateOptions_zero 3]
  by simp

text \<open>
  Claim C9.  \<^verbatim>\<open>RenameInstance\<close> with a label is \<^verbatim>\<open>UpdateInstance\<close> with the options
  \<^verbatim>\<open>InstanceUpdateOptions{Label: label}\<close>, for every writer, HTTP layer, context, instance
  and label: the same result, the same error and the same requests.
\<close>

theorem RenameInstance_is_UpdateInstance:
  "RenameInstance write_json http c linodeID label log =
   UpdateInstance write_json http c linodeID
     \<lparr>InstanceUpdateOptions_Label = label, InstanceUpdateOptions_Backups = None,
      InstanceUpdateOptions_Alerts = None, InstanceUpdateOptions_WatchdogEnabled = None,
      InstanceUpdateOptions_Tags = None, InstanceUpdateOptions_Group = None\<rparr> log"
  by (simp add: RenameInstance_def InstanceUpdateOptions_zero_def)

text \<open>
  Renaming instance 7 against a server that answers 404: one \<^verbatim>\<open>PUT\<close> on
  \<^verbatim>\<open>linode/instances/7\<close>, and the server's error.
\<close>

theorem RenameInstance_is_UpdateInstance_witness:
  "RenameInstance (\<lambda>j. Inr ''{\"label\":\"web\"}'')
      (\<lambda>q. Inl (APIError 404 ''Not found'') :: error + unit Instance) () 7 ''web'' [] =
   UpdateInstance (\<lambda>j. Inr ''{\"label\":\"web\"}'')
      (\<lambda>q. Inl (APIError 404 ''Not found'')) () 7
     \<lparr>InstanceUpdateOptions_Label = ''web'', InstanceUpdateOptions_Backups = None,
      InstanceUpdateOptions_Alerts = None, InstanceUpdateOptions_WatchdogEnabled = None,
      InstanceUpdateOptions_Tags = None, InstanceUpdateOptions_Group = None\<rparr> []
   \<and> RenameInstance (\<lambda>j. Inr ''{\"label\":\"web\"}'')
      (\<lambda>q. Inl (APIError 404 ''Not found'') :: error + unit Instance) () 7 ''web'' [] =
     ((None, Some (APIError 404 ''Not found'')),
      [\<lparr>Context = (), Method = ''PUT'', URL = ''linode/instances/7'',
        Body = Some ''{\"label\":\"web\"}'', Options = None, PageParam = 0\<rparr>])"
proof -
  have "Sprintf_d 7 = ''7''" by code_simp
  then show ?thesis
    using RenameInstance_is_UpdateInstance [of "\<lambda>j. Inr ''{\"label\":\"web\"}''"
        "\<lambda>q. Inl (APIError 404 ''Not found'') :: error + unit Instance" "()" 7 "''web''" "[]"]
    by (simp add: UpdateInstance_def send_def R_def result_pair_def)
qed

text \<open>
  Claim C10.  \<^verbatim>\<open>GetUpdateOptions\<close> copies the label, the backups and the alerts of the
  instance, and points \<^verbatim>\<open>Group\<close>, \<^verbatim>\<open>WatchdogEnabled\<close> and \<^verbatim>\<open>Tags\<close> at the instance's
  fields: these three pointers are never nil, so the serialized options always have the
  members \<^verbatim>\<open>group\<close>, \<^verbatim>\<open>watchdog_enabled\<close> and \<^verbatim>\<open>tags\<close>, with the instance's values.
\<close>

theorem GetUpdateOptions_fields:
  "InstanceUpdateOptions_Label (GetUpdateOptions i) = Instance_Label i
   \<and> InstanceUpdateOptions_Group (GetUpdateOptions i) = Some (Instance_Group i)
   \<and> InstanceUpdateOptions_Backups (GetUpdateOptions i) = Instance_Backups i
   \<and> InstanceUpdateOptions_Alerts (GetUpdateOptions i) = Instance_Alerts i
   \<and> InstanceUpdateOptions_WatchdogEnabled (GetUpdateOptions i) = Some (Instance_WatchdogEnabled i)
   \<and> InstanceUpdateOptions_Tags (GetUpdateOptions i) = Some (Instance_Tags i)
   \<and> object_member (InstanceUpdateOptions_json (GetUpdateOptions i)) ''group'' =
       Some (JString (Instance_Group i))
   \<and> object_member (InstanceUpdateOptions_json (GetUpdateOptions i)) ''watchdog_enabled'' =
       Some (JBool (Instance_WatchdogEnabled i))
   \<and> object_member (InstanceUpdateOptions_json (GetUpdateOptions i)) ''tags'' =
       Some (enc_slice JString (Instance_Tags i))"
  by (simp add: update_group update_watchdog update_tags) (simp add: GetUpdateOptions_def)

text \<open>
  The zero instance, whose group is empty, whose watchdog is off and whose tags are nil,
  still sends all three members.
\<close>

theorem GetUpdateOptions_fields_witness:
  "InstanceUpdateOptions_json (GetUpdateOptions (Instance_zero :: unit Instance)) =
     JObject [(''watchdog_enabled'', JBool False), (''tags'', JNull), (''group'', JString [])]
   \<and> object_member (InstanceUpdateOptions_json (GetUpdateOptions (Instance_zero :: unit Instance)))
       ''group'' = Some (JString [])"
  using GetUpdateOptions_fields [of "Instance_zero :: unit Instance"]
  by (simp add: GetUpdateOptions_def Instance_zero_def InstanceUpdateOptions_json_def field_defs
      marshal_struct_def enc_slice_def)
section \<open>The paginator: properties\<close>

lemma castResult_fetch_step:
  "castResult http = fetch_step http paged_total paged_results paged_merge"
  by (auto simp: castResult_def fetch_step_def send_def paged_total_def paged_results_def
      paged_merge_def Let_def fun_eq_iff split: sum.splits option.splits)

lemma merge_page_fetch_step:
  "merge_page http = fetch_step http envelope_total TotalResults envelope_merge"
  by (auto simp: merge_page_def fetch_step_def send_def envelope_total_def envelope_merge_def
      Let_def fun_eq_iff split: sum.splits option.splits)

lemma page_request_eq:
  "((R c)\<lparr>Options := opts\<rparr>)\<lparr>PageParam := n, Method := ''GET'', URL := e\<rparr> = page_request c opts e n"
  by (simp add: R_def page_request_def)

lemma upto_rec_first: "i \<le> j \<Longrightarrow> [i..j] = i # [i + 1..j]"
  by (simp add: upto_rec1)

text \<open>A run of the loop that ends without an error has fetched every page up to the last.\<close>

lemma listHelper_from_success:
  "listHelper_from (fetch_step http tot results merge) e ((R c)\<lparr>Options := opts\<rparr>) final page
       (acc, log) = Some (None, (acc', log')) \<Longrightarrow>
   acc' = merged merge http acc (map (page_request c opts e) [page..final])
   \<and> log' = log @ map (page_request c opts e) [page..final]
   \<and> (\<forall>j \<in> set [page..final]. fetched tot http (page_request c opts e j))"
proof (induction "nat (final + 1 - page)" arbitrary: page acc log)
  case 0
  then have "\<not> page \<le> final" by simp
  with "0.prems" show ?case
    by (simp add: listHelper_from.simps merged_def)
next
  case (Suc n)
  then have le: "page \<le> final" by simp
  let ?q = "page_request c opts e page"
  from Suc.prems le obtain env k where
    env: "http ?q = Inr env" and tot: "tot env = Some k"
    and rest: "listHelper_from (fetch_step http tot results merge) e ((R c)\<lparr>Options := opts\<rparr>)
        final (page + 1) (merge acc env, log @ [?q]) = Some (None, (acc', log'))"
    by (subst (asm) listHelper_from.simps)
       (auto simp: fetch_step_def Let_def page_request_eq split: sum.splits option.splits)
  from Suc.hyps(2) have n: "n = nat (final + 1 - (page + 1))" by simp
  from Suc.hyps(1) [OF n rest] env tot le show ?case
    by (simp add: upto_rec_first merged_def fetched_def)
qed

text \<open>A run of the loop whose page \<open>k\<close> is the first to fail stops there with its error.\<close>

lemma listHelper_from_failure:
  "page \<le> k \<Longrightarrow> k \<le> final \<Longrightarrow>
   \<forall>j \<in> set [page..k - 1]. fetched tot http (page_request c opts e j) \<Longrightarrow>
   http (page_request c opts e k) = Inl err \<Longrightarrow>
   listHelper_from (fetch_step http tot results merge) e ((R c)\<lparr>Options := opts\<rparr>) final page
       (acc, log) =
     Some (Some err, (merged merge http acc (map (page_request c opts e) [page..k - 1]),
                      log @ map (page_request c opts e) [page..k]))"
proof (induction "nat (k - page)" arbitrary: page acc log)
  case 0
  then have "page = k" by simp
  with "0.prems" show ?case
    by (subst listHelper_from.simps)
       (simp add: fetch_step_def Let_def page_request_eq merged_def)
next
  case (Suc n)
  then have lt: "page < k" by simp
  let ?q = "page_request c opts e page"
  from Suc.prems(3) lt have "fetched tot http ?q" by simp
  then obtain env t where env: "http ?q = Inr env" and tot: "tot env = Some t"
    by (auto simp: fetched_def split: sum.splits)
  from Suc.hyps(2) have n: "n = nat (k - (page + 1))" by simp
  have all: "\<forall>j \<in> set [page + 1..k - 1]. fetched tot http (page_request c opts e j)"
    using Suc.prems(3) lt by (simp add: upto_rec_first)
  have IH: "listHelper_from (fetch_step http tot results merge) e ((R c)\<lparr>Options := opts\<rparr>) final
       (page + 1) (merge acc env, log @ [?q]) =
     Some (Some err, (merged merge http (merge acc env) (map (page_request c opts e) [page + 1..k - 1]),
                      (log @ [?q]) @ map (page_request c opts e) [page + 1..k]))"
    using Suc.hyps(1) [OF n _ Suc.prems(2) all Suc.prems(4)] lt by simp
  from lt Suc.prems(2) have le: "page \<le> final" by simp
  show ?case
    using le lt env tot IH
    by (subst listHelper_from.simps)
       (simp add: fetch_step_def Let_def page_request_eq merged_def upto_rec_first)
qed

lemma listHelper_success:
  assumes "listHelper (fetch_step http tot results merge) e c opts (acc, log) =
             Some (None, (acc', log'))"
  shows "acc' = merged merge http acc
                  (map (page_request c opts e) [1..listing_pages tot http c opts e])
         \<and> log' = log @ map (page_request c opts e) [1..listing_pages tot http c opts e]"
proof -
  let ?q = "page_request c opts e 1"
  from assms obtain env n where
    env: "http ?q = Inr env" and tot: "tot env = Some n"
    and rest: "listHelper_from (fetch_step http tot results merge) e ((R c)\<lparr>Options := opts\<rparr>)
        (last_page opts n) 2 (merge acc env, log @ [?q]) = Some (None, (acc', log'))"
    by (auto simp: listHelper_def fetch_step_def Let_def page_request_eq
        split: sum.splits option.splits)
  have pages: "listing_pages tot http c opts e = max 1 (last_page opts n)"
    using env tot by (simp add: listing_pages_def)
  have range: "[1..max 1 (last_page opts n)] = 1 # [2..last_page opts n]"
    by (cases "1 \<le> last_page opts n") (simp_all add: upto_rec_first max_def)
  from listHelper_from_success [OF rest] env show ?thesis
    by (simp add: pages range merged_def)
qed

lemma listHelper_failure:
  assumes "1 \<le> k" and "k \<le> listing_pages tot http c opts e"
    and "\<forall>j \<in> {1..<k}. fetched tot http (page_request c opts e j)"
    and "http (page_request c opts e k) = Inl err"
  shows "listHelper (fetch_step http tot results merge) e c opts (acc, log) =
           Some (Some err, (merged merge http acc (map (page_request c opts e) [1..k - 1]),
                            log @ map (page_request c opts e) [1..k]))"
proof (cases "k = 1")
  case True
  with assms(4) show ?thesis
    by (simp add: listHelper_def fetch_step_def Let_def page_request_eq merged_def)
next
  case False
  with assms(1) have k2: "2 \<le> k" by simp
  let ?q = "page_request c opts e 1"
  from assms(3) k2 have "fetched tot http ?q" by simp
  then obtain env n where env: "http ?q = Inr env" and tot: "tot env = Some n"
    by (auto simp: fetched_def split: sum.splits)
  from assms(2) env tot k2 have final: "k \<le> last_page opts n"
    by (simp add: listing_pages_def)
  have all: "\<forall>j \<in> set [2..k - 1]. fetched tot http (page_request c opts e j)"
    using assms(3) by simp
  have first: "[1..k - 1] = 1 # [2..k - 1]" "[1..k] = 1 # [2..k]"
    using k2 by (simp_all add: upto_rec_first)
  from listHelper_from_failure [OF k2 final all assms(4), of results merge "merge acc env" "log @ [?q]"]
    env tot
  show ?thesis
    by (simp add: listHelper_def fetch_step_def Let_def page_request_eq first merged_def)
qed

lemma Data_merged:
  "Data (merged paged_merge http acc qs) = Data acc @ concat (map (records_of Data http) qs)"
  by (induction qs arbitrary: acc)
     (simp_all add: merged_def paged_merge_def records_of_def split: sum.splits)

lemma envelope_merged:
  "merged envelope_merge http acc qs = acc @ concat (map (records_of Records http) qs)"
  by (induction qs arbitrary: acc)
     (simp_all add: merged_def envelope_merge_def records_of_def split: sum.splits)

lemma ListEvents_success:
  assumes "ListEvents http c opts log = Some ((d, None), log')"
  shows "d = concat (map (records_of Data http)
                (map (page_request c opts EventsPagedResponse_endpoint)
                   [1..listing_pages paged_total http c opts EventsPagedResponse_endpoint]))
         \<and> log' = log @ map (page_request c opts EventsPagedResponse_endpoint)
                   [1..listing_pages paged_total http c opts EventsPagedResponse_endpoint]"
proof -
  from assms obtain resp where
    run: "listHelper (fetch_step http paged_total paged_results paged_merge)
            EventsPagedResponse_endpoint c opts (PagedResponse_zero, log) = Some (None, (resp, log'))"
    and d: "d = Data resp"
    by (auto simp: ListEvents_def EventsPagedResponse_castResult_def castResult_fetch_step
        split: option.splits)
  from listHelper_success [OF run] d show ?thesis
    by (simp add: Data_merged PagedResponse_zero_def)
qed

lemma ListInstances_success:
  assumes "ListInstances http c opts log = Some ((d, None), log')"
  shows "d = concat (map (records_of Data http)
                (map (page_request c opts InstancesPagedResponse_endpoint)
                   [1..listing_pages paged_total http c opts InstancesPagedResponse_endpoint]))
         \<and> log' = log @ map (page_request c opts InstancesPagedResponse_endpoint)
                   [1..listing_pages paged_total http c opts InstancesPagedResponse_endpoint]"
proof -
  from assms obtain resp where
    run: "listHelper (fetch_step http paged_total paged_results paged_merge)
            InstancesPagedResponse_endpoint c opts (PagedResponse_zero, log) =
              Some (None, (resp, log'))"
    and d: "d = Data resp"
    by (auto simp: ListInstances_def InstancesPagedResponse_castResult_def castResult_fetch_step
        split: option.splits)
  from listHelper_success [OF run] d show ?thesis
    by (simp add: Data_merged PagedResponse_zero_def)
qed

lemma ListPlacementGroups_success:
  assumes "ListPlacementGroups http c opts log = Some ((d, None), log')"
  shows "d = concat (map (records_of Records http)
                (map (page_request c opts ''placement/groups'')
                   [1..listing_pages envelope_total http c opts ''placement/groups'']))
         \<and> log' = log @ map (page_request c opts ''placement/groups'')
                   [1..listing_pages envelope_total http c opts ''placement/groups'']"
proof -
  from assms have
    run: "listHelper (fetch_step http envelope_total TotalResults envelope_merge)
            ''placement/groups'' c opts ([], log) = Some (None, (d, log'))"
    by (auto simp: ListPlacementGroups_def getPaginatedResults_def merge_page_fetch_step
        split: option.splits)
  from listHelper_success [OF run] show ?thesis
    by (simp add: envelope_merged)
qed

lemma ListEvents_failure:
  assumes "1 \<le> k"
    and "k \<le> listing_pages paged_total http c opts EventsPagedResponse_endpoint"
    and "\<forall>j \<in> {1..<k}. fetched paged_total http (page_request c opts EventsPagedResponse_endpoint j)"
    and "http (page_request c opts EventsPagedResponse_endpoint k) = Inl err"
  shows "ListEvents http c opts log =
           Some (([], Some err), log @ map (page_request c opts EventsPagedResponse_endpoint) [1..k])"
  using listHelper_failure [OF assms, of paged_results paged_merge PagedResponse_zero log]
  by (simp add: ListEvents_def EventsPagedResponse_castResult_def castResult_fetch_step)

lemma ListInstances_failure:
  assumes "1 \<le> k"
    and "k \<le> listing_pages paged_total http c opts InstancesPagedResponse_endpoint"
    and "\<forall>j \<in> {1..<k}. fetched paged_total http
            (page_request c opts InstancesPagedResponse_endpoint j)"
    and "http (page_request c opts InstancesPagedResponse_endpoint k) = Inl err"
  shows "ListInstances http c opts log =
           Some (([], Some err),
                 log @ map (page_request c opts InstancesPagedResponse_endpoint) [1..k])"
  using listHelper_failure [OF assms, of paged_results paged_merge PagedResponse_zero log]
  by (simp add: ListInstances_def InstancesPagedResponse_castResult_def castResult_fetch_step)

lemma ListPlacementGroups_failure:
  assumes "1 \<le> k"
    and "k \<le> listing_pages envelope_total http c opts ''placement/groups''"
    and "\<forall>j \<in> {1..<k}. fetched envelope_total http (page_request c opts ''placement/groups'' j)"
    and "http (page_request c opts ''placement/groups'' k) = Inl err"
  shows "ListPlacementGroups http c opts log =
           Some (([], Some err), log @ map (page_request c opts ''placement/groups'') [1..k])"
  using listHelper_failure [OF assms, of TotalResults envelope_merge "[]" log]
  by (simp add: ListPlacementGroups_def getPaginatedResults_def merge_page_fetch_step)

lemma listing_error_nil:
  "ListEvents http c opts log = Some ((d, Some err), log') \<Longrightarrow> d = []"
  "ListInstances http' c opts log = Some ((d', Some err), log') \<Longrightarrow> d' = []"
  "ListPlacementGroups http'' c opts log = Some ((d'', Some err), log') \<Longrightarrow> d'' = []"
  by (auto simp: ListEvents_def ListInstances_def ListPlacementGroups_def getPaginatedResults_def
      split: option.splits)

text \<open>
  Claim C1.  Let page \<open>k\<close> be the first page of a listing whose fetch fails: the pages
  before it are fetched, and \<open>k\<close> is among the pages the listing asks for.  Then
  \<^verbatim>\<open>ListEvents\<close>, \<^verbatim>\<open>ListInstances\<close> and \<^verbatim>\<open>ListPlacementGroups\<close> return the error of
  page \<open>k\<close> with the nil slice, after the requests for the pages 1 to \<open>k\<close> and no other.
  And whenever one of them returns an error, the slice it returns is nil.
\<close>

theorem listing_aborts_on_page_error:
  "(1 \<le> k \<and> k \<le> listing_pages paged_total http c opts EventsPagedResponse_endpoint
      \<and> (\<forall>j \<in> {1..<k}. fetched paged_total http (page_request c opts EventsPagedResponse_endpoint j))
      \<and> http (page_request c opts EventsPagedResponse_endpoint k) = Inl err \<longrightarrow>
    ListEvents http c opts log =
      Some (([], Some err), log @ map (page_request c opts EventsPagedResponse_endpoint) [1..k]))
   \<and> (ListEvents http c opts log = Some ((d, Some err), log') \<longrightarrow> d = [])
   \<and> (1 \<le> k \<and> k \<le> listing_pages paged_total http_i c opts InstancesPagedResponse_endpoint
      \<and> (\<forall>j \<in> {1..<k}.
            fetched paged_total http_i (page_request c opts InstancesPagedResponse_endpoint j))
      \<and> http_i (page_request c opts InstancesPagedResponse_endpoint k) = Inl err \<longrightarrow>
    ListInstances http_i c opts log =
      Some (([], Some err), log @ map (page_request c opts InstancesPagedResponse_endpoint) [1..k]))
   \<and> (ListInstances http_i c opts log = Some ((d_i, Some err), log') \<longrightarrow> d_i = [])
   \<and> (1 \<le> k \<and> k \<le> listing_pages envelope_total http_p c opts ''placement/groups''
      \<and> (\<forall>j \<in> {1..<k}. fetched envelope_total http_p (page_request c opts ''placement/groups'' j))
      \<and> http_p (page_request c opts ''placement/groups'' k) = Inl err \<longrightarrow>
    ListPlacementGroups http_p c opts log =
      Some (([], Some err), log @ map (page_request c opts ''placement/groups'') [1..k]))
   \<and> (ListPlacementGroups http_p c opts log = Some ((d_p, Some err), log') \<longrightarrow> d_p = [])"
  using ListEvents_failure [of k http c opts err log]
    ListInstances_failure [of k http_i c opts err log]
    ListPlacementGroups_failure [of k http_p c opts err log]
    listing_error_nil(1) [of http c opts log d err log']
    listing_error_nil(2) [of http_i c opts log d_i err log']
    listing_error_nil(3) [of http_p c opts log d_p err log']
  by blast

text \<open>
  Three pages of sizes 100, 100 and 37, of which page 2 answers with an API error: the
  listing returns that error and no record, after two requests.
\<close>

theorem listing_aborts_on_page_error_witness:
  "ListEvents (failing_at 2 (APIError 500 ''boom'') (mock_paged [100, 100, 37] mock_event))
      () None [] =
     Some (([], Some (APIError 500 ''boom'')),
           [page_request () None ''account/events'' 1, page_request () None ''account/events'' 2])
   \<and> ListInstances (failing_at 2 (APIError 500 ''boom'') (mock_paged [100, 100, 37] mock_instance))
      () None [] =
     Some (([], Some (APIError 500 ''boom'')),
           [page_request () None ''linode/instances'' 1, page_request () None ''linode/instances'' 2])
   \<and> ListPlacementGroups
      (failing_at 2 (APIError 500 ''boom'') (mock_envelopes [100, 100, 37] mock_group)) () None [] =
     Some (([], Some (APIError 500 ''boom'')),
           [page_request () None ''placement/groups'' 1, page_request () None ''placement/groups'' 2])"
proof -
  have range: "{1..<2::int} = {1}" by auto
  have upto: "[1..2::int] = [1, 2]" by (simp add: upto_rec_first)
  show ?thesis
    using listing_aborts_on_page_error [where k = 2 and c = "()" and opts = None
        and err = "APIError 500 ''boom''" and log = "[]" and log' = "[]"
        and d = "[]" and d_i = "[]" and d_p = "[]"
        and http = "failing_at 2 (APIError 500 ''boom'') (mock_paged [100, 100, 37] mock_event)"
        and http_i = "failing_at 2 (APIError 500 ''boom'') (mock_paged [100, 100, 37] mock_instance)"
        and http_p = "failing_at 2 (APIError 500 ''boom'') (mock_envelopes [100, 100, 37] mock_group)"]
    by (simp add: range upto listing_pages_def fetched_def failing_at_def mock_paged_def
        mock_envelopes_def page_request_def paged_total_def envelope_total_def last_page_def
        EventsPagedResponse_endpoint_def InstancesPagedResponse_endpoint_def)
qed

text \<open>When every page up to the last is fetched, the loop runs to its end without an error.\<close>

lemma listHelper_from_total:
  "\<forall>j \<in> set [page..final]. fetched tot http (page_request c opts e j) \<Longrightarrow>
   listHelper_from (fetch_step http tot results merge) e ((R c)\<lparr>Options := opts\<rparr>) final page
       (acc, log) =
     Some (None, (merged merge http acc (map (page_request c opts e) [page..final]),
                  log @ map (page_request c opts e) [page..final]))"
proof (induction "nat (final + 1 - page)" arbitrary: page acc log)
  case 0
  then have "\<not> page \<le> final" by simp
  then show ?case
    by (simp add: listHelper_from.simps merged_def)
next
  case (Suc n)
  then have le: "page \<le> final" by simp
  let ?q = "page_request c opts e page"
  from Suc.prems le have "fetched tot http ?q" by simp
  then obtain env t where env: "http ?q = Inr env" and tot: "tot env = Some t"
    by (auto simp: fetched_def split: sum.splits)
  from Suc.hyps(2) have n: "n = nat (final + 1 - (page + 1))" by simp
  have all: "\<forall>j \<in> set [page + 1..final]. fetched tot http (page_request c opts e j)"
    using Suc.prems le by (simp add: upto_rec_first)
  from Suc.hyps(1) [OF n all, of "merge acc env" "log @ [?q]"] le env tot show ?case
    by (subst listHelper_from.simps)
       (simp add: fetch_step_def Let_def page_request_eq merged_def upto_rec_first)
qed

lemma listing_pages_ge_1: "1 \<le> listing_pages tot http c opts e"
  by (simp add: listing_pages_def split: sum.splits option.splits)

lemma listHelper_total:
  assumes "\<forall>j \<in> {1..listing_pages tot http c opts e}. fetched tot http (page_request c opts e j)"
  shows "listHelper (fetch_step http tot results merge) e c opts (acc, log) =
           Some (None,
             (merged merge http acc
                (map (page_request c opts e) [1..listing_pages tot http c opts e]),
              log @ map (page_request c opts e) [1..listing_pages tot http c opts e]))"
proof -
  let ?q = "page_request c opts e 1"
  from assms listing_pages_ge_1 [of tot http c opts e] have "fetched tot http ?q" by simp
  then obtain env n where env: "http ?q = Inr env" and tot: "tot env = Some n"
    by (auto simp: fetched_def split: sum.splits)
  have pages: "listing_pages tot http c opts e = max 1 (last_page opts n)"
    using env tot by (simp add: listing_pages_def)
  have range: "[1..max 1 (last_page opts n)] = 1 # [2..last_page opts n]"
    by (cases "1 \<le> last_page opts n") (simp_all add: upto_rec_first max_def)
  have all: "\<forall>j \<in> set [2..last_page opts n]. fetched tot http (page_request c opts e j)"
    using assms by (simp add: pages)
  from listHelper_from_total [OF all, of results merge "merge acc env" "log @ [?q]"] env tot
  show ?thesis
    by (simp add: listHelper_def fetch_step_def Let_def page_request_eq pages range merged_def)
qed

lemma ListEvents_total:
  assumes "\<forall>j \<in> {1..listing_pages paged_total http c opts EventsPagedResponse_endpoint}.
             fetched paged_total http (page_request c opts EventsPagedResponse_endpoint j)"
  shows "ListEvents http c opts log =
           Some ((concat (map (records_of Data http)
                    (map (page_request c opts EventsPagedResponse_endpoint)
                       [1..listing_pages paged_total http c opts EventsPagedResponse_endpoint])),
                  None),
                 log @ map (page_request c opts EventsPagedResponse_endpoint)
                   [1..listing_pages paged_total http c opts EventsPagedResponse_endpoint])"
  using listHelper_total [OF assms, of paged_results paged_merge PagedResponse_zero log]
  by (simp add: ListEvents_def EventsPagedResponse_castResult_def castResult_fetch_step
      Data_merged PagedResponse_zero_def)

lemma ListInstances_total:
  assumes "\<forall>j \<in> {1..listing_pages paged_total http c opts InstancesPagedResponse_endpoint}.
             fetched paged_total http (page_request c opts InstancesPagedResponse_endpoint j)"
  shows "ListInstances http c opts log =
           Some ((concat (map (records_of Data http)
                    (map (page_request c opts InstancesPagedResponse_endpoint)
                       [1..listing_pages paged_total http c opts
                             InstancesPagedResponse_endpoint])),
                  None),
                 log @ map (page_request c opts InstancesPagedResponse_endpoint)
                   [1..listing_pages paged_total http c opts InstancesPagedResponse_endpoint])"
  using listHelper_total [OF assms, of paged_results paged_merge PagedResponse_zero log]
  by (simp add: ListInstances_def InstancesPagedResponse_castResult_def castResult_fetch_step
      Data_merged PagedResponse_zero_def)

lemma ListPlacementGroups_total:
  assumes "\<forall>j \<in> {1..listing_pages envelope_total http c opts ''placement/groups''}.
             fetched envelope_total http (page_request c opts ''placement/groups'' j)"
  shows "ListPlacementGroups http c opts log =
           Some ((concat (map (records_of Records http)
                    (map (page_request c opts ''placement/groups'')
                       [1..listing_pages envelope_total http c opts ''placement/groups''])),
                  None),
                 log @ map (page_request c opts ''placement/groups'')
                   [1..listing_pages envelope_total http c opts ''placement/groups''])"
  using listHelper_total [OF assms, of TotalResults envelope_merge "[]" log]
  by (simp add: ListPlacementGroups_def getPaginatedResults_def merge_page_fetch_step
      envelope_merged)

text \<open>
  Claim C2.  When \<^verbatim>\<open>ListEvents\<close>, \<^verbatim>\<open>ListInstances\<close> or \<^verbatim>\<open>ListPlacementGroups\<close> returns
  without an error, the slice returned is the concatenation, in page order, of the record
  lists of the pages 1 to the last page asked for, nothing reordered and nothing dropped,
  and the requests issued are exactly one per page, in that order.

  And each of the three does return so: when every page from 1 to the last page asked for
  is fetched, the listing returns that concatenation and no error, and the requests issued
  are exactly one per page, in page order.
\<close>

theorem listing_concatenates_pages:
  "(ListEvents http c opts log = Some ((d, None), log') \<longrightarrow>
      d = concat (map (records_of Data http)
                (map (page_request c opts EventsPagedResponse_endpoint)
                   [1..listing_pages paged_total http c opts EventsPagedResponse_endpoint]))
      \<and> log' = log @ map (page_request c opts EventsPagedResponse_endpoint)
                   [1..listing_pages paged_total http c opts EventsPagedResponse_endpoint])
   \<and> (ListInstances http_i c opts log = Some ((d_i, None), log') \<longrightarrow>
      d_i = concat (map (records_of Data http_i)
                (map (page_request c opts InstancesPagedResponse_endpoint)
                   [1..listing_pages paged_total http_i c opts InstancesPagedResponse_endpoint]))
      \<and> log' = log @ map (page_request c opts InstancesPagedResponse_endpoint)
                   [1..listing_pages paged_total http_i c opts InstancesPagedResponse_endpoint])
   \<and> (ListPlacementGroups http_p c opts log = Some ((d_p, None), log') \<longrightarrow>
      d_p = concat (map (records_of Records http_p)
                (map (page_request c opts ''placement/groups'')
                   [1..listing_pages envelope_total http_p c opts ''placement/groups'']))
      \<and> log' = log @ map (page_request c opts ''placement/groups'')
                   [1..listing_pages envelope_total http_p c opts ''placement/groups''])
   \<and> ((\<forall>j \<in> {1..listing_pages paged_total http c opts EventsPagedResponse_endpoint}.
          fetched paged_total http (page_request c opts EventsPagedResponse_endpoint j)) \<longrightarrow>
      ListEvents http c opts log =
        Some ((concat (map (records_of Data http)
                 (map (page_request c opts EventsPagedResponse_endpoint)
                    [1..listing_pages paged_total http c opts EventsPagedResponse_endpoint])),
               None),
              log @ map (page_request c opts EventsPagedResponse_endpoint)
                [1..listing_pages paged_total http c opts EventsPagedResponse_endpoint]))
   \<and> ((\<forall>j \<in> {1..listing_pages paged_total http_i c opts InstancesPagedResponse_endpoint}.
          fetched paged_total http_i (page_request c opts InstancesPagedResponse_endpoint j)) \<longrightarrow>
      ListInstances http_i c opts log =
        Some ((concat (map (records_of Data http_i)
                 (map (page_request c opts InstancesPagedResponse_endpoint)
                    [1..listing_pages paged_total http_i c opts
                          InstancesPagedResponse_endpoint])),
               None),
              log @ map (page_request c opts InstancesPagedResponse_endpoint)
                [1..listing_pages paged_total http_i c opts InstancesPagedResponse_endpoint]))
   \<and> ((\<forall>j \<in> {1..listing_pages envelope_total http_p c opts ''placement/groups''}.
          fetched envelope_total http_p (page_request c opts ''placement/groups'' j)) \<longrightarrow>
      ListPlacementGroups http_p c opts log =
        Some ((concat (map (records_of Records http_p)
                 (map (page_request c opts ''placement/groups'')
                    [1..listing_pages envelope_total http_p c opts ''placement/groups''])),
               None),
              log @ map (page_request c opts ''placement/groups'')
                [1..listing_pages envelope_total http_p c opts ''placement/groups'']))"
  using ListEvents_success [of http c opts log d log']
    ListInstances_success [of http_i c opts log d_i log']
    ListPlacementGroups_success [of http_p c opts log d_p log']
    ListEvents_total [of http c opts log]
    ListInstances_total [of http_i c opts log]
    ListPlacementGroups_total [of http_p c opts log]
  by blast

text \<open>
  The mock endpoint of three pages of sizes 100, 100 and 37: \<^verbatim>\<open>ListEvents\<close>,
  \<^verbatim>\<open>ListInstances\<close> and \<^verbatim>\<open>ListPlacementGroups\<close> each return the 237 records numbered 1 to
  237 in that order and no error, from the three requests for the pages 1, 2 and 3.
\<close>

theorem listing_concatenates_pages_witness:
  "map_option (\<lambda>r. (map Event_ID (fst (fst r)), length (fst (fst r)), snd (fst r),
                    map PageParam (snd r)))
     (ListEvents (mock_paged [100, 100, 37] mock_event) () None []) =
   Some ([1..237], 237, None, [1, 2, 3])
   \<and> map_option (\<lambda>r. (map Instance_ID (fst (fst r)), length (fst (fst r)), snd (fst r),
                    map PageParam (snd r)))
     (ListInstances (mock_paged [100, 100, 37] mock_instance) () None []) =
   Some ([1..237], 237, None, [1, 2, 3])
   \<and> map_option (\<lambda>r. (map PlacementGroup_ID (fst (fst r)), length (fst (fst r)), snd (fst r),
                    map PageParam (snd r)))
     (ListPlacementGroups (mock_envelopes [100, 100, 37] mock_group) () None []) =
   Some ([1..237], 237, None, [1, 2, 3])"
proof -
  let ?e = "mock_paged [100, 100, 37] mock_event :: (unit, Event PagedResponse) http"
  let ?i = "mock_paged [100, 100, 37] mock_instance :: (unit, unit Instance PagedResponse) http"
  let ?p = "mock_envelopes [100, 100, 37] mock_group :: (unit, PlacementGroup PageEnvelope) http"
  let ?E = "map (page_request () None EventsPagedResponse_endpoint) [1, 2, 3]"
  let ?I = "map (page_request () None InstancesPagedResponse_endpoint) [1, 2, 3]"
  let ?P = "map (page_request () None ''placement/groups'') [1, 2, 3]"
  note T = listing_concatenates_pages [where http = ?e and http_i = ?i and http_p = ?p
      and c = "()" and opts = None and log = "[]"]
  have pages:
    "listing_pages paged_total ?e () None EventsPagedResponse_endpoint = 3"
    "listing_pages paged_total ?i () None InstancesPagedResponse_endpoint = 3"
    "listing_pages envelope_total ?p () None ''placement/groups'' = 3"
    by (simp_all add: listing_pages_def mock_paged_def mock_envelopes_def page_request_def
        paged_total_def envelope_total_def last_page_def)
  have range: "{1..3::int} = {1, 2, 3}" by auto
  have upto: "[1..3::int] = [1, 2, 3]" by code_simp
  have fetched:
    "\<forall>j \<in> {1..3}. fetched paged_total ?e (page_request () None EventsPagedResponse_endpoint j)"
    "\<forall>j \<in> {1..3}. fetched paged_total ?i (page_request () None InstancesPagedResponse_endpoint j)"
    "\<forall>j \<in> {1..3}. fetched envelope_total ?p (page_request () None ''placement/groups'' j)"
    by (simp_all add: range fetched_def mock_paged_def mock_envelopes_def page_request_def
        paged_total_def envelope_total_def)
  have run_e: "ListEvents ?e () None [] = Some ((concat (map (records_of Data ?e) ?E), None), ?E)"
    using T [THEN conjunct2, THEN conjunct2, THEN conjunct2, THEN conjunct1] fetched(1)
    by (simp add: pages upto)
  have run_i: "ListInstances ?i () None [] = Some ((concat (map (records_of Data ?i) ?I), None), ?I)"
    using T [THEN conjunct2, THEN conjunct2, THEN conjunct2, THEN conjunct2, THEN conjunct1]
      fetched(2)
    by (simp add: pages upto)
  have run_p: "ListPlacementGroups ?p () None [] =
      Some ((concat (map (records_of Records ?p) ?P), None), ?P)"
    using T [THEN conjunct2, THEN conjunct2, THEN conjunct2, THEN conjunct2, THEN conjunct2]
      fetched(3)
    by (simp add: pages upto)
  have ids:
    "map Event_ID (concat (map (records_of Data ?e) ?E)) = [1..237]"
    "map Instance_ID (concat (map (records_of Data ?i) ?I)) = [1..237]"
    "map PlacementGroup_ID (concat (map (records_of Records ?p) ?P)) = [1..237]"
    by code_simp+
  have len: "\<And>f (xs :: 'a list). map f xs = [1..237] \<Longrightarrow> length xs = 237"
    by (metis length_map length_upto diff_add_cancel nat_numeral add_diff_cancel_right')
  have params: "map PageParam ?E = [1, 2, 3]" "map PageParam ?I = [1, 2, 3]"
    "map PageParam ?P = [1, 2, 3]"
    by (simp_all add: page_request_def)
  note S = T [where log' = ?E and d = "concat (map (records_of Data ?e) ?E)", THEN conjunct1]
    T [where log' = ?I and d_i = "concat (map (records_of Data ?i) ?I)",
      THEN conjunct2, THEN conjunct1]
    T [where log' = ?P and d_p = "concat (map (records_of Records ?p) ?P)",
      THEN conjunct2, THEN conjunct2, THEN conjunct1]
  show ?thesis
    using ids len [OF ids(1)] len [OF ids(2)] len [OF ids(3)] params S
    by (simp only: run_e run_i run_p option.map fst_conv snd_conv)
qed

section \<open>Decoding: properties\<close>

lemma bind_res_simps [simp]:
  "bind_res (Inl e) f = Inl e" "bind_res (Inr x) f = f x"
  by (simp_all add: bind_res_def)

lemma map_res_simps [simp]:
  "map_res f (Inl e) = Inl e" "map_res f (Inr x) = Inr (f x)"
  by (simp_all add: map_res_def)

lemma map_res_Inr_iff: "map_res f r = Inr y \<longleftrightarrow> (\<exists>x. r = Inr x \<and> y = f x)"
  by (cases r) auto

lemma map_res_Inl_iff: "map_res f r = Inl e \<longleftrightarrow> r = Inl e"
  by (cases r) auto

lemma bind_res_Inr_iff: "bind_res r f = Inr y \<longleftrightarrow> (\<exists>x. r = Inr x \<and> f x = Inr y)"
  by (cases r) auto

lemma bind_res_Inl_iff: "bind_res r f = Inl e \<longleftrightarrow> r = Inl e \<or> (\<exists>x. r = Inr x \<and> f x = Inl e)"
  by (cases r) auto

text \<open>
  What a successful decoding of an object leaves in one part \<open>g\<close> of a struct: if only the
  key \<open>key\<close> writes the part, and writes it with the decoder \<open>dec\<close>, the part is the result
  of decoding the values of the members named \<open>key\<close> one after the other.
\<close>

lemma decode_members_field:
  assumes step: "\<And>k v s s'. field k v s = Inr s' \<Longrightarrow>
                   (if k = key then dec v (g s) = Inr (g s') else g s' = g s)"
  shows "decode_members field kvs s = Inr s' \<Longrightarrow>
         decode_seq dec (field_values key kvs) (g s) = Inr (g s')"
proof (induction kvs arbitrary: s)
  case Nil
  then show ?case by (simp add: field_values_def)
next
  case (Cons kv kvs)
  from Cons.prems obtain s1 where
    one: "field (fold_key (fst kv)) (snd kv) s = Inr s1"
    and rest: "decode_members field kvs s1 = Inr s'"
    by (auto simp: bind_res_Inr_iff)
  from Cons.IH [OF rest] have IH: "decode_seq dec (field_values key kvs) (g s1) = Inr (g s')" .
  show ?case
  proof (cases "fold_key (fst kv) = key")
    case True
    with step [OF one] have "dec (snd kv) (g s) = Inr (g s1)" by simp
    with True IH show ?thesis by (simp add: field_values_def)
  next
    case False
    with step [OF one] have "g s1 = g s" by simp
    with False IH show ?thesis by (simp add: field_values_def)
  qed
qed

text \<open>A decoder that does not read its destination leaves what the last value gives.\<close>

lemma decode_seq_last:
  "decode_seq (\<lambda>v c. d v) vs cur = Inr r \<Longrightarrow> vs \<noteq> [] \<Longrightarrow> d (last vs) = Inr r"
  by (induction vs arbitrary: cur) (auto simp: bind_res_Inr_iff)

lemma decode_seq_field_value:
  assumes "decode_seq (\<lambda>v c. d v) (field_values k kvs) cur = Inr r"
  shows "(field_value k kvs = None \<longrightarrow> r = cur)
         \<and> (\<forall>v. field_value k kvs = Some v \<longrightarrow> d v = Inr r)"
proof (cases "field_values k kvs")
  case Nil
  with assms show ?thesis by (simp add: field_value_def)
next
  case (Cons v vs)
  with decode_seq_last [OF assms] show ?thesis by (simp add: field_value_def)
qed

subsection \<open>Every decode failure is a decode error\<close>

lemma decode_int_error: "decode_int v c = Inl e \<Longrightarrow> e = DecodeError"
  by (cases v) (auto split: if_splits)

lemma decode_string_error: "decode_string v c = Inl e \<Longrightarrow> e = DecodeError"
  by (cases v) auto

lemma decode_bool_error: "decode_bool v c = Inl e \<Longrightarrow> e = DecodeError"
  by (cases v) auto

lemma decode_any_error:
  "decode_any v = Inl e \<Longrightarrow> e = DecodeError"
  "decode_any_list vs = Inl e \<Longrightarrow> e = DecodeError"
  "decode_any_members kvs = Inl e \<Longrightarrow> e = DecodeError"
  by (induction v and vs and kvs rule: decode_any_decode_any_list_decode_any_members.induct)
     (auto simp: map_res_Inl_iff bind_res_Inl_iff split: if_splits)

lemma ParseableTime_decode_error: "ParseableTime_decode v = Inl e \<Longrightarrow> e = DecodeError"
  by (cases v) (auto split: option.splits)

lemma decode_IP_error: "decode_IP ip_text v c = Inl e \<Longrightarrow> e = DecodeError"
  by (auto simp: decode_IP_def split: json.splits option.splits)

lemma decode_ptr_error:
  assumes "\<And>v c e. dec v c = Inl e \<Longrightarrow> e = DecodeError"
  shows "decode_ptr dec zero v c = Inl e \<Longrightarrow> e = DecodeError"
  using assms by (auto simp: decode_ptr_def map_res_Inl_iff split: if_splits)

lemma decode_elems_error:
  assumes "\<And>v c e. dec v c = Inl e \<Longrightarrow> e = DecodeError"
  shows "decode_elems dec zero vs cs = Inl e \<Longrightarrow> e = DecodeError"
  using assms
  by (induction vs arbitrary: cs) (auto simp: map_res_Inl_iff bind_res_Inl_iff)

lemma decode_slice_error:
  assumes "\<And>v c e. dec v c = Inl e \<Longrightarrow> e = DecodeError"
  shows "decode_slice dec zero v c = Inl e \<Longrightarrow> e = DecodeError"
  using decode_elems_error [of dec, OF assms]
  by (cases v) (auto simp: map_res_Inl_iff)

lemma decode_members_error:
  assumes "\<And>k v s e. field k v s = Inl e \<Longrightarrow> e = DecodeError"
  shows "decode_members field kvs s = Inl e \<Longrightarrow> e = DecodeError"
  using assms
  by (induction kvs arbitrary: s) (auto simp: bind_res_Inl_iff)

lemma decode_struct_error:
  assumes "\<And>k v s e. field k v s = Inl e \<Longrightarrow> e = DecodeError"
  shows "decode_struct field v s = Inl e \<Longrightarrow> e = DecodeError"
  using decode_members_error [of field, OF assms]
  by (cases v) auto

lemma EventEntity_field_error: "EventEntity_field k v s = Inl e \<Longrightarrow> e = DecodeError"
  unfolding EventEntity_field_def
  by (auto simp: map_res_Inl_iff split: if_splits
      dest: decode_any_error decode_string_error)

lemma EventEntity_decode_error: "EventEntity_decode v s = Inl e \<Longrightarrow> e = DecodeError"
  unfolding EventEntity_decode_def
  by (rule decode_struct_error [of EventEntity_field]) (rule EventEntity_field_error)

lemma Event_nested_errors:
  "decode_ptr decode_string z1 v c1 = Inl e \<Longrightarrow> e = DecodeError"
  "decode_ptr EventEntity_decode z2 v c2 = Inl e \<Longrightarrow> e = DecodeError"
  by (erule decode_ptr_error [rotated], erule decode_string_error,
      erule decode_ptr_error [rotated], erule EventEntity_decode_error)

lemma Event_Mask_field_error: "Event_Mask_field k v m = Inl e \<Longrightarrow> e = DecodeError"
  unfolding Event_Mask_field_def
  by (auto simp: map_res_Inl_iff split: if_splits
      dest: decode_int_error decode_string_error decode_bool_error Event_nested_errors)

lemma Event_p_field_error: "Event_p_field k v p = Inl e \<Longrightarrow> e = DecodeError"
  unfolding Event_p_field_def
  by (auto simp: map_res_Inl_iff split: if_splits
      dest: ParseableTime_decode_error Event_Mask_field_error)

lemma Event_p_decode_error: "decode_struct Event_p_field b p = Inl e \<Longrightarrow> e = DecodeError"
  by (erule decode_struct_error [rotated], erule Event_p_field_error)

lemma Event_UnmarshalJSON_error: "Event_UnmarshalJSON i b = Inl e \<Longrightarrow> e = DecodeError"
  unfolding Event_UnmarshalJSON_def
  by (auto split: sum.splits dest: Event_p_decode_error)

lemma InstanceSpec_field_error: "InstanceSpec_field k v s = Inl e \<Longrightarrow> e = DecodeError"
  unfolding InstanceSpec_field_def
  by (auto simp: map_res_Inl_iff split: if_splits dest: decode_int_error)

lemma InstanceAlert_field_error: "InstanceAlert_field k v s = Inl e \<Longrightarrow> e = DecodeError"
  unfolding InstanceAlert_field_def
  by (auto simp: map_res_Inl_iff split: if_splits dest: decode_int_error)

lemma Schedule_field_error: "Schedule_field k v s = Inl e \<Longrightarrow> e = DecodeError"
  unfolding Schedule_field_def
  by (auto simp: map_res_Inl_iff split: if_splits dest: decode_string_error)

lemma Schedule_decode_error: "decode_struct Schedule_field v s = Inl e \<Longrightarrow> e = DecodeError"
  by (erule decode_struct_error [rotated], erule Schedule_field_error)

lemma InstanceBackup_field_error: "InstanceBackup_field k v s = Inl e \<Longrightarrow> e = DecodeError"
  unfolding InstanceBackup_field_def
  by (auto simp: map_res_Inl_iff split: if_splits
      dest: decode_bool_error Schedule_decode_error)

lemma InstancePlacementGroup_field_error:
  "InstancePlacementGroup_field k v s = Inl e \<Longrightarrow> e = DecodeError"
  unfolding InstancePlacementGroup_field_def
  by (auto simp: map_res_Inl_iff split: if_splits
      dest: decode_int_error decode_string_error decode_bool_error)

lemma nested_struct_errors:
  "decode_ptr (decode_struct InstanceAlert_field) z1 v c1 = Inl e \<Longrightarrow> e = DecodeError"
  "decode_ptr (decode_struct InstanceBackup_field) z2 v c2 = Inl e \<Longrightarrow> e = DecodeError"
  "decode_ptr (decode_struct InstanceSpec_field) z3 v c3 = Inl e \<Longrightarrow> e = DecodeError"
  "decode_ptr (decode_struct InstancePlacementGroup_field) z4 v c4 = Inl e \<Longrightarrow> e = DecodeError"
  "decode_slice (decode_IP ip_text) z5 v c5 = Inl e \<Longrightarrow> e = DecodeError"
  "decode_slice decode_string z6 v c6 = Inl e \<Longrightarrow> e = DecodeError"
  by (erule decode_ptr_error [rotated], erule decode_struct_error [rotated],
      erule InstanceAlert_field_error,
      erule decode_ptr_error [rotated], erule decode_struct_error [rotated],
      erule InstanceBackup_field_error,
      erule decode_ptr_error [rotated], erule decode_struct_error [rotated],
      erule InstanceSpec_field_error,
      erule decode_ptr_error [rotated], erule decode_struct_error [rotated],
      erule InstancePlacementGroup_field_error,
      erule decode_slice_error [rotated], erule decode_IP_error,
      erule decode_slice_error [rotated], erule decode_string_error)

lemma Instance_Mask_field_error: "Instance_Mask_field ip_text k v m = Inl e \<Longrightarrow> e = DecodeError"
  unfolding Instance_Mask_field_def
  by (auto simp: map_res_Inl_iff split: if_splits
      dest: decode_int_error decode_string_error decode_bool_error nested_struct_errors)

lemma Instance_p_field_error: "Instance_p_field ip_text k v p = Inl e \<Longrightarrow> e = DecodeError"
  unfolding Instance_p_field_def
  by (auto simp: map_res_Inl_iff split: if_splits
      dest: ParseableTime_decode_error Instance_Mask_field_error)

lemma Instance_p_decode_error:
  "decode_struct (Instance_p_field ip_text) b p = Inl e \<Longrightarrow> e = DecodeError"
  by (erule decode_struct_error [rotated], erule Instance_p_field_error)

lemma Instance_UnmarshalJSON_error:
  "Instance_UnmarshalJSON ip_text i b = Inl e \<Longrightarrow> e = DecodeError"
  unfolding Instance_UnmarshalJSON_def
  by (auto split: sum.splits dest: Instance_p_decode_error)

subsection \<open>What a successful decoding leaves in each field\<close>

lemma Event_p_field_Mask:
  assumes step: "\<And>k v m m'. Event_Mask_field k v m = Inr m' \<Longrightarrow>
                   (if k = key then dec v (g m) = Inr (g m') else g m' = g m)"
    and key: "key \<noteq> ''created''" "key \<noteq> ''time_remaining''"
  shows "Event_p_field k v p = Inr p' \<Longrightarrow>
         (if k = key then dec v (g (Event_p_Mask p)) = Inr (g (Event_p_Mask p'))
          else g (Event_p_Mask p') = g (Event_p_Mask p))"
  using key unfolding Event_p_field_def
  by (auto simp: map_res_Inr_iff split: if_splits dest: step)

lemma Event_p_field_Created:
  "Event_p_field k v p = Inr p' \<Longrightarrow>
     (if k = ''created'' then ParseableTime_decode v = Inr (Event_p_Created p')
      else Event_p_Created p' = Event_p_Created p)"
  unfolding Event_p_field_def by (auto simp: map_res_Inr_iff split: if_splits)

lemma Event_p_field_TimeRemaining:
  "Event_p_field k v p = Inr p' \<Longrightarrow>
     (if k = ''time_remaining'' then Inr (Some v) = (Inr (Event_p_TimeRemaining p') :: error + json option)
      else Event_p_TimeRemaining p' = Event_p_TimeRemaining p)"
  unfolding Event_p_field_def by (auto simp: map_res_Inr_iff split: if_splits)

lemma Event_UnmarshalJSON_Inr:
  assumes "Event_UnmarshalJSON i (JObject kvs) = Inr e"
  obtains p where
    "decode_members Event_p_field kvs
       \<lparr>Event_p_Mask = i, Event_p_Created = None, Event_p_TimeRemaining = None\<rparr> = Inr p"
    and "e = (Event_p_Mask p)\<lparr>Event_Created := Event_p_Created p,
               Event_TimeRemaining := UnmarshalTimeRemaining (Event_p_TimeRemaining p)\<rparr>"
  using assms by (auto simp: Event_UnmarshalJSON_def split: sum.splits)

lemma Event_UnmarshalJSON_field:
  assumes step: "\<And>k v m m'. Event_Mask_field k v m = Inr m' \<Longrightarrow>
                   (if k = key then dec v (g m) = Inr (g m') else g m' = g m)"
    and key: "key \<noteq> ''created''" "key \<noteq> ''time_remaining''"
    and frame: "\<And>m c t. g (m\<lparr>Event_Created := c, Event_TimeRemaining := t\<rparr>) = g m"
    and ok: "Event_UnmarshalJSON i (JObject kvs) = Inr e"
  shows "decode_seq dec (field_values key kvs) (g i) = Inr (g e)"
proof -
  from ok obtain p where
    run: "decode_members Event_p_field kvs
       \<lparr>Event_p_Mask = i, Event_p_Created = None, Event_p_TimeRemaining = None\<rparr> = Inr p"
    and e: "e = (Event_p_Mask p)\<lparr>Event_Created := Event_p_Created p,
               Event_TimeRemaining := UnmarshalTimeRemaining (Event_p_TimeRemaining p)\<rparr>"
    by (rule Event_UnmarshalJSON_Inr)
  from decode_members_field [where g = "\<lambda>p. g (Event_p_Mask p)" and dec = dec and key = key,
      OF Event_p_field_Mask [where g = g and dec = dec, OF step key] run]
  show ?thesis by (simp add: e frame)
qed

lemma Event_UnmarshalJSON_Created:
  assumes ok: "Event_UnmarshalJSON i (JObject kvs) = Inr e"
  shows "decode_seq (\<lambda>v c. ParseableTime_decode v) (field_values ''created'' kvs) None =
           Inr (Event_Created e)"
proof -
  from ok obtain p where
    run: "decode_members Event_p_field kvs
       \<lparr>Event_p_Mask = i, Event_p_Created = None, Event_p_TimeRemaining = None\<rparr> = Inr p"
    and e: "e = (Event_p_Mask p)\<lparr>Event_Created := Event_p_Created p,
               Event_TimeRemaining := UnmarshalTimeRemaining (Event_p_TimeRemaining p)\<rparr>"
    by (rule Event_UnmarshalJSON_Inr)
  from decode_members_field [where g = Event_p_Created
      and dec = "\<lambda>v c. ParseableTime_decode v" and key = "''created''",
      OF Event_p_field_Created run]
  show ?thesis by (simp add: e)
qed

lemma Event_UnmarshalJSON_TimeRemaining:
  assumes ok: "Event_UnmarshalJSON i (JObject kvs) = Inr e"
  shows "Event_TimeRemaining e = UnmarshalTimeRemaining (field_value ''time_remaining'' kvs)"
proof -
  from ok obtain p where
    run: "decode_members Event_p_field kvs
       \<lparr>Event_p_Mask = i, Event_p_Created = None, Event_p_TimeRemaining = None\<rparr> = Inr p"
    and e: "e = (Event_p_Mask p)\<lparr>Event_Created := Event_p_Created p,
               Event_TimeRemaining := UnmarshalTimeRemaining (Event_p_TimeRemaining p)\<rparr>"
    by (rule Event_UnmarshalJSON_Inr)
  from decode_members_field [where g = Event_p_TimeRemaining
      and dec = "\<lambda>v c. Inr (Some v)" and key = "''time_remaining''",
      OF Event_p_field_TimeRemaining run]
  have "decode_seq (\<lambda>v c. Inr (Some v)) (field_values ''time_remaining'' kvs) None =
          (Inr (Event_p_TimeRemaining p) :: error + json option)"
    by simp
  from decode_seq_field_value [OF this]
  have "Event_p_TimeRemaining p = field_value ''time_remaining'' kvs"
    by (cases "field_value ''time_remaining'' kvs") auto
  then show ?thesis by (simp add: e)
qed

lemma Instance_p_field_Mask:
  assumes step: "\<And>k v m m'. Instance_Mask_field ip_text k v m = Inr m' \<Longrightarrow>
                   (if k = key then dec v (g m) = Inr (g m') else g m' = g m)"
    and key: "key \<noteq> ''created''" "key \<noteq> ''updated''"
  shows "Instance_p_field ip_text k v p = Inr p' \<Longrightarrow>
         (if k = key then dec v (g (Instance_p_Mask p)) = Inr (g (Instance_p_Mask p'))
          else g (Instance_p_Mask p') = g (Instance_p_Mask p))"
  using key unfolding Instance_p_field_def
  by (auto simp: map_res_Inr_iff split: if_splits dest: step)

lemma Instance_p_field_Created:
  "Instance_p_field ip_text k v p = Inr p' \<Longrightarrow>
     (if k = ''created'' then ParseableTime_decode v = Inr (Instance_p_Created p')
      else Instance_p_Created p' = Instance_p_Created p)"
  unfolding Instance_p_field_def by (auto simp: map_res_Inr_iff split: if_splits)

lemma Instance_p_field_Updated:
  "Instance_p_field ip_text k v p = Inr p' \<Longrightarrow>
     (if k = ''updated'' then ParseableTime_decode v = Inr (Instance_p_Updated p')
      else Instance_p_Updated p' = Instance_p_Updated p)"
  unfolding Instance_p_field_def by (auto simp: map_res_Inr_iff split: if_splits)

lemma Instance_UnmarshalJSON_Inr:
  assumes "Instance_UnmarshalJSON ip_text i (JObject kvs) = Inr e"
  obtains p where
    "decode_members (Instance_p_field ip_text) kvs
       \<lparr>Instance_p_Mask = i, Instance_p_Created = None, Instance_p_Updated = None\<rparr> = Inr p"
    and "e = (Instance_p_Mask p)\<lparr>Instance_Created := Instance_p_Created p,
               Instance_Updated := Instance_p_Updated p\<rparr>"
  using assms by (auto simp: Instance_UnmarshalJSON_def split: sum.splits)

lemma Instance_UnmarshalJSON_field:
  assumes step: "\<And>k v m m'. Instance_Mask_field ip_text k v m = Inr m' \<Longrightarrow>
                   (if k = key then dec v (g m) = Inr (g m') else g m' = g m)"
    and key: "key \<noteq> ''created''" "key \<noteq> ''updated''"
    and frame: "\<And>m c t. g (m\<lparr>Instance_Created := c, Instance_Updated := t\<rparr>) = g m"
    and ok: "Instance_UnmarshalJSON ip_text i (JObject kvs) = Inr e"
  shows "decode_seq dec (field_values key kvs) (g i) = Inr (g e)"
proof -
  from ok obtain p where
    run: "decode_members (Instance_p_field ip_text) kvs
       \<lparr>Instance_p_Mask = i, Instance_p_Created = None, Instance_p_Updated = None\<rparr> = Inr p"
    and e: "e = (Instance_p_Mask p)\<lparr>Instance_Created := Instance_p_Created p,
               Instance_Updated := Instance_p_Updated p\<rparr>"
    by (rule Instance_UnmarshalJSON_Inr)
  from decode_members_field [where g = "\<lambda>p. g (Instance_p_Mask p)" and dec = dec and key = key,
      OF Instance_p_field_Mask [where g = g and dec = dec, OF step key] run]
  show ?thesis by (simp add: e frame)
qed

lemma Instance_UnmarshalJSON_Created:
  assumes ok: "Instance_UnmarshalJSON ip_text i (JObject kvs) = Inr e"
  shows "decode_seq (\<lambda>v c. ParseableTime_decode v) (field_values ''created'' kvs) None =
           Inr (Instance_Created e)"
proof -
  from ok obtain p where
    run: "decode_members (Instance_p_field ip_text) kvs
       \<lparr>Instance_p_Mask = i, Instance_p_Created = None, Instance_p_Updated = None\<rparr> = Inr p"
    and e: "e = (Instance_p_Mask p)\<lparr>Instance_Created := Instance_p_Created p,
               Instance_Updated := Instance_p_Updated p\<rparr>"
    by (rule Instance_UnmarshalJSON_Inr)
  from decode_members_field [where g = Instance_p_Created
      and dec = "\<lambda>v c. ParseableTime_decode v" and key = "''created''",
      OF Instance_p_field_Created run]
  show ?thesis by (simp add: e)
qed

lemma Instance_UnmarshalJSON_Updated:
  assumes ok: "Instance_UnmarshalJSON ip_text i (JObject kvs) = Inr e"
  shows "decode_seq (\<lambda>v c. ParseableTime_decode v) (field_values ''updated'' kvs) None =
           Inr (Instance_Updated e)"
proof -
  from ok obtain p where
    run: "decode_members (Instance_p_field ip_text) kvs
       \<lparr>Instance_p_Mask = i, Instance_p_Created = None, Instance_p_Updated = None\<rparr> = Inr p"
    and e: "e = (Instance_p_Mask p)\<lparr>Instance_Created := Instance_p_Created p,
               Instance_Updated := Instance_p_Updated p\<rparr>"
    by (rule Instance_UnmarshalJSON_Inr)
  from decode_members_field [where g = Instance_p_Updated
      and dec = "\<lambda>v c. ParseableTime_decode v" and key = "''updated''",
      OF Instance_p_field_Updated run]
  show ?thesis by (simp add: e)
qed

lemma Event_Mask_field_ID:
  "Event_Mask_field k v m = Inr m' \<Longrightarrow>
     (if k = ''id'' then decode_int v (Event_ID m) = Inr (Event_ID m')
      else Event_ID m' = Event_ID m)"
  unfolding Event_Mask_field_def by (auto simp: map_res_Inr_iff split: if_splits)

lemma Event_Mask_field_Status:
  "Event_Mask_field k v m = Inr m' \<Longrightarrow>
     (if k = ''status'' then decode_string v (Event_Status m) = Inr (Event_Status m')
      else Event_Status m' = Event_Status m)"
  unfolding Event_Mask_field_def by (auto simp: map_res_Inr_iff split: if_splits)

lemma Event_Mask_field_Action:
  "Event_Mask_field k v m = Inr m' \<Longrightarrow>
     (if k = ''action'' then decode_string v (Event_Action m) = Inr (Event_Action m')
      else Event_Action m' = Event_Action m)"
  unfolding Event_Mask_field_def by (auto simp: map_res_Inr_iff split: if_splits)

lemma Event_Mask_field_PercentComplete:
  "Event_Mask_field k v m = Inr m' \<Longrightarrow>
     (if k = ''percent_complete'' then decode_int v (Event_PercentComplete m) = Inr (Event_PercentComplete m')
      else Event_PercentComplete m' = Event_PercentComplete m)"
  unfolding Event_Mask_field_def by (auto simp: map_res_Inr_iff split: if_splits)

lemma Event_Mask_field_Rate:
  "Event_Mask_field k v m = Inr m' \<Longrightarrow>
     (if k = ''rate'' then decode_ptr decode_string [] v (Event_Rate m) = Inr (Event_Rate m')
      else Event_Rate m' = Event_Rate m)"
  unfolding Event_Mask_field_def by (auto simp: map_res_Inr_iff split: if_splits)

lemma Event_Mask_field_Read:
  "Event_Mask_field k v m = Inr m' \<Longrightarrow>
     (if k = ''read'' then decode_bool v (Event_Read m) = Inr (Event_Read m')
      else Event_Read m' = Event_Read m)"
  unfolding Event_Mask_field_def by (auto simp: map_res_Inr_iff split: if_splits)

lemma Event_Mask_field_Seen:
  "Event_Mask_field k v m = Inr m' \<Longrightarrow>
     (if k = ''seen'' then decode_bool v (Event_Seen m) = Inr (Event_Seen m')
      else Event_Seen m' = Event_Seen m)"
  unfolding Event_Mask_field_def by (auto simp: map_res_Inr_iff split: if_splits)

lemma Event_Mask_field_Username:
  "Event_Mask_field k v m = Inr m' \<Longrightarrow>
     (if k = ''username'' then decode_string v (Event_Username m) = Inr (Event_Username m')
      else Event_Username m' = Event_Username m)"
  unfolding Event_Mask_field_def by (auto simp: map_res_Inr_iff split: if_splits)

lemma Event_Mask_field_Entity:
  "Event_Mask_field k v m = Inr m' \<Longrightarrow>
     (if k = ''entity'' then decode_ptr EventEntity_decode EventEntity_zero v (Event_Entity m) = Inr (Event_Entity m')
      else Event_Entity m' = Event_Entity m)"
  unfolding Event_Mask_field_def by (auto simp: map_res_Inr_iff split: if_splits)

lemma Event_Mask_field_SecondaryEntity:
  "Event_Mask_field k v m = Inr m' \<Longrightarrow>
     (if k = ''secondary_entity'' then decode_ptr EventEntity_decode EventEntity_zero v (Event_SecondaryEntity m) = Inr (Event_SecondaryEntity m')
      else Event_SecondaryEntity m' = Event_SecondaryEntity m)"
  unfolding Event_Mask_field_def by (auto simp: map_res_Inr_iff split: if_splits)

lemma Instance_Mask_field_ID:
  "Instance_Mask_field ip_text k v m = Inr m' \<Longrightarrow>
     (if k = ''id'' then decode_int v (Instance_ID m) = Inr (Instance_ID m')
      else Instance_ID m' = Instance_ID m)"
  unfolding Instance_Mask_field_def by (auto simp: map_res_Inr_iff split: if_splits)

lemma Instance_Mask_field_Region:
  "Instance_Mask_field ip_text k v m = Inr m' \<Longrightarrow>
     (if k = ''region'' then decode_string v (Instance_Region m) = Inr (Instance_Region m')
      else Instance_Region m' = Instance_Region m)"
  unfolding Instance_Mask_field_def by (auto simp: map_res_Inr_iff split: if_splits)

lemma Instance_Mask_field_Alerts:
  "Instance_Mask_field ip_text k v m = Inr m' \<Longrightarrow>
     (if k = ''alerts'' then decode_ptr (decode_struct InstanceAlert_field) InstanceAlert_zero v (Instance_Alerts m) = Inr (Instance_Alerts m')
      else Instance_Alerts m' = Instance_Alerts m)"
  unfolding Instance_Mask_field_def by (auto simp: map_res_Inr_iff split: if_splits)

lemma Instance_Mask_field_Backups:
  "Instance_Mask_field ip_text k v m = Inr m' \<Longrightarrow>
     (if k = ''backups'' then decode_ptr (decode_struct InstanceBackup_field) InstanceBackup_zero v (Instance_Backups m) = Inr (Instance_Backups m')
      else Instance_Backups m' = Instance_Backups m)"
  unfolding Instance_Mask_field_def by (auto simp: map_res_Inr_iff split: if_splits)

lemma Instance_Mask_field_Image:
  "Instance_Mask_field ip_text k v m = Inr m' \<Longrightarrow>
     (if k = ''image'' then decode_string v (Instance_Image m) = Inr (Instance_Image m')
      else Instance_Image m' = Instance_Image m)"
  unfolding Instance_Mask_field_def by (auto simp: map_res_Inr_iff split: if_splits)

lemma Instance_Mask_field_Group:
  "Instance_Mask_field ip_text k v m = Inr m' \<Longrightarrow>
     (if k = ''group'' then decode_string v (Instance_Group m) = Inr (Instance_Group m')
      else Instance_Group m' = Instance_Group m)"
  unfolding Instance_Mask_field_def by (auto simp: map_res_Inr_iff split: if_splits)

lemma Instance_Mask_field_IPv4:
  "Instance_Mask_field ip_text k v m = Inr m' \<Longrightarrow>
     (if k = ''ipv4'' then decode_slice (decode_IP ip_text) None v (Instance_IPv4 m) = Inr (Instance_IPv4 m')
      else Instance_IPv4 m' = Instance_IPv4 m)"
  unfolding Instance_Mask_field_def by (auto simp: map_res_Inr_iff split: if_splits)

lemma Instance_Mask_field_IPv6:
  "Instance_Mask_field ip_text k v m = Inr m' \<Longrightarrow>
     (if k = ''ipv6'' then decode_string v (Instance_IPv6 m) = Inr (Instance_IPv6 m')
      else Instance_IPv6 m' = Instance_IPv6 m)"
  unfolding Instance_Mask_field_def by (auto simp: map_res_Inr_iff split: if_splits)

lemma Instance_Mask_field_Label:
  "Instance_Mask_field ip_text k v m = Inr m' \<Longrightarrow>
     (if k = ''label'' then decode_string v (Instance_Label m) = Inr (Instance_Label m')
      else Instance_Label m' = Instance_Label m)"
  unfolding Instance_Mask_field_def by (auto simp: map_res_Inr_iff split: if_splits)

lemma Instance_Mask_field_Type:
  "Instance_Mask_field ip_text k v m = Inr m' \<Longrightarrow>
     (if k = ''type'' then decode_string v (Instance_Type m) = Inr (Instance_Type m')
      else Instance_Type m' = Instance_Type m)"
  unfolding Instance_Mask_field_def by (auto simp: map_res_Inr_iff split: if_splits)

lemma Instance_Mask_field_Status:
  "Instance_Mask_field ip_text k v m = Inr m' \<Longrightarrow>
     (if k = ''status'' then decode_string v (Instance_Status m) = Inr (Instance_Status m')
      else Instance_Status m' = Instance_Status m)"
  unfolding Instance_Mask_field_def by (auto simp: map_res_Inr_iff split: if_splits)

lemma Instance_Mask_field_HasUserData:
  "Instance_Mask_field ip_text k v m = Inr m' \<Longrightarrow>
     (if k = ''has_user_data'' then decode_bool v (Instance_HasUserData m) = Inr (Instance_HasUserData m')
      else Instance_HasUserData m' = Instance_HasUserData m)"
  unfolding Instance_Mask_field_def by (auto simp: map_res_Inr_iff split: if_splits)

lemma Instance_Mask_field_Hypervisor:
  "Instance_Mask_field ip_text k v m = Inr m' \<Longrightarrow>
     (if k = ''hypervisor'' then decode_string v (Instance_Hypervisor m) = Inr (Instance_Hypervisor m')
      else Instance_Hypervisor m' = Instance_Hypervisor m)"
  unfolding Instance_Mask_field_def by (auto simp: map_res_Inr_iff split: if_splits)

lemma Instance_Mask_field_HostUUID:
  "Instance_Mask_field ip_text k v m = Inr m' \<Longrightarrow>
     (if k = ''host_uuid'' then decode_string v (Instance_HostUUID m) = Inr (Instance_HostUUID m')
      else Instance_HostUUID m' = Instance_HostUUID m)"
  unfolding Instance_Mask_field_def by (auto simp: map_res_Inr_iff split: if_splits)

lemma Instance_Mask_field_Specs:
  "Instance_Mask_field ip_text k v m = Inr m' \<Longrightarrow>
     (if k = ''specs'' then decode_ptr (decode_struct InstanceSpec_field) InstanceSpec_zero v (Instance_Specs m) = Inr (Instance_Specs m')
      else Instance_Specs m' = Instance_Specs m)"
  unfolding Instance_Mask_field_def by (auto simp: map_res_Inr_iff split: if_splits)

lemma Instance_Mask_field_WatchdogEnabled:
  "Instance_Mask_field ip_text k v m = Inr m' \<Longrightarrow>
     (if k = ''watchdog_enabled'' then decode_bool v (Instance_WatchdogEnabled m) = Inr (Instance_WatchdogEnabled m')
      else Instance_WatchdogEnabled m' = Instance_WatchdogEnabled m)"
  unfolding Instance_Mask_field_def by (auto simp: map_res_Inr_iff split: if_splits)

lemma Instance_Mask_field_Tags:
  "Instance_Mask_field ip_text k v m = Inr m' \<Longrightarrow>
     (if k = ''tags'' then decode_slice decode_string [] v (Instance_Tags m) = Inr (Instance_Tags m')
      else Instance_Tags m' = Instance_Tags m)"
  unfolding Instance_Mask_field_def by (auto simp: map_res_Inr_iff split: if_splits)

lemma Instance_Mask_field_PlacementGroup:
  "Instance_Mask_field ip_text k v m = Inr m' \<Longrightarrow>
     (if k = ''placement_group'' then decode_ptr (decode_struct InstancePlacementGroup_field) InstancePlacementGroup_zero v (Instance_PlacementGroup m) = Inr (Instance_PlacementGroup m')
      else Instance_PlacementGroup m' = Instance_PlacementGroup m)"
  unfolding Instance_Mask_field_def by (auto simp: map_res_Inr_iff split: if_splits)


lemma Event_decoded_ID:
  "Event_UnmarshalJSON i (JObject kvs) = Inr e \<Longrightarrow>
   decode_seq decode_int (field_values ''id'' kvs) (Event_ID i) = Inr (Event_ID e)"
  by (rule Event_UnmarshalJSON_field [where g = Event_ID, OF Event_Mask_field_ID]) simp_all

lemma Event_decoded_Status:
  "Event_UnmarshalJSON i (JObject kvs) = Inr e \<Longrightarrow>
   decode_seq decode_string (field_values ''status'' kvs) (Event_Status i) = Inr (Event_Status e)"
  by (rule Event_UnmarshalJSON_field [where g = Event_Status, OF Event_Mask_field_Status]) simp_all

lemma Event_decoded_Action:
  "Event_UnmarshalJSON i (JObject kvs) = Inr e \<Longrightarrow>
   decode_seq decode_string (field_values ''action'' kvs) (Event_Action i) = Inr (Event_Action e)"
  by (rule Event_UnmarshalJSON_field [where g = Event_Action, OF Event_Mask_field_Action]) simp_all

lemma Event_decoded_PercentComplete:
  "Event_UnmarshalJSON i (JObject kvs) = Inr e \<Longrightarrow>
   decode_seq decode_int (field_values ''percent_complete'' kvs) (Event_PercentComplete i) = Inr (Event_PercentComplete e)"
  by (rule Event_UnmarshalJSON_field [where g = Event_PercentComplete, OF Event_Mask_field_PercentComplete]) simp_all

lemma Event_decoded_Rate:
  "Event_UnmarshalJSON i (JObject kvs) = Inr e \<Longrightarrow>
   decode_seq (decode_ptr decode_string []) (field_values ''rate'' kvs) (Event_Rate i) = Inr (Event_Rate e)"
  by (rule Event_UnmarshalJSON_field [where g = Event_Rate, OF Event_Mask_field_Rate]) simp_all

lemma Event_decoded_Read:
  "Event_UnmarshalJSON i (JObject kvs) = Inr e \<Longrightarrow>
   decode_seq decode_bool (field_values ''read'' kvs) (Event_Read i) = Inr (Event_Read e)"
  by (rule Event_UnmarshalJSON_field [where g = Event_Read, OF Event_Mask_field_Read]) simp_all

lemma Event_decoded_Seen:
  "Event_UnmarshalJSON i (JObject kvs) = Inr e \<Longrightarrow>
   decode_seq decode_bool (field_values ''seen'' kvs) (Event_Seen i) = Inr (Event_Seen e)"
  by (rule Event_UnmarshalJSON_field [where g = Event_Seen, OF Event_Mask_field_Seen]) simp_all

lemma Event_decoded_Username:
  "Event_UnmarshalJSON i (JObject kvs) = Inr e \<Longrightarrow>
   decode_seq decode_string (field_values ''username'' kvs) (Event_Username i) = Inr (Event_Username e)"
  by (rule Event_UnmarshalJSON_field [where g = Event_Username, OF Event_Mask_field_Username]) simp_all

lemma Event_decoded_Entity:
  "Event_UnmarshalJSON i (JObject kvs) = Inr e \<Longrightarrow>
   decode_seq (decode_ptr EventEntity_decode EventEntity_zero) (field_values ''entity'' kvs) (Event_Entity i) = Inr (Event_Entity e)"
  by (rule Event_UnmarshalJSON_field [where g = Event_Entity, OF Event_Mask_field_Entity]) simp_all

lemma Event_decoded_SecondaryEntity:
  "Event_UnmarshalJSON i (JObject kvs) = Inr e \<Longrightarrow>
   decode_seq (decode_ptr EventEntity_decode EventEntity_zero) (field_values ''secondary_entity'' kvs) (Event_SecondaryEntity i) = Inr (Event_SecondaryEntity e)"
  by (rule Event_UnmarshalJSON_field [where g = Event_SecondaryEntity, OF Event_Mask_field_SecondaryEntity]) simp_all

lemma Instance_decoded_ID:
  "Instance_UnmarshalJSON ip_text i (JObject kvs) = Inr e \<Longrightarrow>
   decode_seq decode_int (field_values ''id'' kvs) (Instance_ID i) =
     Inr (Instance_ID e)"
  by (rule Instance_UnmarshalJSON_field [where g = Instance_ID, OF Instance_Mask_field_ID])
     simp_all

lemma Instance_decoded_Region:
  "Instance_UnmarshalJSON ip_text i (JObject kvs) = Inr e \<Longrightarrow>
   decode_seq decode_string (field_values ''region'' kvs) (Instance_Region i) =
     Inr (Instance_Region e)"
  by (rule Instance_UnmarshalJSON_field [where g = Instance_Region, OF Instance_Mask_field_Region])
     simp_all

lemma Instance_decoded_Alerts:
  "Instance_UnmarshalJSON ip_text i (JObject kvs) = Inr e \<Longrightarrow>
   decode_seq (decode_ptr (decode_struct InstanceAlert_field) InstanceAlert_zero) (field_values ''alerts'' kvs) (Instance_Alerts i) =
     Inr (Instance_Alerts e)"
  by (rule Instance_UnmarshalJSON_field [where g = Instance_Alerts, OF Instance_Mask_field_Alerts])
     simp_all

lemma Instance_decoded_Backups:
  "Instance_UnmarshalJSON ip_text i (JObject kvs) = Inr e \<Longrightarrow>
   decode_seq (decode_ptr (decode_struct InstanceBackup_field) InstanceBackup_zero) (field_values ''backups'' kvs) (Instance_Backups i) =
     Inr (Instance_Backups e)"
  by (rule Instance_UnmarshalJSON_field [where g = Instance_Backups, OF Instance_Mask_field_Backups])
     simp_all

lemma Instance_decoded_Image:
  "Instance_UnmarshalJSON ip_text i (JObject kvs) = Inr e \<Longrightarrow>
   decode_seq decode_string (field_values ''image'' kvs) (Instance_Image i) =
     Inr (Instance_Image e)"
  by (rule Instance_UnmarshalJSON_field [where g = Instance_Image, OF Instance_Mask_field_Image])
     simp_all

lemma Instance_decoded_Group:
  "Instance_UnmarshalJSON ip_text i (JObject kvs) = Inr e \<Longrightarrow>
   decode_seq decode_string (field_values ''group'' kvs) (Instance_Group i) =
     Inr (Instance_Group e)"
  by (rule Instance_UnmarshalJSON_field [where g = Instance_Group, OF Instance_Mask_field_Group])
     simp_all

lemma Instance_decoded_IPv4:
  "Instance_UnmarshalJSON ip_text i (JObject kvs) = Inr e \<Longrightarrow>
   decode_seq (decode_slice (decode_IP ip_text) None) (field_values ''ipv4'' kvs) (Instance_IPv4 i) =
     Inr (Instance_IPv4 e)"
  by (rule Instance_UnmarshalJSON_field [where g = Instance_IPv4, OF Instance_Mask_field_IPv4])
     simp_all

lemma Instance_decoded_IPv6:
  "Instance_UnmarshalJSON ip_text i (JObject kvs) = Inr e \<Longrightarrow>
   decode_seq decode_string (field_values ''ipv6'' kvs) (Instance_IPv6 i) =
     Inr (Instance_IPv6 e)"
  by (rule Instance_UnmarshalJSON_field [where g = Instance_IPv6, OF Instance_Mask_field_IPv6])
     simp_all

lemma Instance_decoded_Label:
  "Instance_UnmarshalJSON ip_text i (JObject kvs) = Inr e \<Longrightarrow>
   decode_seq decode_string (field_values ''label'' kvs) (Instance_Label i) =
     Inr (Instance_Label e)"
  by (rule Instance_UnmarshalJSON_field [where g = Instance_Label, OF Instance_Mask_field_Label])
     simp_all

lemma Instance_decoded_Type:
  "Instance_UnmarshalJSON ip_text i (JObject kvs) = Inr e \<Longrightarrow>
   decode_seq decode_string (field_values ''type'' kvs) (Instance_Type i) =
     Inr (Instance_Type e)"
  by (rule Instance_UnmarshalJSON_field [where g = Instance_Type, OF Instance_Mask_field_Type])
     simp_all

lemma Instance_decoded_Status:
  "Instance_UnmarshalJSON ip_text i (JObject kvs) = Inr e \<Longrightarrow>
   decode_seq decode_string (field_values ''status'' kvs) (Instance_Status i) =
     Inr (Instance_Status e)"
  by (rule Instance_UnmarshalJSON_field [where g = Instance_Status, OF Instance_Mask_field_Status])
     simp_all

lemma Instance_decoded_HasUserData:
  "Instance_UnmarshalJSON ip_text i (JObject kvs) = Inr e \<Longrightarrow>
   decode_seq decode_bool (field_values ''has_user_data'' kvs) (Instance_HasUserData i) =
     Inr (Instance_HasUserData e)"
  by (rule Instance_UnmarshalJSON_field [where g = Instance_HasUserData, OF Instance_Mask_field_HasUserData])
     simp_all

lemma Instance_decoded_Hypervisor:
  "Instance_UnmarshalJSON ip_text i (JObject kvs) = Inr e \<Longrightarrow>
   decode_seq decode_string (field_values ''hypervisor'' kvs) (Instance_Hypervisor i) =
     Inr (Instance_Hypervisor e)"
  by (rule Instance_UnmarshalJSON_field [where g = Instance_Hypervisor, OF Instance_Mask_field_Hypervisor])
     simp_all

lemma Instance_decoded_HostUUID:
  "Instance_UnmarshalJSON ip_text i (JObject kvs) = Inr e \<Longrightarrow>
   decode_seq decode_string (field_values ''host_uuid'' kvs) (Instance_HostUUID i) =
     Inr (Instance_HostUUID e)"
  by (rule Instance_UnmarshalJSON_field [where g = Instance_HostUUID, OF Instance_Mask_field_HostUUID])
     simp_all

lemma Instance_decoded_Specs:
  "Instance_UnmarshalJSON ip_text i (JObject kvs) = Inr e \<Longrightarrow>
   decode_seq (decode_ptr (decode_struct InstanceSpec_field) InstanceSpec_zero) (field_values ''specs'' kvs) (Instance_Specs i) =
     Inr (Instance_Specs e)"
  by (rule Instance_UnmarshalJSON_field [where g = Instance_Specs, OF Instance_Mask_field_Specs])
     simp_all

lemma Instance_decoded_WatchdogEnabled:
  "Instance_UnmarshalJSON ip_text i (JObject kvs) = Inr e \<Longrightarrow>
   decode_seq decode_bool (field_values ''watchdog_enabled'' kvs) (Instance_WatchdogEnabled i) =
     Inr (Instance_WatchdogEnabled e)"
  by (rule Instance_UnmarshalJSON_field [where g = Instance_WatchdogEnabled, OF Instance_Mask_field_WatchdogEnabled])
     simp_all

lemma Instance_decoded_Tags:
  "Instance_UnmarshalJSON ip_text i (JObject kvs) = Inr e \<Longrightarrow>
   decode_seq (decode_slice decode_string []) (field_values ''tags'' kvs) (Instance_Tags i) =
     Inr (Instance_Tags e)"
  by (rule Instance_UnmarshalJSON_field [where g = Instance_Tags, OF Instance_Mask_field_Tags])
     simp_all

lemma Instance_decoded_PlacementGroup:
  "Instance_UnmarshalJSON ip_text i (JObject kvs) = Inr e \<Longrightarrow>
   decode_seq (decode_ptr (decode_struct InstancePlacementGroup_field) InstancePlacementGroup_zero) (field_values ''placement_group'' kvs) (Instance_PlacementGroup i) =
     Inr (Instance_PlacementGroup e)"
  by (rule Instance_UnmarshalJSON_field [where g = Instance_PlacementGroup, OF Instance_Mask_field_PlacementGroup])
     simp_all

subsection \<open>Timestamps\<close>

lemma field_value_Cons:
  "field_value k (kv # kvs) =
     (case field_value k kvs of
        Some v \<Rightarrow> Some v
      | None \<Rightarrow> if fold_key (fst kv) = k then Some (snd kv) else None)"
  by (simp add: field_value_def field_values_def split: list.splits)

lemma field_value_Nil: "field_value k [] = None"
  by (simp add: field_value_def field_values_def)

text \<open>
  The decoding succeeds when the standard members decode and every timestamp member does:
  the record is then the one the standard members give, with the timestamps of the
  timestamp members.
\<close>

lemma decode_seq_null:
  "\<forall>v \<in> set vs. v = JNull \<Longrightarrow> decode_seq (\<lambda>v c. ParseableTime_decode v) vs None = Inr None"
  by (induction vs) simp_all

lemma Event_p_members_total:
  "decode_members Event_Mask_field (Event_standard_members kvs) (Event_p_Mask p) = Inr m \<Longrightarrow>
   decode_seq (\<lambda>v c. ParseableTime_decode v) (field_values ''created'' kvs) (Event_p_Created p)
     = Inr cr \<Longrightarrow>
   decode_members Event_p_field kvs p =
     Inr \<lparr>Event_p_Mask = m, Event_p_Created = cr,
          Event_p_TimeRemaining =
            (case field_value ''time_remaining'' kvs of
               None \<Rightarrow> Event_p_TimeRemaining p | Some v \<Rightarrow> Some v)\<rparr>"
proof (induction kvs arbitrary: p)
  case Nil
  then show ?case
    by (cases p)
       (simp add: Event_standard_members_def without_field_def field_values_def field_value_Nil)
next
  case (Cons kv kvs)
  consider (created) "fold_key (fst kv) = ''created''"
    | (raw) "fold_key (fst kv) = ''time_remaining''"
    | (standard) "fold_key (fst kv) \<noteq> ''created''" "fold_key (fst kv) \<noteq> ''time_remaining''"
    by blast
  then show ?case
  proof cases
    case created
    with Cons.prems(2) obtain c1 where c1: "ParseableTime_decode (snd kv) = Inr c1"
      and rest: "decode_seq (\<lambda>v c. ParseableTime_decode v) (field_values ''created'' kvs) c1
                   = Inr cr"
      by (auto simp: field_values_def bind_res_Inr_iff)
    from created Cons.prems(1) have std:
      "decode_members Event_Mask_field (Event_standard_members kvs) (Event_p_Mask p) = Inr m"
      by (simp add: Event_standard_members_def without_field_def)
    from Cons.IH [of "p\<lparr>Event_p_Created := c1\<rparr>"] std rest
    have "decode_members Event_p_field kvs (p\<lparr>Event_p_Created := c1\<rparr>) =
        Inr \<lparr>Event_p_Mask = m, Event_p_Created = cr,
             Event_p_TimeRemaining =
               (case field_value ''time_remaining'' kvs of
                  None \<Rightarrow> Event_p_TimeRemaining p | Some v \<Rightarrow> Some v)\<rparr>"
      by (simp cong: option.case_cong)
    moreover from created c1 have
      "Event_p_field (fold_key (fst kv)) (snd kv) p = Inr (p\<lparr>Event_p_Created := c1\<rparr>)"
      by (simp add: Event_p_field_def)
    ultimately show ?thesis using created
      by (simp add: field_value_Cons split: option.splits)
  next
    case raw
    from raw Cons.prems(1) have std:
      "decode_members Event_Mask_field (Event_standard_members kvs) (Event_p_Mask p) = Inr m"
      by (simp add: Event_standard_members_def without_field_def)
    from raw Cons.prems(2) have rest:
      "decode_seq (\<lambda>v c. ParseableTime_decode v) (field_values ''created'' kvs)
         (Event_p_Created p) = Inr cr"
      by (simp add: field_values_def)
    from Cons.IH [of "p\<lparr>Event_p_TimeRemaining := Some (snd kv)\<rparr>"] std rest
    have "decode_members Event_p_field kvs (p\<lparr>Event_p_TimeRemaining := Some (snd kv)\<rparr>) =
        Inr \<lparr>Event_p_Mask = m, Event_p_Created = cr,
             Event_p_TimeRemaining =
               (case field_value ''time_remaining'' kvs of
                  None \<Rightarrow> Some (snd kv) | Some v \<Rightarrow> Some v)\<rparr>"
      by (simp cong: option.case_cong)
    moreover from raw have
      "Event_p_field (fold_key (fst kv)) (snd kv) p =
         Inr (p\<lparr>Event_p_TimeRemaining := Some (snd kv)\<rparr>)"
      by (simp add: Event_p_field_def)
    ultimately show ?thesis using raw
      by (simp add: field_value_Cons split: option.splits)
  next
    case standard
    with Cons.prems(1) obtain m1 where
      m1: "Event_Mask_field (fold_key (fst kv)) (snd kv) (Event_p_Mask p) = Inr m1"
      and std: "decode_members Event_Mask_field (Event_standard_members kvs) m1 = Inr m"
      by (auto simp: Event_standard_members_def without_field_def bind_res_Inr_iff)
    from standard Cons.prems(2) have rest:
      "decode_seq (\<lambda>v c. ParseableTime_decode v) (field_values ''created'' kvs)
         (Event_p_Created p) = Inr cr"
      by (simp add: field_values_def)
    from Cons.IH [of "p\<lparr>Event_p_Mask := m1\<rparr>"] std rest
    have "decode_members Event_p_field kvs (p\<lparr>Event_p_Mask := m1\<rparr>) =
        Inr \<lparr>Event_p_Mask = m, Event_p_Created = cr,
             Event_p_TimeRemaining =
               (case field_value ''time_remaining'' kvs of
                  None \<Rightarrow> Event_p_TimeRemaining p | Some v \<Rightarrow> Some v)\<rparr>"
      by (simp cong: option.case_cong)
    moreover from standard m1 have
      "Event_p_field (fold_key (fst kv)) (snd kv) p = Inr (p\<lparr>Event_p_Mask := m1\<rparr>)"
      by (simp add: Event_p_field_def)
    ultimately show ?thesis using standard
      by (simp add: field_value_Cons split: option.splits)
  qed
qed

lemma Event_UnmarshalJSON_total:
  assumes "decode_members Event_Mask_field (Event_standard_members kvs) i = Inr m"
    and "decode_seq (\<lambda>v c. ParseableTime_decode v) (field_values ''created'' kvs) None = Inr cr"
  shows "Event_UnmarshalJSON i (JObject kvs) =
           Inr (m\<lparr>Event_Created := cr,
                  Event_TimeRemaining :=
                    UnmarshalTimeRemaining (field_value ''time_remaining'' kvs)\<rparr>)"
  using Event_p_members_total
      [of kvs "\<lparr>Event_p_Mask = i, Event_p_Created = None, Event_p_TimeRemaining = None\<rparr>" m cr]
    assms
  by (cases "field_value ''time_remaining'' kvs") (simp_all add: Event_UnmarshalJSON_def)

lemma Instance_p_members_total:
  "decode_members (Instance_Mask_field ip_text) (Instance_standard_members kvs)
     (Instance_p_Mask p) = Inr m \<Longrightarrow>
   decode_seq (\<lambda>v c. ParseableTime_decode v) (field_values ''created'' kvs)
     (Instance_p_Created p) = Inr cr \<Longrightarrow>
   decode_seq (\<lambda>v c. ParseableTime_decode v) (field_values ''updated'' kvs)
     (Instance_p_Updated p) = Inr u \<Longrightarrow>
   decode_members (Instance_p_field ip_text) kvs p =
     Inr \<lparr>Instance_p_Mask = m, Instance_p_Created = cr, Instance_p_Updated = u\<rparr>"
proof (induction kvs arbitrary: p)
  case Nil
  then show ?case
    by (cases p) (simp add: Instance_standard_members_def without_field_def field_values_def)
next
  case (Cons kv kvs)
  consider (created) "fold_key (fst kv) = ''created''"
    | (updated) "fold_key (fst kv) = ''updated''"
    | (standard) "fold_key (fst kv) \<noteq> ''created''" "fold_key (fst kv) \<noteq> ''updated''"
    by blast
  then show ?case
  proof cases
    case created
    with Cons.prems(2) obtain c1 where c1: "ParseableTime_decode (snd kv) = Inr c1"
      and rest: "decode_seq (\<lambda>v c. ParseableTime_decode v) (field_values ''created'' kvs) c1
                   = Inr cr"
      by (auto simp: field_values_def bind_res_Inr_iff)
    from created Cons.prems(1) have std:
      "decode_members (Instance_Mask_field ip_text) (Instance_standard_members kvs)
         (Instance_p_Mask p) = Inr m"
      by (simp add: Instance_standard_members_def without_field_def)
    from created Cons.prems(3) have other:
      "decode_seq (\<lambda>v c. ParseableTime_decode v) (field_values ''updated'' kvs)
         (Instance_p_Updated p) = Inr u"
      by (simp add: field_values_def)
    from Cons.IH [of "p\<lparr>Instance_p_Created := c1\<rparr>"] std rest other
    have "decode_members (Instance_p_field ip_text) kvs (p\<lparr>Instance_p_Created := c1\<rparr>) =
        Inr \<lparr>Instance_p_Mask = m, Instance_p_Created = cr, Instance_p_Updated = u\<rparr>"
      by simp
    moreover from created c1 have
      "Instance_p_field ip_text (fold_key (fst kv)) (snd kv) p = Inr (p\<lparr>Instance_p_Created := c1\<rparr>)"
      by (simp add: Instance_p_field_def)
    ultimately show ?thesis
      by simp
  next
    case updated
    with Cons.prems(3) obtain u1 where u1: "ParseableTime_decode (snd kv) = Inr u1"
      and rest: "decode_seq (\<lambda>v c. ParseableTime_decode v) (field_values ''updated'' kvs) u1
                   = Inr u"
      by (auto simp: field_values_def bind_res_Inr_iff)
    from updated Cons.prems(1) have std:
      "decode_members (Instance_Mask_field ip_text) (Instance_standard_members kvs)
         (Instance_p_Mask p) = Inr m"
      by (simp add: Instance_standard_members_def without_field_def)
    from updated Cons.prems(2) have other:
      "decode_seq (\<lambda>v c. ParseableTime_decode v) (field_values ''created'' kvs)
         (Instance_p_Created p) = Inr cr"
      by (simp add: field_values_def)
    from Cons.IH [of "p\<lparr>Instance_p_Updated := u1\<rparr>"] std rest other
    have "decode_members (Instance_p_field ip_text) kvs (p\<lparr>Instance_p_Updated := u1\<rparr>) =
        Inr \<lparr>Instance_p_Mask = m, Instance_p_Created = cr, Instance_p_Updated = u\<rparr>"
      by simp
    moreover from updated u1 have
      "Instance_p_field ip_text (fold_key (fst kv)) (snd kv) p = Inr (p\<lparr>Instance_p_Updated := u1\<rparr>)"
      by (simp add: Instance_p_field_def)
    ultimately show ?thesis
      by simp
  next
    case standard
    with Cons.prems(1) obtain m1 where
      m1: "Instance_Mask_field ip_text (fold_key (fst kv)) (snd kv) (Instance_p_Mask p) = Inr m1"
      and std: "decode_members (Instance_Mask_field ip_text) (Instance_standard_members kvs) m1
                  = Inr m"
      by (auto simp: Instance_standard_members_def without_field_def bind_res_Inr_iff)
    from standard Cons.prems(2) have rest:
      "decode_seq (\<lambda>v c. ParseableTime_decode v) (field_values ''created'' kvs)
         (Instance_p_Created p) = Inr cr"
      by (simp add: field_values_def)
    from standard Cons.prems(3) have other:
      "decode_seq (\<lambda>v c. ParseableTime_decode v) (field_values ''updated'' kvs)
         (Instance_p_Updated p) = Inr u"
      by (simp add: field_values_def)
    from Cons.IH [of "p\<lparr>Instance_p_Mask := m1\<rparr>"] std rest other
    have "decode_members (Instance_p_field ip_text) kvs (p\<lparr>Instance_p_Mask := m1\<rparr>) =
        Inr \<lparr>Instance_p_Mask = m, Instance_p_Created = cr, Instance_p_Updated = u\<rparr>"
      by simp
    moreover from standard m1 have
      "Instance_p_field ip_text (fold_key (fst kv)) (snd kv) p = Inr (p\<lparr>Instance_p_Mask := m1\<rparr>)"
      by (simp add: Instance_p_field_def)
    ultimately show ?thesis
      by simp
  qed
qed

lemma Instance_UnmarshalJSON_total:
  assumes "decode_members (Instance_Mask_field ip_text) (Instance_standard_members kvs) i = Inr m"
    and "decode_seq (\<lambda>v c. ParseableTime_decode v) (field_values ''created'' kvs) None = Inr cr"
    and "decode_seq (\<lambda>v c. ParseableTime_decode v) (field_values ''updated'' kvs) None = Inr u"
  shows "Instance_UnmarshalJSON ip_text i (JObject kvs) =
           Inr (m\<lparr>Instance_Created := cr, Instance_Updated := u\<rparr>)"
  using Instance_p_members_total
      [of ip_text kvs "\<lparr>Instance_p_Mask = i, Instance_p_Created = None, Instance_p_Updated = None\<rparr>"
        m cr u]
    assms
  by (simp add: Instance_UnmarshalJSON_def)

text \<open>
  Claim C3.  When an object is decoded into an event or an instance with success and its
  timestamp member (\<^verbatim>\<open>created\<close>, \<^verbatim>\<open>updated\<close>) is absent or null, the field is nil; when
  the member is a string that matches none of the recognized formats, the decoding of the
  whole record fails with a decode error; and when the decoding succeeds on a string
  member, the string is in a recognized format and the field holds its time.

  And a null or absent timestamp is accepted.  When the standard members of the object
  decode and every \<^verbatim>\<open>created\<close> member is null, or there is none, \<^verbatim>\<open>Event.UnmarshalJSON\<close>
  succeeds, with the record the standard members give and no \<^verbatim>\<open>Created\<close>.  So does
  \<^verbatim>\<open>Instance.UnmarshalJSON\<close>, for \<^verbatim>\<open>created\<close> and for \<^verbatim>\<open>updated\<close>, whatever timestamp the
  other of the two decodes to.
\<close>

theorem timestamp_decoding:
  "(Event_UnmarshalJSON i (JObject kvs) = Inr e
      \<and> (field_value ''created'' kvs = None \<or> field_value ''created'' kvs = Some JNull) \<longrightarrow>
    Event_Created e = None)
   \<and> (field_value ''created'' kvs = Some (JString s) \<and> parse_timestamp s = None \<longrightarrow>
    Event_UnmarshalJSON i (JObject kvs) = Inl DecodeError)
   \<and> (Event_UnmarshalJSON i (JObject kvs) = Inr e \<and> field_value ''created'' kvs = Some (JString s) \<longrightarrow>
    parse_timestamp s \<noteq> None \<and> Event_Created e = parse_timestamp s)
   \<and> (Instance_UnmarshalJSON ip_text i' (JObject kvs') = Inr e'
      \<and> (field_value ''created'' kvs' = None \<or> field_value ''created'' kvs' = Some JNull) \<longrightarrow>
    Instance_Created e' = None)
   \<and> (Instance_UnmarshalJSON ip_text i' (JObject kvs') = Inr e'
      \<and> (field_value ''updated'' kvs' = None \<or> field_value ''updated'' kvs' = Some JNull) \<longrightarrow>
    Instance_Updated e' = None)
   \<and> ((field_value ''created'' kvs' = Some (JString s) \<or> field_value ''updated'' kvs' = Some (JString s))
      \<and> parse_timestamp s = None \<longrightarrow>
    Instance_UnmarshalJSON ip_text i' (JObject kvs') = Inl DecodeError)
   \<and> (Instance_UnmarshalJSON ip_text i' (JObject kvs') = Inr e'
      \<and> field_value ''created'' kvs' = Some (JString s) \<longrightarrow>
    parse_timestamp s \<noteq> None \<and> Instance_Created e' = parse_timestamp s)
   \<and> (Instance_UnmarshalJSON ip_text i' (JObject kvs') = Inr e'
      \<and> field_value ''updated'' kvs' = Some (JString s) \<longrightarrow>
    parse_timestamp s \<noteq> None \<and> Instance_Updated e' = parse_timestamp s)
   \<and> (decode_members Event_Mask_field (Event_standard_members kvs) i = Inr m
      \<and> (\<forall>v \<in> set (field_values ''created'' kvs). v = JNull) \<longrightarrow>
    Event_UnmarshalJSON i (JObject kvs) =
      Inr (m\<lparr>Event_Created := None,
             Event_TimeRemaining :=
               UnmarshalTimeRemaining (field_value ''time_remaining'' kvs)\<rparr>))
   \<and> (decode_members (Instance_Mask_field ip_text) (Instance_standard_members kvs') i' = Inr m'
      \<and> (\<forall>v \<in> set (field_values ''created'' kvs'). v = JNull)
      \<and> decode_seq (\<lambda>v c. ParseableTime_decode v) (field_values ''updated'' kvs') None = Inr u
      \<longrightarrow>
    Instance_UnmarshalJSON ip_text i' (JObject kvs') =
      Inr (m'\<lparr>Instance_Created := None, Instance_Updated := u\<rparr>))
   \<and> (decode_members (Instance_Mask_field ip_text) (Instance_standard_members kvs') i' = Inr m'
      \<and> (\<forall>v \<in> set (field_values ''updated'' kvs'). v = JNull)
      \<and> decode_seq (\<lambda>v c. ParseableTime_decode v) (field_values ''created'' kvs') None = Inr cr
      \<longrightarrow>
    Instance_UnmarshalJSON ip_text i' (JObject kvs') =
      Inr (m'\<lparr>Instance_Created := cr, Instance_Updated := None\<rparr>))"
proof -
  have string: "parse_timestamp s \<noteq> None \<and> r = parse_timestamp s"
    if "ParseableTime_decode (JString s) = Inr r" for r
    using that by (cases "parse_timestamp s") auto
  have ev: "(field_value ''created'' kvs = None \<longrightarrow> Event_Created e = None)
      \<and> (\<forall>v. field_value ''created'' kvs = Some v \<longrightarrow> ParseableTime_decode v = Inr (Event_Created e))"
    if ok: "Event_UnmarshalJSON i (JObject kvs) = Inr e"
    using decode_seq_field_value [OF Event_UnmarshalJSON_Created [OF ok]] .
  have cr: "(field_value ''created'' kvs' = None \<longrightarrow> Instance_Created e' = None)
      \<and> (\<forall>v. field_value ''created'' kvs' = Some v \<longrightarrow>
             ParseableTime_decode v = Inr (Instance_Created e'))"
    if ok: "Instance_UnmarshalJSON ip_text i' (JObject kvs') = Inr e'"
    using decode_seq_field_value [OF Instance_UnmarshalJSON_Created [OF ok]] .
  have up: "(field_value ''updated'' kvs' = None \<longrightarrow> Instance_Updated e' = None)
      \<and> (\<forall>v. field_value ''updated'' kvs' = Some v \<longrightarrow>
             ParseableTime_decode v = Inr (Instance_Updated e'))"
    if ok: "Instance_UnmarshalJSON ip_text i' (JObject kvs') = Inr e'"
    using decode_seq_field_value [OF Instance_UnmarshalJSON_Updated [OF ok]] .
  have a1: "Event_Created e = None"
    if "Event_UnmarshalJSON i (JObject kvs) = Inr e"
      and "field_value ''created'' kvs = None \<or> field_value ''created'' kvs = Some JNull"
    using ev [OF that(1)] that(2) by auto
  have a2: "Event_UnmarshalJSON i (JObject kvs) = Inl DecodeError"
    if "field_value ''created'' kvs = Some (JString s)" and "parse_timestamp s = None"
  proof (cases "Event_UnmarshalJSON i (JObject kvs)")
    case (Inl x)
    with Event_UnmarshalJSON_error [OF Inl] show ?thesis by simp
  next
    case (Inr x)
    from decode_seq_field_value [OF Event_UnmarshalJSON_Created [OF Inr]] that
    show ?thesis by auto
  qed
  have a3: "parse_timestamp s \<noteq> None \<and> Event_Created e = parse_timestamp s"
    if "Event_UnmarshalJSON i (JObject kvs) = Inr e"
      and "field_value ''created'' kvs = Some (JString s)"
    using ev [OF that(1)] that(2) string by blast
  have b1: "Instance_Created e' = None"
    if "Instance_UnmarshalJSON ip_text i' (JObject kvs') = Inr e'"
      and "field_value ''created'' kvs' = None \<or> field_value ''created'' kvs' = Some JNull"
    using cr [OF that(1)] that(2) by auto
  have b2: "Instance_Updated e' = None"
    if "Instance_UnmarshalJSON ip_text i' (JObject kvs') = Inr e'"
      and "field_value ''updated'' kvs' = None \<or> field_value ''updated'' kvs' = Some JNull"
    using up [OF that(1)] that(2) by auto
  have b3: "Instance_UnmarshalJSON ip_text i' (JObject kvs') = Inl DecodeError"
    if "field_value ''created'' kvs' = Some (JString s) \<or> field_value ''updated'' kvs' = Some (JString s)"
      and "parse_timestamp s = None"
  proof (cases "Instance_UnmarshalJSON ip_text i' (JObject kvs')")
    case (Inl x)
    with Instance_UnmarshalJSON_error [OF Inl] show ?thesis by simp
  next
    case (Inr x)
    from decode_seq_field_value [OF Instance_UnmarshalJSON_Created [OF Inr]]
      decode_seq_field_value [OF Instance_UnmarshalJSON_Updated [OF Inr]] that
    show ?thesis by auto
  qed
  have b4: "parse_timestamp s \<noteq> None \<and> Instance_Created e' = parse_timestamp s"
    if "Instance_UnmarshalJSON ip_text i' (JObject kvs') = Inr e'"
      and "field_value ''created'' kvs' = Some (JString s)"
    using cr [OF that(1)] that(2) string by blast
  have b5: "parse_timestamp s \<noteq> None \<and> Instance_Updated e' = parse_timestamp s"
    if "Instance_UnmarshalJSON ip_text i' (JObject kvs') = Inr e'"
      and "field_value ''updated'' kvs' = Some (JString s)"
    using up [OF that(1)] that(2) string by blast
  have c1: "Event_UnmarshalJSON i (JObject kvs) =
      Inr (m\<lparr>Event_Created := None,
             Event_TimeRemaining :=
               UnmarshalTimeRemaining (field_value ''time_remaining'' kvs)\<rparr>)"
    if "decode_members Event_Mask_field (Event_standard_members kvs) i = Inr m"
      and "\<forall>v \<in> set (field_values ''created'' kvs). v = JNull"
    using Event_UnmarshalJSON_total [OF that(1) decode_seq_null [OF that(2)]] .
  have c2: "Instance_UnmarshalJSON ip_text i' (JObject kvs') =
      Inr (m'\<lparr>Instance_Created := None, Instance_Updated := u\<rparr>)"
    if "decode_members (Instance_Mask_field ip_text) (Instance_standard_members kvs') i' = Inr m'"
      and "\<forall>v \<in> set (field_values ''created'' kvs'). v = JNull"
      and "decode_seq (\<lambda>v c. ParseableTime_decode v) (field_values ''updated'' kvs') None = Inr u"
    using Instance_UnmarshalJSON_total [OF that(1) decode_seq_null [OF that(2)] that(3)] .
  have c3: "Instance_UnmarshalJSON ip_text i' (JObject kvs') =
      Inr (m'\<lparr>Instance_Created := cr, Instance_Updated := None\<rparr>)"
    if "decode_members (Instance_Mask_field ip_text) (Instance_standard_members kvs') i' = Inr m'"
      and "\<forall>v \<in> set (field_values ''updated'' kvs'). v = JNull"
      and "decode_seq (\<lambda>v c. ParseableTime_decode v) (field_values ''created'' kvs') None = Inr cr"
    using Instance_UnmarshalJSON_total [OF that(1) that(3) decode_seq_null [OF that(2)]] .
  from a1 a2 a3 b1 b2 b3 b4 b5 have conditional:
    "(Event_UnmarshalJSON i (JObject kvs) = Inr e
      \<and> (field_value ''created'' kvs = None \<or> field_value ''created'' kvs = Some JNull) \<longrightarrow>
    Event_Created e = None)
   \<and> (field_value ''created'' kvs = Some (JString s) \<and> parse_timestamp s = None \<longrightarrow>
    Event_UnmarshalJSON i (JObject kvs) = Inl DecodeError)
   \<and> (Event_UnmarshalJSON i (JObject kvs) = Inr e \<and> field_value ''created'' kvs = Some (JString s) \<longrightarrow>
    parse_timestamp s \<noteq> None \<and> Event_Created e = parse_timestamp s)
   \<and> (Instance_UnmarshalJSON ip_text i' (JObject kvs') = Inr e'
      \<and> (field_value ''created'' kvs' = None \<or> field_value ''created'' kvs' = Some JNull) \<longrightarrow>
    Instance_Created e' = None)
   \<and> (Instance_UnmarshalJSON ip_text i' (JObject kvs') = Inr e'
      \<and> (field_value ''updated'' kvs' = None \<or> field_value ''updated'' kvs' = Some JNull) \<longrightarrow>
    Instance_Updated e' = None)
   \<and> ((field_value ''created'' kvs' = Some (JString s) \<or> field_value ''updated'' kvs' = Some (JString s))
      \<and> parse_timestamp s = None \<longrightarrow>
    Instance_UnmarshalJSON ip_text i' (JObject kvs') = Inl DecodeError)
   \<and> (Instance_UnmarshalJSON ip_text i' (JObject kvs') = Inr e'
      \<and> field_value ''created'' kvs' = Some (JString s) \<longrightarrow>
    parse_timestamp s \<noteq> None \<and> Instance_Created e' = parse_timestamp s)
   \<and> (Instance_UnmarshalJSON ip_text i' (JObject kvs') = Inr e'
      \<and> field_value ''updated'' kvs' = Some (JString s) \<longrightarrow>
    parse_timestamp s \<noteq> None \<and> Instance_Updated e' = parse_timestamp s)"
    by blast
  from c1 have accepted_event:
    "decode_members Event_Mask_field (Event_standard_members kvs) i = Inr m
      \<and> (\<forall>v \<in> set (field_values ''created'' kvs). v = JNull) \<longrightarrow>
    Event_UnmarshalJSON i (JObject kvs) =
      Inr (m\<lparr>Event_Created := None,
             Event_TimeRemaining :=
               UnmarshalTimeRemaining (field_value ''time_remaining'' kvs)\<rparr>)"
    by blast
  from c2 have accepted_created:
    "decode_members (Instance_Mask_field ip_text) (Instance_standard_members kvs') i' = Inr m'
      \<and> (\<forall>v \<in> set (field_values ''created'' kvs'). v = JNull)
      \<and> decode_seq (\<lambda>v c. ParseableTime_decode v) (field_values ''updated'' kvs') None = Inr u
      \<longrightarrow>
    Instance_UnmarshalJSON ip_text i' (JObject kvs') =
      Inr (m'\<lparr>Instance_Created := None, Instance_Updated := u\<rparr>)"
    by blast
  from c3 have accepted_updated:
    "decode_members (Instance_Mask_field ip_text) (Instance_standard_members kvs') i' = Inr m'
      \<and> (\<forall>v \<in> set (field_values ''updated'' kvs'). v = JNull)
      \<and> decode_seq (\<lambda>v c. ParseableTime_decode v) (field_values ''created'' kvs') None = Inr cr
      \<longrightarrow>
    Instance_UnmarshalJSON ip_text i' (JObject kvs') =
      Inr (m'\<lparr>Instance_Created := cr, Instance_Updated := None\<rparr>)"
    by blast
  show ?thesis
    apply (insert conditional accepted_event accepted_created accepted_updated)
    apply (elim conjE)
    apply (intro conjI)
    apply assumption+
    done
qed

text \<open>
  An event whose \<^verbatim>\<open>created\<close> is null decodes with no timestamp, and so does one without
  the member; one whose \<^verbatim>\<open>created\<close> is \<^verbatim>\<open>not-a-date\<close> does not decode; the same for an
  instance whose \<^verbatim>\<open>updated\<close> is \<^verbatim>\<open>not-a-date\<close>.  An instance whose \<^verbatim>\<open>created\<close> is null and
  whose \<^verbatim>\<open>updated\<close> is a time in the primary form decodes with no \<^verbatim>\<open>Created\<close> and that
  time; one whose \<^verbatim>\<open>updated\<close> is null and whose \<^verbatim>\<open>created\<close> is in the ISO form likewise;
  one with neither member decodes with neither timestamp.
\<close>

theorem timestamp_decoding_witness:
  "Event_UnmarshalJSON Event_zero (JObject [(''id'', JInt 7), (''created'', JNull)]) =
     Inr (Event_zero\<lparr>Event_ID := 7\<rparr>)
   \<and> Event_Created (Event_zero\<lparr>Event_ID := 7\<rparr>) = None
   \<and> Event_UnmarshalJSON Event_zero
       (JObject [(''id'', JInt 7), (''created'', JString ''not-a-date'')]) = Inl DecodeError
   \<and> Instance_UnmarshalJSON (\<lambda>s. Some s) Instance_zero
       (JObject [(''id'', JInt 5), (''Updated'', JString ''not-a-date'')]) = Inl DecodeError
   \<and> Event_UnmarshalJSON Event_zero (JObject [(''id'', JInt 7)]) =
     Inr (Event_zero\<lparr>Event_ID := 7\<rparr>)
   \<and> Instance_UnmarshalJSON (\<lambda>s. Some s) Instance_zero
       (JObject [(''id'', JInt 5), (''created'', JNull),
                 (''updated'', JString ''2018-01-02 03:04:05'')]) =
     Inr (Instance_zero
            \<lparr>Instance_ID := 5,
             Instance_Updated :=
               Some \<lparr>Year = 2018, Month = 1, Day = 2, Hour = 3, Minute = 4, Second = 5\<rparr>\<rparr>)
   \<and> Instance_UnmarshalJSON (\<lambda>s. Some s) Instance_zero
       (JObject [(''id'', JInt 5), (''updated'', JNull),
                 (''created'', JString ''2018-01-02T03:04:05'')]) =
     Inr (Instance_zero
            \<lparr>Instance_ID := 5,
             Instance_Created :=
               Some \<lparr>Year = 2018, Month = 1, Day = 2, Hour = 3, Minute = 4, Second = 5\<rparr>\<rparr>)
   \<and> Instance_UnmarshalJSON (\<lambda>s. Some s) Instance_zero (JObject [(''id'', JInt 5)]) =
     Inr (Instance_zero\<lparr>Instance_ID := 5\<rparr>)"
proof -
  let ?ok = "[(''id'', JInt 7), (''created'', JNull)]"
  let ?none = "[(''id'', JInt 7)]"
  let ?bad = "[(''id'', JInt 7), (''created'', JString ''not-a-date'')]"
  let ?bad' = "[(''id'', JInt 5), (''Updated'', JString ''not-a-date'')]"
  let ?A = "[(''id'', JInt 5), (''created'', JNull),
             (''updated'', JString ''2018-01-02 03:04:05'')]"
  let ?B = "[(''id'', JInt 5), (''updated'', JNull),
             (''created'', JString ''2018-01-02T03:04:05'')]"
  let ?C = "[(''id'', JInt 5)]"
  let ?t = "\<lparr>Year = 2018, Month = 1, Day = 2, Hour = 3, Minute = 4, Second = 5\<rparr>"
  let ?ip = "\<lambda>s :: string. Some s"
  let ?i5 = "Instance_zero\<lparr>Instance_ID := 5\<rparr> :: string Instance"
  have null: "field_value ''created'' ?ok = Some JNull" by code_simp
  have bad: "field_value ''created'' ?bad = Some (JString ''not-a-date'')" by code_simp
  have bad': "field_value ''updated'' ?bad' = Some (JString ''not-a-date'')" by code_simp
  have none: "parse_timestamp ''not-a-date'' = None" by code_simp
  have std_e:
    "decode_members Event_Mask_field (Event_standard_members ?ok) Event_zero =
       Inr (Event_zero\<lparr>Event_ID := 7\<rparr>)"
    "decode_members Event_Mask_field (Event_standard_members ?none) Event_zero =
       Inr (Event_zero\<lparr>Event_ID := 7\<rparr>)"
    by code_simp+
  have values_e: "field_values ''created'' ?ok = [JNull]" "field_values ''created'' ?none = []"
    "field_value ''time_remaining'' ?ok = None" "field_value ''time_remaining'' ?none = None"
    by code_simp+
  have std_i:
    "decode_members (Instance_Mask_field ?ip) (Instance_standard_members ?A) Instance_zero = Inr ?i5"
    "decode_members (Instance_Mask_field ?ip) (Instance_standard_members ?B) Instance_zero = Inr ?i5"
    "decode_members (Instance_Mask_field ?ip) (Instance_standard_members ?C) Instance_zero = Inr ?i5"
    by code_simp+
  have values_i:
    "field_values ''created'' ?A = [JNull]"
    "field_values ''updated'' ?A = [JString ''2018-01-02 03:04:05'']"
    "field_values ''updated'' ?B = [JNull]"
    "field_values ''created'' ?B = [JString ''2018-01-02T03:04:05'']"
    "field_values ''created'' ?C = []" "field_values ''updated'' ?C = []"
    "field_value ''created'' ?A = Some JNull"
    "field_value ''updated'' ?A = Some (JString ''2018-01-02 03:04:05'')"
    "field_value ''updated'' ?B = Some JNull"
    "field_value ''created'' ?B = Some (JString ''2018-01-02T03:04:05'')"
    by code_simp+
  have times:
    "ParseableTime_decode (JString ''2018-01-02 03:04:05'') = Inr (Some ?t)"
    "ParseableTime_decode (JString ''2018-01-02T03:04:05'') = Inr (Some ?t)"
    by code_simp+
  note E = timestamp_decoding [where i = Event_zero and m = "Event_zero\<lparr>Event_ID := 7\<rparr>"]
  note I = timestamp_decoding [where ip_text = ?ip and i' = Instance_zero and m' = ?i5]
  have ok: "Event_UnmarshalJSON Event_zero (JObject ?ok) = Inr (Event_zero\<lparr>Event_ID := 7\<rparr>)"
    using E [where kvs = ?ok, THEN conjunct2, THEN conjunct2, THEN conjunct2, THEN conjunct2,
        THEN conjunct2, THEN conjunct2, THEN conjunct2, THEN conjunct2, THEN conjunct1]
      std_e(1)
    by (simp add: values_e Event_zero_def)
  have absent: "Event_UnmarshalJSON Event_zero (JObject ?none) = Inr (Event_zero\<lparr>Event_ID := 7\<rparr>)"
    using E [where kvs = ?none, THEN conjunct2, THEN conjunct2, THEN conjunct2, THEN conjunct2,
        THEN conjunct2, THEN conjunct2, THEN conjunct2, THEN conjunct2, THEN conjunct1]
      std_e(2)
    by (simp add: values_e Event_zero_def)
  have nulls:
    "\<forall>v \<in> set (field_values ''created'' ?A). v = JNull"
    "\<forall>v \<in> set (field_values ''updated'' ?B). v = JNull"
    "\<forall>v \<in> set (field_values ''created'' ?C). v = JNull"
    by (simp_all only: values_i) simp_all
  have seqs:
    "decode_seq (\<lambda>v c. ParseableTime_decode v) (field_values ''updated'' ?A) None
       = Inr (Some ?t)"
    "decode_seq (\<lambda>v c. ParseableTime_decode v) (field_values ''created'' ?B) None
       = Inr (Some ?t)"
    "decode_seq (\<lambda>v c. ParseableTime_decode v) (field_values ''updated'' ?C) None = Inr None"
    by (simp_all only: values_i decode_seq.simps times bind_res_simps)
  have "Instance_UnmarshalJSON ?ip Instance_zero (JObject ?A) =
      Inr (?i5\<lparr>Instance_Created := None, Instance_Updated := Some ?t\<rparr>)"
    using I [where kvs' = ?A and u = "Some ?t", THEN conjunct2, THEN conjunct2, THEN conjunct2,
        THEN conjunct2, THEN conjunct2, THEN conjunct2, THEN conjunct2, THEN conjunct2,
        THEN conjunct2, THEN conjunct1]
      std_i(1) nulls(1) seqs(1)
    by blast
  then have A: "Instance_UnmarshalJSON ?ip Instance_zero (JObject ?A) =
      Inr (Instance_zero\<lparr>Instance_ID := 5, Instance_Updated := Some ?t\<rparr>)"
    by (simp add: Instance_zero_def)
  have "Instance_UnmarshalJSON ?ip Instance_zero (JObject ?B) =
      Inr (?i5\<lparr>Instance_Created := Some ?t, Instance_Updated := None\<rparr>)"
    using I [where kvs' = ?B and cr = "Some ?t", THEN conjunct2, THEN conjunct2, THEN conjunct2,
        THEN conjunct2, THEN conjunct2, THEN conjunct2, THEN conjunct2, THEN conjunct2,
        THEN conjunct2, THEN conjunct2]
      std_i(2) nulls(2) seqs(2)
    by blast
  then have B: "Instance_UnmarshalJSON ?ip Instance_zero (JObject ?B) =
      Inr (Instance_zero\<lparr>Instance_ID := 5, Instance_Created := Some ?t\<rparr>)"
    by (simp add: Instance_zero_def)
  have "Instance_UnmarshalJSON ?ip Instance_zero (JObject ?C) =
      Inr (?i5\<lparr>Instance_Created := None, Instance_Updated := None\<rparr>)"
    using I [where kvs' = ?C and u = None, THEN conjunct2, THEN conjunct2, THEN conjunct2,
        THEN conjunct2, THEN conjunct2, THEN conjunct2, THEN conjunct2, THEN conjunct2,
        THEN conjunct2, THEN conjunct1]
      std_i(3) nulls(3) seqs(3)
    by blast
  then have C: "Instance_UnmarshalJSON ?ip Instance_zero (JObject ?C) = Inr ?i5"
    by (simp add: Instance_zero_def)
  from timestamp_decoding [where i = Event_zero and kvs = ?ok
      and e = "Event_zero\<lparr>Event_ID := 7\<rparr>", THEN conjunct1] ok null
  have "Event_Created (Event_zero\<lparr>Event_ID := 7\<rparr>) = None" by blast
  moreover
  from timestamp_decoding [where i = Event_zero and kvs = ?bad and s = "''not-a-date''",
      THEN conjunct2, THEN conjunct1] bad none
  have "Event_UnmarshalJSON Event_zero (JObject ?bad) = Inl DecodeError" by blast
  moreover
  from timestamp_decoding [where ip_text = ?ip and i' = Instance_zero
      and kvs' = ?bad' and s = "''not-a-date''", THEN conjunct2, THEN conjunct2, THEN conjunct2,
      THEN conjunct2, THEN conjunct2, THEN conjunct1] bad' none
  have "Instance_UnmarshalJSON ?ip Instance_zero (JObject ?bad') = Inl DecodeError"
    by blast
  moreover
  from I [where kvs' = ?A and e' = "Instance_zero\<lparr>Instance_ID := 5, Instance_Updated := Some ?t\<rparr>"
      and s = "''2018-01-02 03:04:05''", THEN conjunct2, THEN conjunct2, THEN conjunct2]
    A values_i(7,8)
  have "Instance_Created (Instance_zero\<lparr>Instance_ID := 5, Instance_Updated := Some ?t\<rparr>
          :: string Instance) = None
      \<and> parse_timestamp ''2018-01-02 03:04:05'' \<noteq> None"
    by blast
  moreover
  from I [where kvs' = ?B and e' = "Instance_zero\<lparr>Instance_ID := 5, Instance_Created := Some ?t\<rparr>"
      and s = "''2018-01-02T03:04:05''", THEN conjunct2, THEN conjunct2, THEN conjunct2]
    B values_i(9,10)
  have "Instance_Updated (Instance_zero\<lparr>Instance_ID := 5, Instance_Created := Some ?t\<rparr>
          :: string Instance) = None
      \<and> parse_timestamp ''2018-01-02T03:04:05'' \<noteq> None"
    by blast
  ultimately show ?thesis using ok absent A B C by simp
qed

text \<open>
  Claim C5.  When \<^verbatim>\<open>Event.UnmarshalJSON\<close> or \<^verbatim>\<open>Instance.UnmarshalJSON\<close> reports success
  on an object, every field of the record is resolved: a standard field holds the result
  of decoding, with success, the members that name it, starting from what the receiver
  held (its zero value in a fresh record, which it keeps when no member names it); the
  fields \<^verbatim>\<open>Created\<close> and \<^verbatim>\<open>Updated\<close> hold the timestamp decoded from their members, nil
  when there is none; and \<^verbatim>\<open>TimeRemaining\<close> holds what the duration decoder makes of its
  member.  Success on null leaves the receiver with these three fields nil, and nothing
  but an object or null is decoded with success.
\<close>

theorem decode_total:
  "(Event_UnmarshalJSON i (JObject kvs) = Inr e \<longrightarrow>
      decode_seq decode_int (field_values ''id'' kvs) (Event_ID i) =
        Inr (Event_ID e)
      \<and> decode_seq decode_string (field_values ''status'' kvs) (Event_Status i) =
        Inr (Event_Status e)
      \<and> decode_seq decode_string (field_values ''action'' kvs) (Event_Action i) =
        Inr (Event_Action e)
      \<and> decode_seq decode_int (field_values ''percent_complete'' kvs) (Event_PercentComplete i) =
        Inr (Event_PercentComplete e)
      \<and> decode_seq (decode_ptr decode_string []) (field_values ''rate'' kvs) (Event_Rate i) =
        Inr (Event_Rate e)
      \<and> decode_seq decode_bool (field_values ''read'' kvs) (Event_Read i) =
        Inr (Event_Read e)
      \<and> decode_seq decode_bool (field_values ''seen'' kvs) (Event_Seen i) =
        Inr (Event_Seen e)
      \<and> decode_seq decode_string (field_values ''username'' kvs) (Event_Username i) =
        Inr (Event_Username e)
      \<and> decode_seq (decode_ptr EventEntity_decode EventEntity_zero) (field_values ''entity'' kvs) (Event_Entity i) =
        Inr (Event_Entity e)
      \<and> decode_seq (decode_ptr EventEntity_decode EventEntity_zero) (field_values ''secondary_entity'' kvs) (Event_SecondaryEntity i) =
        Inr (Event_SecondaryEntity e)
      \<and> decode_seq (\<lambda>v c. ParseableTime_decode v) (field_values ''created'' kvs) None =
        Inr (Event_Created e)
      \<and> Event_TimeRemaining e = UnmarshalTimeRemaining (field_value ''time_remaining'' kvs))
   \<and> (Instance_UnmarshalJSON ip_text i' (JObject kvs') = Inr e' \<longrightarrow>
      decode_seq decode_int (field_values ''id'' kvs')
        (Instance_ID i') = Inr (Instance_ID e')
      \<and> decode_seq decode_string (field_values ''region'' kvs')
        (Instance_Region i') = Inr (Instance_Region e')
      \<and> decode_seq (decode_ptr (decode_struct InstanceAlert_field) InstanceAlert_zero) (field_values ''alerts'' kvs')
        (Instance_Alerts i') = Inr (Instance_Alerts e')
      \<and> decode_seq (decode_ptr (decode_struct InstanceBackup_field) InstanceBackup_zero) (field_values ''backups'' kvs')
        (Instance_Backups i') = Inr (Instance_Backups e')
      \<and> decode_seq decode_string (field_values ''image'' kvs')
        (Instance_Image i') = Inr (Instance_Image e')
      \<and> decode_seq decode_string (field_values ''group'' kvs')
        (Instance_Group i') = Inr (Instance_Group e')
      \<and> decode_seq (decode_slice (decode_IP ip_text) None) (field_values ''ipv4'' kvs')
        (Instance_IPv4 i') = Inr (Instance_IPv4 e')
      \<and> decode_seq decode_string (field_values ''ipv6'' kvs')
        (Instance_IPv6 i') = Inr (Instance_IPv6 e')
      \<and> decode_seq decode_string (field_values ''label'' kvs')
        (Instance_Label i') = Inr (Instance_Label e')
      \<and> decode_seq decode_string (field_values ''type'' kvs')
        (Instance_Type i') = Inr (Instance_Type e')
      \<and> decode_seq decode_string (field_values ''status'' kvs')
        (Instance_Status i') = Inr (Instance_Status e')
      \<and> decode_seq decode_bool (field_values ''has_user_data'' kvs')
        (Instance_HasUserData i') = Inr (Instance_HasUserData e')
      \<and> decode_seq decode_string (field_values ''hypervisor'' kvs')
        (Instance_Hypervisor i') = Inr (Instance_Hypervisor e')
      \<and> decode_seq decode_string (field_values ''host_uuid'' kvs')
        (Instance_HostUUID i') = Inr (Instance_HostUUID e')
      \<and> decode_seq (decode_ptr (decode_struct InstanceSpec_field) InstanceSpec_zero) (field_values ''specs'' kvs')
        (Instance_Specs i') = Inr (Instance_Specs e')
      \<and> decode_seq decode_bool (field_values ''watchdog_enabled'' kvs')
        (Instance_WatchdogEnabled i') = Inr (Instance_WatchdogEnabled e')
      \<and> decode_seq (decode_slice decode_string []) (field_values ''tags'' kvs')
        (Instance_Tags i') = Inr (Instance_Tags e')
      \<and> decode_seq (decode_ptr (decode_struct InstancePlacementGroup_field) InstancePlacementGroup_zero) (field_values ''placement_group'' kvs')
        (Instance_PlacementGroup i') = Inr (Instance_PlacementGroup e')
      \<and> decode_seq (\<lambda>v c. ParseableTime_decode v) (field_values ''created'' kvs') None =
        Inr (Instance_Created e')
      \<and> decode_seq (\<lambda>v c. ParseableTime_decode v) (field_values ''updated'' kvs') None =
        Inr (Instance_Updated e'))
   \<and> Event_UnmarshalJSON i JNull =
       Inr (i\<lparr>Event_Created := None, Event_TimeRemaining := None\<rparr>)
   \<and> Instance_UnmarshalJSON ip_text i' JNull =
       Inr (i'\<lparr>Instance_Created := None, Instance_Updated := None\<rparr>)
   \<and> (Event_UnmarshalJSON i b = Inr e \<longrightarrow> b = JNull \<or> (\<exists>ms. b = JObject ms))
   \<and> (Instance_UnmarshalJSON ip_text i' b' = Inr e' \<longrightarrow> b' = JNull \<or> (\<exists>ms. b' = JObject ms))"
proof -
  have ev: "decode_seq decode_int (field_values ''id'' kvs) (Event_ID i) =
      Inr (Event_ID e)
    \<and> decode_seq decode_string (field_values ''status'' kvs) (Event_Status i) =
      Inr (Event_Status e)
    \<and> decode_seq decode_string (field_values ''action'' kvs) (Event_Action i) =
      Inr (Event_Action e)
    \<and> decode_seq decode_int (field_values ''percent_complete'' kvs) (Event_PercentComplete i) =
      Inr (Event_PercentComplete e)
    \<and> decode_seq (decode_ptr decode_string []) (field_values ''rate'' kvs) (Event_Rate i) =
      Inr (Event_Rate e)
    \<and> decode_seq decode_bool (field_values ''read'' kvs) (Event_Read i) =
      Inr (Event_Read e)
    \<and> decode_seq decode_bool (field_values ''seen'' kvs) (Event_Seen i) =
      Inr (Event_Seen e)
    \<and> decode_seq decode_string (field_values ''username'' kvs) (Event_Username i) =
      Inr (Event_Username e)
    \<and> decode_seq (decode_ptr EventEntity_decode EventEntity_zero) (field_values ''entity'' kvs) (Event_Entity i) =
      Inr (Event_Entity e)
    \<and> decode_seq (decode_ptr EventEntity_decode EventEntity_zero) (field_values ''secondary_entity'' kvs) (Event_SecondaryEntity i) =
      Inr (Event_SecondaryEntity e)
    \<and> decode_seq (\<lambda>v c. ParseableTime_decode v) (field_values ''created'' kvs) None =
      Inr (Event_Created e)
    \<and> Event_TimeRemaining e = UnmarshalTimeRemaining (field_value ''time_remaining'' kvs)"
    if ok: "Event_UnmarshalJSON i (JObject kvs) = Inr e"
    using Event_decoded_ID [OF ok] Event_decoded_Status [OF ok] Event_decoded_Action [OF ok] Event_decoded_PercentComplete [OF ok] Event_decoded_Rate [OF ok]
      Event_decoded_Read [OF ok] Event_decoded_Seen [OF ok] Event_decoded_Username [OF ok] Event_decoded_Entity [OF ok] Event_decoded_SecondaryEntity [OF ok]
      Event_UnmarshalJSON_Created [OF ok] Event_UnmarshalJSON_TimeRemaining [OF ok]
    by blast
  have ins: "decode_seq decode_int (field_values ''id'' kvs')
      (Instance_ID i') = Inr (Instance_ID e')
    \<and> decode_seq decode_string (field_values ''region'' kvs')
      (Instance_Region i') = Inr (Instance_Region e')
    \<and> decode_seq (decode_ptr (decode_struct InstanceAlert_field) InstanceAlert_zero) (field_values ''alerts'' kvs')
      (Instance_Alerts i') = Inr (Instance_Alerts e')
    \<and> decode_seq (decode_ptr (decode_struct InstanceBackup_field) InstanceBackup_zero) (field_values ''backups'' kvs')
      (Instance_Backups i') = Inr (Instance_Backups e')
    \<and> decode_seq decode_string (field_values ''image'' kvs')
      (Instance_Image i') = Inr (Instance_Image e')
    \<and> decode_seq decode_string (field_values ''group'' kvs')
      (Instance_Group i') = Inr (Instance_Group e')
    \<and> decode_seq (decode_slice (decode_IP ip_text) None) (field_values ''ipv4'' kvs')
      (Instance_IPv4 i') = Inr (Instance_IPv4 e')
    \<and> decode_seq decode_string (field_values ''ipv6'' kvs')
      (Instance_IPv6 i') = Inr (Instance_IPv6 e')
    \<and> decode_seq decode_string (field_values ''label'' kvs')
      (Instance_Label i') = Inr (Instance_Label e')
    \<and> decode_seq decode_string (field_values ''type'' kvs')
      (Instance_Type i') = Inr (Instance_Type e')
    \<and> decode_seq decode_string (field_values ''status'' kvs')
      (Instance_Status i') = Inr (Instance_Status e')
    \<and> decode_seq decode_bool (field_values ''has_user_data'' kvs')
      (Instance_HasUserData i') = Inr (Instance_HasUserData e')
    \<and> decode_seq decode_string (field_values ''hypervisor'' kvs')
      (Instance_Hypervisor i') = Inr (Instance_Hypervisor e')
    \<and> decode_seq decode_string (field_values ''host_uuid'' kvs')
      (Instance_HostUUID i') = Inr (Instance_HostUUID e')
    \<and> decode_seq (decode_ptr (decode_struct InstanceSpec_field) InstanceSpec_zero) (field_values ''specs'' kvs')
      (Instance_Specs i') = Inr (Instance_Specs e')
    \<and> decode_seq decode_bool (field_values ''watchdog_enabled'' kvs')
      (Instance_WatchdogEnabled i') = Inr (Instance_WatchdogEnabled e')
    \<and> decode_seq (decode_slice decode_string []) (field_values ''tags'' kvs')
      (Instance_Tags i') = Inr (Instance_Tags e')
    \<and> decode_seq (decode_ptr (decode_struct InstancePlacementGroup_field) InstancePlacementGroup_zero) (field_values ''placement_group'' kvs')
      (Instance_PlacementGroup i') = Inr (Instance_PlacementGroup e')
    \<and> decode_seq (\<lambda>v c. ParseableTime_decode v) (field_values ''created'' kvs') None =
      Inr (Instance_Created e')
    \<and> decode_seq (\<lambda>v c. ParseableTime_decode v) (field_values ''updated'' kvs') None =
      Inr (Instance_Updated e')"
    if ok: "Instance_UnmarshalJSON ip_text i' (JObject kvs') = Inr e'"
    using Instance_decoded_ID [OF ok] Instance_decoded_Region [OF ok] Instance_decoded_Alerts [OF ok] Instance_decoded_Backups [OF ok] Instance_decoded_Image [OF ok] Instance_decoded_Group [OF ok]
      Instance_decoded_IPv4 [OF ok] Instance_decoded_IPv6 [OF ok] Instance_decoded_Label [OF ok] Instance_decoded_Type [OF ok] Instance_decoded_Status [OF ok] Instance_decoded_HasUserData [OF ok]
      Instance_decoded_Hypervisor [OF ok] Instance_decoded_HostUUID [OF ok] Instance_decoded_Specs [OF ok] Instance_decoded_WatchdogEnabled [OF ok] Instance_decoded_Tags [OF ok] Instance_decoded_PlacementGroup [OF ok]
      Instance_UnmarshalJSON_Created [OF ok] Instance_UnmarshalJSON_Updated [OF ok]
    by blast
  have null: "Event_UnmarshalJSON i JNull =
       Inr (i\<lparr>Event_Created := None, Event_TimeRemaining := None\<rparr>)"
    "Instance_UnmarshalJSON ip_text i' JNull =
       Inr (i'\<lparr>Instance_Created := None, Instance_Updated := None\<rparr>)"
    by (simp_all add: Event_UnmarshalJSON_def Instance_UnmarshalJSON_def)
  have kind: "b = JNull \<or> (\<exists>ms. b = JObject ms)" if "Event_UnmarshalJSON i b = Inr e"
    using that by (cases b) (simp_all add: Event_UnmarshalJSON_def)
  have kind': "b' = JNull \<or> (\<exists>ms. b' = JObject ms)"
    if "Instance_UnmarshalJSON ip_text i' b' = Inr e'"
    using that by (cases b') (simp_all add: Instance_UnmarshalJSON_def)
  from ev ins null kind kind' show ?thesis by blast
qed

text \<open>
  A fresh event decoded from an object with an identifier, a status and an unparseable
  duration is the zero event with the identifier and the status set; a fresh instance
  decoded from an object with an identifier and a null timestamp likewise.
\<close>

theorem decode_total_witness:
  "Event_UnmarshalJSON Event_zero
     (JObject [(''id'', JInt 7), (''status'', JString ''started''),
               (''time_remaining'', JString ''bogus'')]) =
     Inr (Event_zero\<lparr>Event_ID := 7, Event_Status := ''started''\<rparr>)
   \<and> decode_seq decode_int
       (field_values ''id'' [(''id'', JInt 7), (''status'', JString ''started''),
               (''time_remaining'', JString ''bogus'')]) 0 = Inr 7
   \<and> decode_seq decode_string
       (field_values ''username'' [(''id'', JInt 7), (''status'', JString ''started''),
               (''time_remaining'', JString ''bogus'')]) [] = Inr []
   \<and> Instance_UnmarshalJSON (\<lambda>s. Some s) Instance_zero
       (JObject [(''id'', JInt 5), (''created'', JNull)]) =
     Inr (Instance_zero\<lparr>Instance_ID := 5\<rparr>)
   \<and> decode_seq decode_int (field_values ''id'' [(''id'', JInt 5), (''created'', JNull)]) 0 =
       Inr 5"
proof -
  let ?kvs = "[(''id'', JInt 7), (''status'', JString ''started''),
               (''time_remaining'', JString ''bogus'')]"
  let ?e = "Event_zero\<lparr>Event_ID := 7, Event_Status := ''started''\<rparr>"
  let ?kvs' = "[(''id'', JInt 5), (''created'', JNull)]"
  let ?e' = "Instance_zero\<lparr>Instance_ID := 5\<rparr> :: string Instance"
  have ok: "Event_UnmarshalJSON Event_zero (JObject ?kvs) = Inr ?e"
    by code_simp
  have ok': "Instance_UnmarshalJSON (\<lambda>s. Some s) Instance_zero (JObject ?kvs') = Inr ?e'"
    by code_simp
  note t = decode_total [where i = Event_zero and kvs = ?kvs and e = ?e
      and ip_text = "\<lambda>s. Some s" and i' = Instance_zero and kvs' = ?kvs' and e' = ?e']
  from t ok have "decode_seq decode_int (field_values ''id'' ?kvs) (Event_ID Event_zero) =
      Inr (Event_ID ?e)"
    by blast
  moreover from t ok have "decode_seq decode_string (field_values ''username'' ?kvs)
      (Event_Username Event_zero) = Inr (Event_Username ?e)"
    by blast
  moreover from t ok' have "decode_seq decode_int (field_values ''id'' ?kvs')
      (Instance_ID (Instance_zero :: string Instance)) = Inr (Instance_ID ?e')"
    by blast
  ultimately show ?thesis using ok ok' by (simp add: Event_zero_def Instance_zero_def)
qed

subsection \<open>The advisory duration field\<close>

lemma Event_p_field_raw:
  "k \<noteq> ''time_remaining'' \<Longrightarrow>
   Event_p_field k v (p\<lparr>Event_p_TimeRemaining := x\<rparr>) =
     map_res (\<lambda>q. q\<lparr>Event_p_TimeRemaining := x\<rparr>) (Event_p_field k v p)"
  by (simp add: Event_p_field_def map_res_def split: sum.splits)

lemma Event_p_field_keeps_raw:
  "k \<noteq> ''time_remaining'' \<Longrightarrow> Event_p_field k v p = Inr q \<Longrightarrow>
   Event_p_TimeRemaining q = Event_p_TimeRemaining p"
  by (auto simp: Event_p_field_def map_res_Inr_iff split: if_splits)

lemma decode_members_raw:
  "\<forall>kv \<in> set kvs. fold_key (fst kv) \<noteq> ''time_remaining'' \<Longrightarrow>
   decode_members Event_p_field kvs (p\<lparr>Event_p_TimeRemaining := x\<rparr>) =
     map_res (\<lambda>q. q\<lparr>Event_p_TimeRemaining := x\<rparr>) (decode_members Event_p_field kvs p)"
proof (induction kvs arbitrary: p)
  case Nil
  then show ?case by simp
next
  case (Cons kv kvs)
  then have key: "fold_key (fst kv) \<noteq> ''time_remaining''" by simp
  show ?case
  proof (cases "Event_p_field (fold_key (fst kv)) (snd kv) p")
    case (Inl e)
    with key show ?thesis by (simp add: Event_p_field_raw)
  next
    case (Inr q)
    with key Cons show ?thesis by (simp add: Event_p_field_raw)
  qed
qed

text \<open>
  Decoding an object is decoding it without its \<^verbatim>\<open>time_remaining\<close> members, and then
  keeping the last of them as the raw message.
\<close>

lemma decode_members_without_time_remaining:
  "decode_members Event_p_field kvs p =
     map_res (\<lambda>q. q\<lparr>Event_p_TimeRemaining :=
                    (case field_value ''time_remaining'' kvs of
                       None \<Rightarrow> Event_p_TimeRemaining p | Some v \<Rightarrow> Some v)\<rparr>)
       (decode_members Event_p_field (without_field ''time_remaining'' kvs) p)"
proof (induction kvs arbitrary: p)
  case Nil
  then show ?case by (simp add: without_field_def field_value_Nil)
next
  case (Cons kv kvs)
  let ?rest = "without_field ''time_remaining'' kvs"
  have clean: "\<forall>kv \<in> set ?rest. fold_key (fst kv) \<noteq> ''time_remaining''"
    by (simp add: without_field_def)
  show ?case
  proof (cases "fold_key (fst kv) = ''time_remaining''")
    case True
    have "decode_members Event_p_field (kv # kvs) p =
            decode_members Event_p_field kvs (p\<lparr>Event_p_TimeRemaining := Some (snd kv)\<rparr>)"
      using True by (simp add: Event_p_field_def)
    also have "\<dots> = map_res (\<lambda>q. q\<lparr>Event_p_TimeRemaining :=
                    (case field_value ''time_remaining'' kvs of
                       None \<Rightarrow> Some (snd kv) | Some v \<Rightarrow> Some v)\<rparr>)
                 (decode_members Event_p_field ?rest (p\<lparr>Event_p_TimeRemaining := Some (snd kv)\<rparr>))"
      by (subst Cons.IH) (simp cong: option.case_cong)
    also have "\<dots> = map_res (\<lambda>q. q\<lparr>Event_p_TimeRemaining :=
                    (case field_value ''time_remaining'' kvs of
                       None \<Rightarrow> Some (snd kv) | Some v \<Rightarrow> Some v)\<rparr>)
                 (decode_members Event_p_field ?rest p)"
      by (cases "decode_members Event_p_field ?rest p")
         (simp_all add: decode_members_raw [OF clean])
    finally show ?thesis
      using True by (simp add: without_field_def field_value_Cons split: option.splits)
  next
    case False
    show ?thesis
    proof (cases "Event_p_field (fold_key (fst kv)) (snd kv) p")
      case (Inl e)
      with False show ?thesis by (simp add: without_field_def)
    next
      case (Inr q)
      from Event_p_field_keeps_raw [OF False Inr]
      have "Event_p_TimeRemaining q = Event_p_TimeRemaining p" .
      with False Inr Cons.IH [of q] show ?thesis
        by (simp add: without_field_def field_value_Cons split: option.splits)
    qed
  qed
qed

lemma field_value_without_field: "field_value k (without_field k kvs) = None"
  by (simp add: field_value_def field_values_def without_field_def)

lemma Event_UnmarshalJSON_without_time_remaining:
  "Event_UnmarshalJSON i (JObject kvs) =
     map_res (\<lambda>e. e\<lparr>Event_TimeRemaining :=
                    UnmarshalTimeRemaining (field_value ''time_remaining'' kvs)\<rparr>)
       (Event_UnmarshalJSON i (JObject (without_field ''time_remaining'' kvs)))"
proof -
  let ?p = "\<lparr>Event_p_Mask = i, Event_p_Created = None, Event_p_TimeRemaining = None\<rparr>"
  show ?thesis
    unfolding Event_UnmarshalJSON_def decode_struct.simps
    by (subst decode_members_without_time_remaining)
       (cases "decode_members Event_p_field (without_field ''time_remaining'' kvs) ?p",
        simp_all split: option.splits)
qed

lemma split_on_plain: "sep \<notin> set w \<Longrightarrow> split_on sep w = [w]"
  by (induction w) auto

lemma split_on_append:
  "sep \<notin> set w \<Longrightarrow> split_on sep (w @ sep # rest) = w # split_on sep rest"
  by (induction w) auto

lemma number_no_colon: "number w = Some n \<Longrightarrow> CHR '':'' \<notin> set w"
  by (auto simp: number_def list_all_iff is_digit_def split: if_splits)

lemma parse_duration_hms:
  assumes "number h = Some hh" "number m = Some mm" "number sec = Some ss"
    and "length m = 2" "length sec = 2" "mm < 60" "ss < 60"
  shows "parse_duration (h @ '':'' @ m @ '':'' @ sec) = Some (int (hh * 3600 + mm * 60 + ss))"
proof -
  have "split_on CHR '':'' (h @ CHR '':'' # m @ CHR '':'' # sec) = [h, m, sec]"
    using assms(1-3)
    by (simp add: split_on_append split_on_plain number_no_colon)
  with assms show ?thesis by (simp add: parse_duration_def)
qed

text \<open>
  Claim C4.  The duration decoder has no error result.  Absent and null are no value; a
  bare integer \<open>n\<close> is \<open>n\<close> seconds; a string that parses as a duration is its length in
  seconds, and a string \<^verbatim>\<open>H:MM:SS\<close> parses to \<open>3600 H + 60 MM + SS\<close>; a string that does
  not parse is no value.  In \<^verbatim>\<open>Event.UnmarshalJSON\<close> the member \<^verbatim>\<open>time_remaining\<close> never
  decides between success and failure: decoding an object is decoding it without these
  members, and then setting \<^verbatim>\<open>TimeRemaining\<close> to what the decoder makes of the last of
  them.
\<close>

theorem duration_decoding:
  "UnmarshalTimeRemaining None = None
   \<and> UnmarshalTimeRemaining (Some JNull) = None
   \<and> UnmarshalTimeRemaining (Some (JInt n)) = Some n
   \<and> (parse_duration s = Some d \<longrightarrow> UnmarshalTimeRemaining (Some (JString s)) = Some d)
   \<and> (parse_duration s = None \<longrightarrow> UnmarshalTimeRemaining (Some (JString s)) = None)
   \<and> (number h = Some hh \<and> number m = Some mm \<and> number sec = Some ss
        \<and> length m = 2 \<and> length sec = 2 \<and> mm < 60 \<and> ss < 60 \<longrightarrow>
      parse_duration (h @ '':'' @ m @ '':'' @ sec) = Some (int (hh * 3600 + mm * 60 + ss)))
   \<and> Event_UnmarshalJSON i (JObject kvs) =
       map_res (\<lambda>e. e\<lparr>Event_TimeRemaining :=
                      UnmarshalTimeRemaining (field_value ''time_remaining'' kvs)\<rparr>)
         (Event_UnmarshalJSON i (JObject (without_field ''time_remaining'' kvs)))"
  using parse_duration_hms [of h hh m mm sec ss]
    Event_UnmarshalJSON_without_time_remaining [of i kvs]
  by simp

text \<open>
  The values 42, \<^verbatim>\<open>1:02:03\<close> and \<^verbatim>\<open>bogus\<close>; and an event whose \<^verbatim>\<open>time_remaining\<close> is
  \<^verbatim>\<open>bogus\<close> decodes as the same object without the member, with no time remaining.
\<close>

theorem duration_decoding_witness:
  "UnmarshalTimeRemaining (Some (JInt 42)) = Some 42
   \<and> UnmarshalTimeRemaining (Some (JString ''1:02:03'')) = Some 3723
   \<and> UnmarshalTimeRemaining (Some (JString ''bogus'')) = None
   \<and> Event_UnmarshalJSON Event_zero
       (JObject [(''id'', JInt 7), (''time_remaining'', JString ''bogus'')]) =
     Inr (Event_zero\<lparr>Event_ID := 7\<rparr>)"
proof -
  let ?kvs = "[(''id'', JInt 7), (''time_remaining'', JString ''bogus'')]"
  have bogus: "parse_duration ''bogus'' = None" by code_simp
  have nums: "number ''1'' = Some 1" "number ''02'' = Some 2" "number ''03'' = Some 3"
    by code_simp+
  have rest: "without_field ''time_remaining'' ?kvs = [(''id'', JInt 7)]" by code_simp
  have val: "field_value ''time_remaining'' ?kvs = Some (JString ''bogus'')" by code_simp
  have plain: "Event_UnmarshalJSON Event_zero (JObject [(''id'', JInt 7)]) =
      Inr (Event_zero\<lparr>Event_ID := 7\<rparr>)"
    by code_simp
  note t = duration_decoding [where n = 42 and s = "''bogus''" and h = "''1''" and hh = 1
      and m = "''02''" and mm = 2 and sec = "''03''" and ss = 3
      and i = Event_zero and kvs = ?kvs]
  from t have "UnmarshalTimeRemaining (Some (JInt 42)) = Some 42" by blast
  moreover from t nums have "parse_duration (''1'' @ '':'' @ ''02'' @ '':'' @ ''03'') = Some 3723"
    by simp
  then have "UnmarshalTimeRemaining (Some (JString ''1:02:03'')) = Some 3723" by simp
  moreover from t bogus have none: "UnmarshalTimeRemaining (Some (JString ''bogus'')) = None"
    by blast
  moreover from t have "Event_UnmarshalJSON Event_zero (JObject ?kvs) =
       map_res (\<lambda>e. e\<lparr>Event_TimeRemaining :=
                      UnmarshalTimeRemaining (field_value ''time_remaining'' ?kvs)\<rparr>)
         (Event_UnmarshalJSON Event_zero (JObject (without_field ''time_remaining'' ?kvs)))"
    by blast
  then have "Event_UnmarshalJSON Event_zero (JObject ?kvs) = Inr (Event_zero\<lparr>Event_ID := 7\<rparr>)"
    by (simp only: rest val plain) (simp add: bogus Event_zero_def)
  ultimately show ?thesis by blast
qed

subsection \<open>The identifier of a related entity\<close>







end
